theory Spec2Isabelle
  imports Complex_Main
begin

section \<open>Data model of the reconstruction helpers\<close>

text \<open>
  The helpers of \<^verbatim>\<open>Examples/Python/python/acts/examples/reconstruction.py\<close> build a
  processing chain by constructing algorithm and writer objects from keyword arguments
  and appending them to a \<^verbatim>\<open>Sequencer\<close>. An element is kept here as the class name and
  the keyword arguments of its constructor call, in the order the source writes them.
\<close>

type_synonym key = string

text \<open>A path is the list of its components; the empty list is the working directory.\<close>

type_synonym path = "string list"

text \<open>
  The logging levels. The enumeration is declared in the core library, outside the
  files at hand; its \<^verbatim>\<open>.value\<close> follows the order of declaration.
\<close>

datatype level = VERBOSE | DEBUG | INFO | WARNING | ERROR | FATAL

fun level_value :: "level \<Rightarrow> nat" where
  "level_value VERBOSE = 0"
| "level_value DEBUG = 1"
| "level_value INFO = 2"
| "level_value WARNING = 3"
| "level_value ERROR = 4"
| "level_value FATAL = 5"

text \<open>
  Values of keyword arguments: numbers, strings (product keys, tree names), the text of a
  path (\<^verbatim>\<open>str(p)\<close>), lists, a reference to an object handed in by the caller (geometry,
  magnetic field, random numbers), and an object built in place from keyword arguments.
\<close>

datatype pval =
    Num real
  | IntV int
  | Bool bool
  | Str string
  | PathStr path
  | Lvl level
  | Vec "pval list"
  | Ref nat
  | Obj string "(string \<times> pval) list"

record element =
  cls :: string
  config :: "(string \<times> pval) list"

datatype kind = Algorithm | Writer

record sequencer =
  events :: "int option"
  numThreads :: "int option"
  logLevel :: level
  skip :: "int option"
  stages :: "(kind \<times> element) list"

text \<open>
  What a helper can change: the sequencer it is handed (mutated in place), the directories
  of the file system, and the messages given to a logger.
\<close>

record world =
  seq :: sequencer
  dirs :: "path set"
  logged :: "(string \<times> level \<times> string) list"

datatype error =
    NameError string
  | UnboundLocalError string
  | AttributeError string
  | RuntimeError string
  | FileNotFoundError path
  | FileExistsError path
  | ThresholdFailure string

text \<open>
  A call either returns or raises; since the sequencer is mutated in place, the world at
  the moment of the raise is what the caller is left with.
\<close>

datatype outcome = Returned world | Raised error world

fun final :: "outcome \<Rightarrow> world" where
  "final (Returned w) = w"
| "final (Raised e w) = w"

fun raised :: "outcome \<Rightarrow> error option" where
  "raised (Returned w) = None"
| "raised (Raised e w) = Some e"

definition addAlgorithm :: "element \<Rightarrow> world \<Rightarrow> world" where
  "addAlgorithm el w = w\<lparr>seq := (seq w)\<lparr>stages := stages (seq w) @ [(Algorithm, el)]\<rparr>\<rparr>"

definition addWriter :: "element \<Rightarrow> world \<Rightarrow> world" where
  "addWriter el w = w\<lparr>seq := (seq w)\<lparr>stages := stages (seq w) @ [(Writer, el)]\<rparr>\<rparr>"

text \<open>The stages a call appended to a sequencer that held \<open>n\<close> stages before.\<close>

definition added :: "world \<Rightarrow> outcome \<Rightarrow> (kind \<times> element) list" where
  "added w0 r = drop (length (stages (seq w0))) (stages (seq (final r)))"

subsection \<open>Reading configuration back\<close>

text \<open>
  \<^verbatim>\<open>alg.config.outputParticles\<close> reads a constructor argument back. Every such read in
  the source names an argument the constructor call has set.
\<close>

fun as_key :: "pval \<Rightarrow> key" where
  "as_key (Str k) = k"
| "as_key v = []"

definition cfg_key :: "element \<Rightarrow> string \<Rightarrow> key" where
  "cfg_key el n = (case map_of (config el) n of Some v \<Rightarrow> as_key v | None \<Rightarrow> [])"

text \<open>
  \<^verbatim>\<open>defaultKWArgs(**kwargs)\<close> drops the arguments whose value is \<^verbatim>\<open>None\<close>, so that the
  default of the configured class applies.
\<close>

fun defaultKWArgs :: "(string \<times> pval option) list \<Rightarrow> (string \<times> pval) list" where
  "defaultKWArgs [] = []"
| "defaultKWArgs ((n, None) # kvs) = defaultKWArgs kvs"
| "defaultKWArgs ((n, Some v) # kvs) = (n, v) # defaultKWArgs kvs"

subsection \<open>Names of the module\<close>

text \<open>
  The names bound at module level in \<^verbatim>\<open>reconstruction.py\<close>: its imports, the unit
  constants, the enumerations, the named tuples and the functions. A name that a function
  body reads without assigning it is looked up here.
\<close>

definition module_globals :: "(string \<times> pval) list" where
  "module_globals =
    [(''Path'', Obj ''type'' []), (''Optional'', Obj ''typing'' []),
     (''Union'', Obj ''typing'' []), (''Enum'', Obj ''type'' []),
     (''namedtuple'', Obj ''function'' []), (''warnings'', Obj ''module'' []),
     (''acts'', Obj ''module'' []), (''u'', Obj ''UnitConstants'' []),
     (''SeedingAlgorithm'', Obj ''type'' []), (''TruthSeedRanges'', Obj ''type'' []),
     (''ParticleSmearingSigmas'', Obj ''type'' []),
     (''SeedfinderConfigArg'', Obj ''type'' []),
     (''TrackParamsEstimationConfig'', Obj ''type'' []),
     (''addSeeding'', Obj ''function'' []), (''addKalmanTracks'', Obj ''function'' []),
     (''addTruthTrackingGsf'', Obj ''function'' []),
     (''CKFPerformanceConfig'', Obj ''type'' []), (''addCKFTracks'', Obj ''function'' []),
     (''addExaTrkx'', Obj ''function'' []), (''VertexFinder'', Obj ''type'' []),
     (''addVertexFitting'', Obj ''function'' [])]"

definition load_global :: "string \<Rightarrow> error + pval" where
  "load_global n = (case map_of module_globals n of Some v \<Rightarrow> Inr v | None \<Rightarrow> Inl (NameError n))"

fun getattr :: "pval \<Rightarrow> string \<Rightarrow> error + pval" where
  "getattr (Obj c kvs) n = (case map_of kvs n of Some v \<Rightarrow> Inr v | None \<Rightarrow> Inl (AttributeError n))"
| "getattr v n = Inl (AttributeError n)"

section \<open>The surroundings of the helpers\<close>

text \<open>
  What the helpers use and the files at hand do not hold is a parameter:
  \<^item> whether a message logged at \<^verbatim>\<open>FATAL\<close> raises (the failure threshold of the logging
    library, which \<^verbatim>\<open>physmon.py\<close> sets through \<^verbatim>\<open>ACTS_LOG_FAILURE_THRESHOLD\<close>);
  \<^item> the default a configuration class gives an attribute that was not set;
  \<^item> \<^verbatim>\<open>readJsonGeometryList\<close>, the geometry selection read from a file.
\<close>

record env =
  fatalRaises :: bool
  cxxDefault :: "string \<Rightarrow> string \<Rightarrow> pval"
  readJsonGeometryList :: "string \<Rightarrow> pval"

definition logger_info :: "string \<Rightarrow> string \<Rightarrow> world \<Rightarrow> world" where
  "logger_info name msg w = w\<lparr>logged := logged w @ [(name, INFO, msg)]\<rparr>"

definition logger_fatal :: "env \<Rightarrow> string \<Rightarrow> string \<Rightarrow> world \<Rightarrow> outcome" where
  "logger_fatal env name msg w =
    (let w' = w\<lparr>logged := logged w @ [(name, FATAL, msg)]\<rparr>
     in if fatalRaises env then Raised (ThresholdFailure msg) w' else Returned w')"

text \<open>Reading an attribute of a configuration object: what was set, else the default.\<close>

fun obj_attr :: "env \<Rightarrow> pval \<Rightarrow> string \<Rightarrow> pval" where
  "obj_attr env (Obj c kvs) n = (case map_of kvs n of Some v \<Rightarrow> v | None \<Rightarrow> cxxDefault env c n)"
| "obj_attr env v n = v"

subsection \<open>Paths\<close>

fun str_path :: "path \<Rightarrow> string" where
  "str_path [] = ''.''"
| "str_path [c] = c"
| "str_path (c # cs) = c @ ''/'' @ str_path cs"

text \<open>\<^verbatim>\<open>str(geoSelectionConfigFile)\<close>, where the argument may be \<^verbatim>\<open>None\<close>.\<close>

definition str_opt_path :: "path option \<Rightarrow> string" where
  "str_opt_path p = (case p of None \<Rightarrow> ''None'' | Some q \<Rightarrow> str_path q)"

definition path_exists :: "path set \<Rightarrow> path \<Rightarrow> bool" where
  "path_exists d p = (p = [] \<or> p \<in> d)"

text \<open>
  \<^verbatim>\<open>Path.mkdir()\<close> with its defaults: the parent must exist, the path must not.
\<close>

definition mkdir :: "path \<Rightarrow> world \<Rightarrow> outcome" where
  "mkdir p w =
    (if path_exists (dirs w) p then Raised (FileExistsError p) w
     else if \<not> path_exists (dirs w) (butlast p) then Raised (FileNotFoundError p) w
     else Returned (w\<lparr>dirs := insert p (dirs w)\<rparr>))"

text \<open>
  The lines \<^verbatim>\<open>outputDirRoot = Path(outputDirRoot)\<close>,
  \<^verbatim>\<open>if not outputDirRoot.exists(): outputDirRoot.mkdir()\<close>.
\<close>

definition ensure_dir :: "path \<Rightarrow> world \<Rightarrow> outcome" where
  "ensure_dir p w = (if \<not> path_exists (dirs w) p then mkdir p w else Returned w)"

section \<open>addSeeding\<close>

datatype SeedingAlgorithm =
    Default
  | TruthSmeared
  | TruthEstimated
  | Orthogonal
  | NoSeedingAlgorithm string \<comment> \<open>any value that is no member of the enumeration, by its text\<close>

type_synonym range = "real option \<times> real option"

record TruthSeedRanges =
  rho :: range
  z :: range
  phi :: range
  eta :: range
  absEta :: range
  pt :: range
  nHits :: range

record ParticleSmearingSigmas =
  d0 :: "real option"
  d0PtA :: "real option"
  d0PtB :: "real option"
  z0 :: "real option"
  z0PtA :: "real option"
  z0PtB :: "real option"
  t0 :: "real option"
  phi :: "real option"
  theta :: "real option"
  pRel :: "real option"

record SeedfinderConfigArg =
  maxSeedsPerSpM :: "real option"
  cotThetaMax :: "real option"
  sigmaScattering :: "real option"
  radLengthPerSeed :: "real option"
  minPt :: "real option"
  bFieldInZ :: "real option"
  impactMax :: "real option"
  deltaR :: range
  collisionRegion :: range
  r :: range
  z :: range
  beamPos :: "range option"

record TrackParamsEstimationConfig =
  deltaR :: range

text \<open>
  \<^verbatim>\<open>customLogLevel\<close>: the level of the sequencer unless \<^verbatim>\<open>logLevel\<close> is given, then
  \<^verbatim>\<open>Level(max(custom.value, logLevel.value))\<close>.
\<close>

definition customLogLevel :: "level option \<Rightarrow> sequencer \<Rightarrow> level \<Rightarrow> level" where
  "customLogLevel lvl s custom =
    (case lvl of
       None \<Rightarrow> sequencer.logLevel s
     | Some l \<Rightarrow> (if level_value custom \<le> level_value l then l else custom))"

definition num :: "real option \<Rightarrow> pval option" where
  "num x = map_option Num x"

text \<open>\<^verbatim>\<open>x or 0.0\<close>: a value that is \<^verbatim>\<open>None\<close> or zero gives \<^verbatim>\<open>0.0\<close>.\<close>

definition or_zero :: "real option \<Rightarrow> real" where
  "or_zero x = (case x of None \<Rightarrow> 0 | Some v \<Rightarrow> (if v = 0 then 0 else v))"

definition beamPos_arg :: "SeedfinderConfigArg \<Rightarrow> pval option" where
  "beamPos_arg c =
    (case beamPos c of
       None \<Rightarrow> None
     | Some b \<Rightarrow>
        (if fst b = None \<and> snd b = None then None
         else Some (Obj ''Vector2'' [(''0'', Num (or_zero (fst b))), (''1'', Num (or_zero (snd b)))])))"

definition mkTruthSeedSelector :: "TruthSeedRanges \<Rightarrow> level \<Rightarrow> string \<Rightarrow> element" where
  "mkTruthSeedSelector t lvl inputParticles =
    \<lparr>cls = ''TruthSeedSelector'', config =
       defaultKWArgs
         [(''ptMin'', num (fst (pt t))), (''ptMax'', num (snd (pt t))),
          (''etaMin'', num (fst (eta t))), (''etaMax'', num (snd (eta t))),
          (''nHitsMin'', num (fst (nHits t))), (''nHitsMax'', num (snd (nHits t))),
          (''rhoMin'', num (fst (rho t))), (''rhoMax'', num (snd (rho t))),
          (''zMin'', num (fst (TruthSeedRanges.z t))), (''zMax'', num (snd (TruthSeedRanges.z t))),
          (''phiMin'', num (fst (TruthSeedRanges.phi t))),
          (''phiMax'', num (snd (TruthSeedRanges.phi t))),
          (''absEtaMin'', num (fst (absEta t))), (''absEtaMax'', num (snd (absEta t)))]
       @ [(''level'', Lvl lvl),
          (''inputParticles'', Str inputParticles),
          (''inputMeasurementParticlesMap'', Str ''measurement_particles_map''),
          (''outputParticles'', Str ''truth_seeds_selected'')]\<rparr>"

definition mkParticleSmearing ::
  "level \<Rightarrow> key \<Rightarrow> pval \<Rightarrow> ParticleSmearingSigmas \<Rightarrow> real list option \<Rightarrow> element" where
  "mkParticleSmearing lvl selectedParticles rndv g infl =
    \<lparr>cls = ''ParticleSmearing'', config =
       [(''level'', Lvl lvl),
        (''inputParticles'', Str selectedParticles),
        (''outputTrackParameters'', Str ''estimatedparameters''),
        (''randomNumbers'', rndv)]
       @ defaultKWArgs
         [(''sigmaD0'', num (d0 g)), (''sigmaD0PtA'', num (d0PtA g)),
          (''sigmaD0PtB'', num (d0PtB g)), (''sigmaZ0'', num (z0 g)),
          (''sigmaZ0PtA'', num (z0PtA g)), (''sigmaZ0PtB'', num (z0PtB g)),
          (''sigmaT0'', num (t0 g)), (''sigmaPhi'', num (ParticleSmearingSigmas.phi g)),
          (''sigmaTheta'', num (theta g)), (''sigmaPRel'', num (pRel g)),
          (''initialVarInflation'', map_option (\<lambda>l. Vec (map Num l)) infl)]\<rparr>"

definition mkSpacePointMaker :: "env \<Rightarrow> level \<Rightarrow> nat \<Rightarrow> path option \<Rightarrow> element" where
  "mkSpacePointMaker env lvl trackingGeometry geoSel =
    \<lparr>cls = ''SpacePointMaker'', config =
       [(''level'', Lvl lvl),
        (''inputSourceLinks'', Str ''sourcelinks''),
        (''inputMeasurements'', Str ''measurements''),
        (''outputSpacePoints'', Str ''spacepoints''),
        (''trackingGeometry'', Ref trackingGeometry),
        (''geometrySelection'', readJsonGeometryList env (str_opt_path geoSel))]\<rparr>"

definition mkTruthTrackFinder :: "level \<Rightarrow> key \<Rightarrow> key \<Rightarrow> element" where
  "mkTruthTrackFinder lvl selectedParticles mpm =
    \<lparr>cls = ''TruthTrackFinder'', config =
       [(''level'', Lvl lvl),
        (''inputParticles'', Str selectedParticles),
        (''inputMeasurementParticlesMap'', Str mpm),
        (''outputProtoTracks'', Str ''prototracks'')]\<rparr>"

definition mkSeedfinderConfig :: "SeedfinderConfigArg \<Rightarrow> pval" where
  "mkSeedfinderConfig c =
    Obj ''SeedfinderConfig''
      (defaultKWArgs
        [(''rMin'', num (fst (r c))), (''rMax'', num (snd (r c))),
         (''deltaRMin'', num (fst (SeedfinderConfigArg.deltaR c))),
         (''deltaRMax'', num (snd (SeedfinderConfigArg.deltaR c))),
         (''deltaRMinTopSP'', num (fst (SeedfinderConfigArg.deltaR c))),
         (''deltaRMinBottomSP'', num (fst (SeedfinderConfigArg.deltaR c))),
         (''deltaRMaxTopSP'', num (snd (SeedfinderConfigArg.deltaR c))),
         (''deltaRMaxBottomSP'', num (snd (SeedfinderConfigArg.deltaR c))),
         (''collisionRegionMin'', num (fst (collisionRegion c))),
         (''collisionRegionMax'', num (snd (collisionRegion c))),
         (''zMin'', num (fst (SeedfinderConfigArg.z c))),
         (''zMax'', num (snd (SeedfinderConfigArg.z c))),
         (''maxSeedsPerSpM'', num (maxSeedsPerSpM c)),
         (''cotThetaMax'', num (cotThetaMax c)),
         (''sigmaScattering'', num (sigmaScattering c)),
         (''radLengthPerSeed'', num (radLengthPerSeed c)),
         (''minPt'', num (minPt c)),
         (''bFieldInZ'', num (bFieldInZ c)),
         (''impactMax'', num (impactMax c)),
         (''beamPos'', beamPos_arg c)])"

definition mkSeedFinderOrthogonalConfig :: "SeedfinderConfigArg \<Rightarrow> pval" where
  "mkSeedFinderOrthogonalConfig c =
    Obj ''SeedFinderOrthogonalConfig''
      (defaultKWArgs
        [(''rMin'', num (fst (r c))), (''rMax'', num (snd (r c))),
         (''deltaRMin'', num (fst (SeedfinderConfigArg.deltaR c))),
         (''deltaRMax'', num (snd (SeedfinderConfigArg.deltaR c))),
         (''collisionRegionMin'', num (fst (collisionRegion c))),
         (''collisionRegionMax'', num (snd (collisionRegion c))),
         (''zMin'', num (fst (SeedfinderConfigArg.z c))),
         (''zMax'', num (snd (SeedfinderConfigArg.z c))),
         (''maxSeedsPerSpM'', num (maxSeedsPerSpM c)),
         (''cotThetaMax'', num (cotThetaMax c)),
         (''sigmaScattering'', num (sigmaScattering c)),
         (''radLengthPerSeed'', num (radLengthPerSeed c)),
         (''minPt'', num (minPt c)),
         (''bFieldInZ'', num (bFieldInZ c)),
         (''impactMax'', num (impactMax c)),
         (''beamPos'', beamPos_arg c)])"

definition mkSeedFilterConfig :: "env \<Rightarrow> pval \<Rightarrow> pval" where
  "mkSeedFilterConfig env seedFinderConfig =
    Obj ''SeedFilterConfig''
      [(''maxSeedsPerSpM'', obj_attr env seedFinderConfig ''maxSeedsPerSpM''),
       (''deltaRMin'', obj_attr env seedFinderConfig ''deltaRMin'')]"

definition mkSpacePointGridConfig :: "env \<Rightarrow> pval \<Rightarrow> pval" where
  "mkSpacePointGridConfig env seedFinderConfig =
    Obj ''SpacePointGridConfig''
      [(''bFieldInZ'', obj_attr env seedFinderConfig ''bFieldInZ''),
       (''minPt'', obj_attr env seedFinderConfig ''minPt''),
       (''rMax'', obj_attr env seedFinderConfig ''rMax''),
       (''zMax'', obj_attr env seedFinderConfig ''zMax''),
       (''zMin'', obj_attr env seedFinderConfig ''zMin''),
       (''deltaRMax'', obj_attr env seedFinderConfig ''deltaRMax''),
       (''cotThetaMax'', obj_attr env seedFinderConfig ''cotThetaMax'')]"

definition mkSeedingAlgorithm :: "env \<Rightarrow> level \<Rightarrow> element \<Rightarrow> SeedfinderConfigArg \<Rightarrow> element" where
  "mkSeedingAlgorithm env lvl spAlg c =
    (let seedFinderConfig = mkSeedfinderConfig c;
         seedFilterConfig = mkSeedFilterConfig env seedFinderConfig;
         gridConfig = mkSpacePointGridConfig env seedFinderConfig
     in \<lparr>cls = ''SeedingAlgorithm'', config =
          [(''level'', Lvl lvl),
           (''inputSpacePoints'', Vec [Str (cfg_key spAlg ''outputSpacePoints'')]),
           (''outputSeeds'', Str ''seeds''),
           (''outputProtoTracks'', Str ''prototracks''),
           (''gridConfig'', gridConfig),
           (''seedFilterConfig'', seedFilterConfig),
           (''seedFinderConfig'', seedFinderConfig)]\<rparr>)"

definition mkSeedingOrthogonalAlgorithm ::
  "env \<Rightarrow> level \<Rightarrow> element \<Rightarrow> SeedfinderConfigArg \<Rightarrow> element" where
  "mkSeedingOrthogonalAlgorithm env lvl spAlg c =
    (let seedFinderConfig = mkSeedFinderOrthogonalConfig c;
         seedFilterConfig = mkSeedFilterConfig env seedFinderConfig
     in \<lparr>cls = ''SeedingOrthogonalAlgorithm'', config =
          [(''level'', Lvl lvl),
           (''inputSpacePoints'', Vec [Str (cfg_key spAlg ''outputSpacePoints'')]),
           (''outputSeeds'', Str ''seeds''),
           (''outputProtoTracks'', Str ''prototracks''),
           (''seedFilterConfig'', seedFilterConfig),
           (''seedFinderConfig'', seedFinderConfig)]\<rparr>)"

definition mkTrackParamsEstimationAlgorithm ::
  "level \<Rightarrow> key \<Rightarrow> key \<Rightarrow> element \<Rightarrow> nat \<Rightarrow> nat \<Rightarrow> real list option
     \<Rightarrow> TrackParamsEstimationConfig \<Rightarrow> element" where
  "mkTrackParamsEstimationAlgorithm lvl inputSeeds inputProtoTracks spAlg trackingGeometry field
      infl e =
    \<lparr>cls = ''TrackParamsEstimationAlgorithm'', config =
       [(''level'', Lvl lvl),
        (''inputSeeds'', Str inputSeeds),
        (''inputProtoTracks'', Str inputProtoTracks),
        (''inputSpacePoints'', Vec [Str (cfg_key spAlg ''outputSpacePoints'')]),
        (''inputSourceLinks'', Str (cfg_key spAlg ''inputSourceLinks'')),
        (''outputTrackParameters'', Str ''estimatedparameters''),
        (''outputProtoTracks'', Str ''prototracks_estimated''),
        (''trackingGeometry'', Ref trackingGeometry),
        (''magneticField'', Ref field)]
       @ defaultKWArgs
         [(''initialVarInflation'', map_option (\<lambda>l. Vec (map Num l)) infl),
          (''deltaRMin'', num (fst (TrackParamsEstimationConfig.deltaR e))),
          (''deltaRMax'', num (snd (TrackParamsEstimationConfig.deltaR e)))]\<rparr>"

record addSeeding_args =
  geoSelectionConfigFile :: "path option"
  seedingAlgorithm :: SeedingAlgorithm
  truthSeedRanges :: "TruthSeedRanges option"
  particleSmearingSigmas :: ParticleSmearingSigmas
  initialVarInflation :: "real list option"
  seedfinderConfigArg :: SeedfinderConfigArg
  trackParamsEstimationConfig :: TrackParamsEstimationConfig
  inputParticles :: string
  outputDirRoot :: "path option"
  logLevel :: "level option"
  rnd :: "nat option"

fun str_SeedingAlgorithm :: "SeedingAlgorithm \<Rightarrow> string" where
  "str_SeedingAlgorithm Default = ''SeedingAlgorithm.Default''"
| "str_SeedingAlgorithm TruthSmeared = ''SeedingAlgorithm.TruthSmeared''"
| "str_SeedingAlgorithm TruthEstimated = ''SeedingAlgorithm.TruthEstimated''"
| "str_SeedingAlgorithm Orthogonal = ''SeedingAlgorithm.Orthogonal''"
| "str_SeedingAlgorithm (NoSeedingAlgorithm x) = x"

text \<open>
  The chain \<^verbatim>\<open>if seedingAlgorithm == TruthEstimated: ... elif Default: ... elif Orthogonal:
  ... else: logger.fatal(...)\<close>. It leaves the locals \<^verbatim>\<open>inputProtoTracks\<close> and
  \<^verbatim>\<open>inputSeeds\<close> bound (\<open>Some\<close>) or not (\<open>None\<close>). The local \<^verbatim>\<open>selAlg\<close> is bound
  only when \<^verbatim>\<open>truthSeedRanges\<close> was not \<^verbatim>\<open>None\<close>.
\<close>

definition seeding_finder ::
  "env \<Rightarrow> addSeeding_args \<Rightarrow> (level \<Rightarrow> level) \<Rightarrow> element \<Rightarrow> element option \<Rightarrow> key \<Rightarrow> world
     \<Rightarrow> outcome \<times> key option \<times> key option" where
  "seeding_finder env a customLL spAlg selAlg selectedParticles w =
    (if seedingAlgorithm a = TruthEstimated then
       (let w1 = logger_info ''addSeeding''
                   ''Using truth track finding from space points for seeding'' w
        in case selAlg of
             None \<Rightarrow> (Raised (UnboundLocalError ''selAlg'') w1, None, None)
           | Some sel \<Rightarrow>
              (let truthTrackFinder = mkTruthTrackFinder (customLL INFO) selectedParticles
                     (cfg_key sel ''inputMeasurementParticlesMap'')
               in (Returned (addAlgorithm truthTrackFinder w1),
                   Some (cfg_key truthTrackFinder ''outputProtoTracks''), Some [])))
     else if seedingAlgorithm a = Default then
       (let w1 = logger_info ''addSeeding'' ''Using default seeding'' w;
            seedingAlg = mkSeedingAlgorithm env (customLL VERBOSE) spAlg (seedfinderConfigArg a)
        in (Returned (addAlgorithm seedingAlg w1),
            Some (cfg_key seedingAlg ''outputProtoTracks''),
            Some (cfg_key seedingAlg ''outputSeeds'')))
     else if seedingAlgorithm a = Orthogonal then
       (let w1 = logger_info ''addSeeding'' ''Using orthogonal seeding'' w;
            seedingAlg = mkSeedingOrthogonalAlgorithm env (customLL VERBOSE) spAlg
                           (seedfinderConfigArg a)
        in (Returned (addAlgorithm seedingAlg w1),
            Some (cfg_key seedingAlg ''outputProtoTracks''),
            Some (cfg_key seedingAlg ''outputSeeds'')))
     else
       (logger_fatal env ''addSeeding''
          (''unknown seedingAlgorithm '' @ str_SeedingAlgorithm (seedingAlgorithm a)) w,
        None, None))"

text \<open>The writers of the block \<^verbatim>\<open>if outputDirRoot is not None:\<close> at the end of the function.\<close>

definition mkTrackFinderPerformanceWriter :: "level \<Rightarrow> key \<Rightarrow> key \<Rightarrow> key \<Rightarrow> path \<Rightarrow> element" where
  "mkTrackFinderPerformanceWriter lvl inputProtoTracks selectedParticles mpm d =
    \<lparr>cls = ''TrackFinderPerformanceWriter'', config =
       [(''level'', Lvl lvl),
        (''inputProtoTracks'', Str inputProtoTracks),
        (''inputParticles'', Str selectedParticles),
        (''inputMeasurementParticlesMap'', Str mpm),
        (''filePath'', PathStr (d @ [''performance_seeding_trees.root'']))]\<rparr>"

definition mkSeedingPerformanceWriter :: "level \<Rightarrow> key \<Rightarrow> key \<Rightarrow> key \<Rightarrow> path \<Rightarrow> element" where
  "mkSeedingPerformanceWriter lvl inputProtoTracks selectedParticles mpm d =
    \<lparr>cls = ''SeedingPerformanceWriter'', config =
       [(''level'', Lvl lvl),
        (''inputProtoTracks'', Str inputProtoTracks),
        (''inputParticles'', Str selectedParticles),
        (''inputMeasurementParticlesMap'', Str mpm),
        (''filePath'', PathStr (d @ [''performance_seeding_hists.root'']))]\<rparr>"

definition mkRootTrackParameterWriter ::
  "level \<Rightarrow> key \<Rightarrow> key \<Rightarrow> key \<Rightarrow> key \<Rightarrow> path \<Rightarrow> element" where
  "mkRootTrackParameterWriter lvl inputTrackParameters inputProtoTracks particles mpm d =
    \<lparr>cls = ''RootTrackParameterWriter'', config =
       [(''level'', Lvl lvl),
        (''inputTrackParameters'', Str inputTrackParameters),
        (''inputProtoTracks'', Str inputProtoTracks),
        (''inputParticles'', Str particles),
        (''inputSimHits'', Str ''simhits''),
        (''inputMeasurementParticlesMap'', Str mpm),
        (''inputMeasurementSimHitsMap'', Str ''measurement_simhits_map''),
        (''filePath'', PathStr (d @ [''estimatedparams.root''])),
        (''treeName'', Str ''estimatedparams'')]\<rparr>"

text \<open>
  The block itself. \<^verbatim>\<open>selAlg\<close> is first read when the first writer is constructed,
  after the directory was made.
\<close>

definition seeding_writers ::
  "addSeeding_args \<Rightarrow> (level \<Rightarrow> level) \<Rightarrow> element option \<Rightarrow> key \<Rightarrow> key \<Rightarrow> element \<Rightarrow> path
     \<Rightarrow> world \<Rightarrow> outcome" where
  "seeding_writers a customLL selAlg selectedParticles inputProtoTracks parEstimateAlg d w =
    (case ensure_dir d w of
       Raised e w1 \<Rightarrow> Raised e w1
     | Returned w1 \<Rightarrow>
        (case selAlg of
           None \<Rightarrow> Raised (UnboundLocalError ''selAlg'') w1
         | Some sel \<Rightarrow>
            (let w2 = addWriter (mkTrackFinderPerformanceWriter (customLL INFO) inputProtoTracks
                        selectedParticles (cfg_key sel ''inputMeasurementParticlesMap'') d) w1;
                 w3 = addWriter (mkSeedingPerformanceWriter (customLL DEBUG) inputProtoTracks
                        selectedParticles (cfg_key sel ''inputMeasurementParticlesMap'') d) w2;
                 w4 = addWriter (mkRootTrackParameterWriter (customLL VERBOSE)
                        (cfg_key parEstimateAlg ''outputTrackParameters'')
                        (cfg_key parEstimateAlg ''outputProtoTracks'')
                        (inputParticles a)
                        (cfg_key sel ''inputMeasurementParticlesMap'') d) w3
             in Returned w4)))"

text \<open>
  The function. The debug dump of the arguments (\<^verbatim>\<open>dump_args_calls\<close>) only prints and is
  left out. The constructors of the algorithms are taken to succeed.
\<close>

definition addSeeding :: "env \<Rightarrow> world \<Rightarrow> nat \<Rightarrow> nat \<Rightarrow> addSeeding_args \<Rightarrow> outcome" where
  "addSeeding env w trackingGeometry field a =
    (let customLL = customLogLevel (addSeeding_args.logLevel a) (seq w);
         selAlg = map_option (\<lambda>t. mkTruthSeedSelector t (customLL INFO) (inputParticles a))
                    (truthSeedRanges a);
         w1 = (case selAlg of Some sel \<Rightarrow> addAlgorithm sel w | None \<Rightarrow> w);
         selectedParticles =
           (case selAlg of Some sel \<Rightarrow> cfg_key sel ''outputParticles'' | None \<Rightarrow> inputParticles a)
     in if seedingAlgorithm a = TruthSmeared then
          (let rndv = (case rnd a of
                         Some x \<Rightarrow> Ref x
                       | None \<Rightarrow> Obj ''RandomNumbers'' [(''seed'', IntV 42)]);
               w2 = logger_info ''addSeeding'' ''Using smeared truth particles for seeding'' w1;
               ptclSmear = mkParticleSmearing (customLL INFO) selectedParticles rndv
                             (particleSmearingSigmas a) (initialVarInflation a)
           in Returned (addAlgorithm ptclSmear w2))
        else
          (let spAlg = mkSpacePointMaker env (customLL INFO) trackingGeometry
                         (geoSelectionConfigFile a);
               w2 = addAlgorithm spAlg w1
           in case seeding_finder env a customLL spAlg selAlg selectedParticles w2 of
                (Raised e w3, inputProtoTracks, inputSeeds) \<Rightarrow> Raised e w3
              | (Returned w3, inputProtoTracks, inputSeeds) \<Rightarrow>
                 (case inputSeeds of
                    None \<Rightarrow> Raised (UnboundLocalError ''inputSeeds'') w3
                  | Some iS \<Rightarrow>
                     (case inputProtoTracks of
                        None \<Rightarrow> Raised (UnboundLocalError ''inputProtoTracks'') w3
                      | Some iP \<Rightarrow>
                         (let parEstimateAlg = mkTrackParamsEstimationAlgorithm
                                (customLL VERBOSE) iS iP spAlg trackingGeometry field
                                (initialVarInflation a) (trackParamsEstimationConfig a);
                              w4 = addAlgorithm parEstimateAlg w3
                          in case outputDirRoot a of
                               None \<Rightarrow> Returned w4
                             | Some d \<Rightarrow> seeding_writers a customLL selAlg selectedParticles iP
                                          parEstimateAlg d w4)))))"

section \<open>addCKFTracks\<close>

record CKFPerformanceConfig =
  truthMatchProbMin :: "real option"
  nMeasurementsMin :: "real option"
  ptMin :: "real option"

definition mkTrackFindingAlgorithm :: "level \<Rightarrow> nat \<Rightarrow> nat \<Rightarrow> element" where
  "mkTrackFindingAlgorithm lvl trackingGeometry field =
    \<lparr>cls = ''TrackFindingAlgorithm'', config =
       [(''level'', Lvl lvl),
        (''measurementSelectorCfg'', Obj ''MeasurementSelector.Config''
           [(''0'', Vec [Vec [Obj ''GeometryIdentifier'' [],
                              Vec [Vec [], Vec [Num 15], Vec [IntV 10]]]])]),
        (''inputMeasurements'', Str ''measurements''),
        (''inputSourceLinks'', Str ''sourcelinks''),
        (''inputInitialTrackParameters'', Str ''estimatedparameters''),
        (''outputTrajectories'', Str ''trajectories''),
        (''outputTrackParameters'', Str ''fittedTrackParameters''),
        (''findTracks'', Obj ''makeTrackFinderFunction''
           [(''0'', Ref trackingGeometry), (''1'', Ref field)])]\<rparr>"

text \<open>The writers of the block \<^verbatim>\<open>if outputDirRoot is not None:\<close> of \<^verbatim>\<open>addCKFTracks\<close>.\<close>

definition mkRootTrajectoryStatesWriter :: "level \<Rightarrow> key \<Rightarrow> path \<Rightarrow> element" where
  "mkRootTrajectoryStatesWriter lvl inputTrajectories d =
    \<lparr>cls = ''RootTrajectoryStatesWriter'', config =
       [(''level'', Lvl lvl),
        (''inputTrajectories'', Str inputTrajectories),
        (''inputParticles'', Str ''particles_selected''),
        (''inputSimHits'', Str ''simhits''),
        (''inputMeasurementParticlesMap'', Str ''measurement_particles_map''),
        (''inputMeasurementSimHitsMap'', Str ''measurement_simhits_map''),
        (''filePath'', PathStr (d @ [''trackstates_ckf.root''])),
        (''treeName'', Str ''trackstates'')]\<rparr>"

definition mkRootTrajectorySummaryWriter :: "level \<Rightarrow> key \<Rightarrow> path \<Rightarrow> element" where
  "mkRootTrajectorySummaryWriter lvl inputTrajectories d =
    \<lparr>cls = ''RootTrajectorySummaryWriter'', config =
       [(''level'', Lvl lvl),
        (''inputTrajectories'', Str inputTrajectories),
        (''inputParticles'', Str ''particles_selected''),
        (''inputMeasurementParticlesMap'', Str ''measurement_particles_map''),
        (''filePath'', PathStr (d @ [''tracksummary_ckf.root''])),
        (''treeName'', Str ''tracksummary'')]\<rparr>"

definition mkCKFPerformanceWriter ::
  "level \<Rightarrow> key \<Rightarrow> key \<Rightarrow> CKFPerformanceConfig \<Rightarrow> path \<Rightarrow> element" where
  "mkCKFPerformanceWriter lvl particles inputTrajectories c d =
    \<lparr>cls = ''CKFPerformanceWriter'', config =
       [(''level'', Lvl lvl),
        (''inputParticles'', Str particles),
        (''inputTrajectories'', Str inputTrajectories),
        (''inputMeasurementParticlesMap'', Str ''measurement_particles_map'')]
       @ defaultKWArgs
         [(''nMeasurementsMin'', num (nMeasurementsMin c)),
          (''ptMin'', num (ptMin c)),
          (''truthMatchProbMin'', num (truthMatchProbMin c))]
       @ [(''filePath'', PathStr (d @ [''performance_ckf.root'']))]\<rparr>"

definition mkCsvMultiTrajectoryWriter :: "level \<Rightarrow> key \<Rightarrow> path \<Rightarrow> element" where
  "mkCsvMultiTrajectoryWriter lvl inputTrajectories d =
    \<lparr>cls = ''CsvMultiTrajectoryWriter'', config =
       [(''level'', Lvl lvl),
        (''inputTrajectories'', Str inputTrajectories),
        (''inputMeasurementParticlesMap'', Str ''measurement_particles_map''),
        (''outputDir'', PathStr d)]\<rparr>"

record addCKFTracks_args =
  CKFPerformanceConfigArg :: CKFPerformanceConfig
  outputDirCsv :: "path option"
  outputDirRoot :: "path option"
  selectedParticles :: string

definition ckf_root_writers :: "addCKFTracks_args \<Rightarrow> element \<Rightarrow> level \<Rightarrow> path \<Rightarrow> world \<Rightarrow> outcome" where
  "ckf_root_writers a trackFinder lvl d w =
    (case ensure_dir d w of
       Raised e w1 \<Rightarrow> Raised e w1
     | Returned w1 \<Rightarrow>
        (let trackStatesWriter = mkRootTrajectoryStatesWriter lvl
               (cfg_key trackFinder ''outputTrajectories'') d;
             w2 = addWriter trackStatesWriter w1;
             trackSummaryWriter = mkRootTrajectorySummaryWriter lvl
               (cfg_key trackFinder ''outputTrajectories'') d;
             w3 = addWriter trackSummaryWriter w2;
             ckfPerfWriter = mkCKFPerformanceWriter lvl (selectedParticles a)
               (cfg_key trackFinder ''outputTrajectories'') (CKFPerformanceConfigArg a) d
         in Returned (addWriter ckfPerfWriter w3)))"

text \<open>The block \<^verbatim>\<open>if outputDirCsv is not None:\<close>.\<close>

definition ckf_csv_writer :: "element \<Rightarrow> level \<Rightarrow> path \<Rightarrow> world \<Rightarrow> outcome" where
  "ckf_csv_writer trackFinder lvl d w =
    (case ensure_dir d w of
       Raised e w1 \<Rightarrow> Raised e w1
     | Returned w1 \<Rightarrow>
        (let w2 = logger_info ''CKFExample'' ''Writing CSV files'' w1;
             csvMTJWriter = mkCsvMultiTrajectoryWriter lvl
               (cfg_key trackFinder ''outputTrajectories'') d
         in Returned (addWriter csvMTJWriter w2)))"

definition addCKFTracks :: "world \<Rightarrow> nat \<Rightarrow> nat \<Rightarrow> addCKFTracks_args \<Rightarrow> outcome" where
  "addCKFTracks w trackingGeometry field a =
    (let lvl = sequencer.logLevel (seq w);
         trackFinder = mkTrackFindingAlgorithm lvl trackingGeometry field;
         w1 = addAlgorithm trackFinder w
     in case (case addCKFTracks_args.outputDirRoot a of
                None \<Rightarrow> Returned w1
              | Some d \<Rightarrow> ckf_root_writers a trackFinder lvl d w1) of
          Raised e w2 \<Rightarrow> Raised e w2
        | Returned w2 \<Rightarrow>
           (case outputDirCsv a of
              None \<Rightarrow> Returned w2
            | Some d \<Rightarrow> ckf_csv_writer trackFinder lvl d w2))"

section \<open>addVertexFitting\<close>

datatype VertexFinder =
    Truth
  | AMVF
  | Iterative
  | NoVertexFinder string \<comment> \<open>any value that is no member of the enumeration\<close>

definition mkTruthVertexFinder :: "level \<Rightarrow> key \<Rightarrow> element" where
  "mkTruthVertexFinder lvl particles =
    \<lparr>cls = ''TruthVertexFinder'', config =
       [(''level'', Lvl lvl),
        (''inputParticles'', Str particles),
        (''outputProtoVertices'', Str ''protovertices''),
        (''excludeSecondaries'', Bool True)]\<rparr>"

definition mkVertexFitterAlgorithm :: "level \<Rightarrow> nat \<Rightarrow> key \<Rightarrow> key \<Rightarrow> key \<Rightarrow> element" where
  "mkVertexFitterAlgorithm lvl field tracks inputProtoVertices outputVertices =
    \<lparr>cls = ''VertexFitterAlgorithm'', config =
       [(''level'', Lvl lvl),
        (''bField'', Ref field),
        (''inputTrackParameters'', Str tracks),
        (''inputProtoVertices'', Str inputProtoVertices),
        (''outputVertices'', Str outputVertices)]\<rparr>"

definition mkIterativeVertexFinderAlgorithm :: "level \<Rightarrow> nat \<Rightarrow> key \<Rightarrow> key \<Rightarrow> element" where
  "mkIterativeVertexFinderAlgorithm lvl field tracks outputVertices =
    \<lparr>cls = ''IterativeVertexFinderAlgorithm'', config =
       [(''level'', Lvl lvl),
        (''bField'', Ref field),
        (''inputTrackParameters'', Str tracks),
        (''outputProtoVertices'', Str ''protovertices''),
        (''outputVertices'', Str outputVertices)]\<rparr>"

definition mkAdaptiveMultiVertexFinderAlgorithm ::
  "level \<Rightarrow> nat \<Rightarrow> key \<Rightarrow> key \<Rightarrow> key \<Rightarrow> element" where
  "mkAdaptiveMultiVertexFinderAlgorithm lvl field tracks outputVertices outputTime =
    \<lparr>cls = ''AdaptiveMultiVertexFinderAlgorithm'', config =
       [(''level'', Lvl lvl),
        (''bField'', Ref field),
        (''inputTrackParameters'', Str tracks),
        (''outputProtoVertices'', Str ''protovertices''),
        (''outputVertices'', Str outputVertices),
        (''outputTime'', Str outputTime)]\<rparr>"

definition mkRootVertexPerformanceWriter ::
  "level \<Rightarrow> key \<Rightarrow> key \<Rightarrow> key \<Rightarrow> key \<Rightarrow> key \<Rightarrow> key \<Rightarrow> path \<Rightarrow> element" where
  "mkRootVertexPerformanceWriter lvl allTruth selectedTruth associatedTruth tracks vertices time d =
    \<lparr>cls = ''RootVertexPerformanceWriter'', config =
       [(''level'', Lvl lvl),
        (''inputAllTruthParticles'', Str allTruth),
        (''inputSelectedTruthParticles'', Str selectedTruth),
        (''inputAssociatedTruthParticles'', Str associatedTruth),
        (''inputFittedTracks'', Str tracks),
        (''inputVertices'', Str vertices),
        (''inputTime'', Str time),
        (''treeName'', Str ''vertexing''),
        (''filePath'', PathStr (d @ [''performance_vertexing.root'']))]\<rparr>"

record addVertexFitting_args =
  outputDirRoot :: "path option"
  associatedParticles :: string
  trackParameters :: string
  vertexFinder :: VertexFinder
  logLevel :: "level option"

text \<open>
  The chain \<^verbatim>\<open>if vertexFinder == Truth: ... elif Iterative: ... elif AMVF: ... else: raise\<close>.
  It gives the world and the value of the local \<^verbatim>\<open>outputTime\<close>.
\<close>

definition vertex_finder ::
  "addVertexFitting_args \<Rightarrow> (level \<Rightarrow> level) \<Rightarrow> nat \<Rightarrow> key \<Rightarrow> key \<Rightarrow> world \<Rightarrow> outcome \<times> key" where
  "vertex_finder a customLL field selected outputVertices w =
    (if vertexFinder a = Truth then
       (let findVertices = mkTruthVertexFinder (customLL VERBOSE) selected;
            w1 = addAlgorithm findVertices w;
            fitVertices = mkVertexFitterAlgorithm (customLL VERBOSE) field (trackParameters a)
                            (cfg_key findVertices ''outputProtoVertices'') outputVertices
        in (Returned (addAlgorithm fitVertices w1), []))
     else if vertexFinder a = Iterative then
       (let findVertices = mkIterativeVertexFinderAlgorithm (customLL INFO) field
                             (trackParameters a) outputVertices
        in (Returned (addAlgorithm findVertices w), []))
     else if vertexFinder a = AMVF then
       (let outputTime = ''outputTime'';
            findVertices = mkAdaptiveMultiVertexFinderAlgorithm (customLL INFO) field
                             (trackParameters a) outputVertices outputTime
        in (Returned (addAlgorithm findVertices w), outputTime))
     else (Raised (RuntimeError ''Invalid finder argument'') w, []))"

text \<open>The warning of \<^verbatim>\<open>warnings.warn\<close> is kept with the logged messages.\<close>

definition addVertexFitting :: "world \<Rightarrow> nat \<Rightarrow> addVertexFitting_args \<Rightarrow> outcome" where
  "addVertexFitting w field a =
    (let customLL = customLogLevel (addVertexFitting_args.logLevel a) (seq w);
         inputParticles = ''particles_input'';
         outputVertices = ''fittedVertices'';
         selected = ''particles_selected''
     in case vertex_finder a customLL field selected outputVertices w of
          (Raised e w1, outputTime) \<Rightarrow> Raised e w1
        | (Returned w1, outputTime) \<Rightarrow>
           (case addVertexFitting_args.outputDirRoot a of
              None \<Rightarrow> Returned w1
            | Some d \<Rightarrow>
               (case ensure_dir d w1 of
                  Raised e w2 \<Rightarrow> Raised e w2
                | Returned w2 \<Rightarrow>
                   (let w3 = (if associatedParticles a = selected
                              then w2\<lparr>logged := logged w2 @ [(''warnings'', WARNING,
                                     ''Using RootVertexPerformanceWriter with smeared particles is not necessarily supported. Please get in touch with us'')]\<rparr>
                              else w2)
                    in Returned (addWriter (mkRootVertexPerformanceWriter (customLL INFO)
                         inputParticles selected (associatedParticles a) (trackParameters a)
                         outputVertices outputTime d) w3)))))"

section \<open>addKalmanTracks\<close>

text \<open>
  \<^verbatim>\<open>kalmanOptions\<close> and the two fitter functions made from it.
\<close>

definition kalmanOptions :: "real \<Rightarrow> (string \<times> pval) list" where
  "kalmanOptions reverseFilteringMomThreshold =
    [(''multipleScattering'', Bool True),
     (''energyLoss'', Bool True),
     (''reverseFilteringMomThreshold'', Num reverseFilteringMomThreshold),
     (''freeToBoundCorrection'', Obj ''FreeToBoundCorrection'' [(''0'', Bool False)])]"

definition addKalmanTracks :: "world \<Rightarrow> nat \<Rightarrow> nat \<Rightarrow> bool \<Rightarrow> real \<Rightarrow> outcome" where
  "addKalmanTracks w trackingGeometry field directNavigation reverseFilteringMomThreshold =
    (let truthTrkFndAlg = \<lparr>cls = ''TruthTrackFinder'', config =
           [(''level'', Lvl INFO),
            (''inputParticles'', Str ''truth_seeds_selected''),
            (''inputMeasurementParticlesMap'', Str ''measurement_particles_map''),
            (''outputProtoTracks'', Str ''prototracks'')]\<rparr>;
         w1 = addAlgorithm truthTrkFndAlg w;
         fit = (\<lambda>inputProtoTracks w2.
           Returned (addAlgorithm \<lparr>cls = ''TrackFittingAlgorithm'', config =
             [(''level'', Lvl INFO),
              (''inputMeasurements'', Str ''measurements''),
              (''inputSourceLinks'', Str ''sourcelinks''),
              (''inputProtoTracks'', Str inputProtoTracks),
              (''inputInitialTrackParameters'', Str ''estimatedparameters''),
              (''outputTrajectories'', Str ''trajectories''),
              (''directNavigation'', Bool directNavigation),
              (''pickTrack'', IntV (- 1)),
              (''trackingGeometry'', Ref trackingGeometry),
              (''dFit'', Obj ''makeKalmanFitterFunction''
                 ((''0'', Ref field) # kalmanOptions reverseFilteringMomThreshold)),
              (''fit'', Obj ''makeKalmanFitterFunction''
                 ((''0'', Ref trackingGeometry) # (''1'', Ref field)
                    # kalmanOptions reverseFilteringMomThreshold))]\<rparr> w2))
     in if directNavigation then
          (case load_global ''outputSimHits'' of
             Inl e \<Rightarrow> Raised e w1
           | Inr outputSimHits \<Rightarrow>
              (case load_global ''digiAlg'' of
                 Inl e \<Rightarrow> Raised e w1
               | Inr digiAlg \<Rightarrow>
                  (case getattr digiAlg ''config'' of
                     Inl e \<Rightarrow> Raised e w1
                   | Inr cfg \<Rightarrow>
                      (case getattr cfg ''outputMeasurementSimHitsMap'' of
                         Inl e \<Rightarrow> Raised e w1
                       | Inr m \<Rightarrow>
                          (let srfSortAlg = \<lparr>cls = ''SurfaceSortingAlgorithm'', config =
                                 [(''level'', Lvl INFO),
                                  (''inputProtoTracks'', Str ''prototracks''),
                                  (''inputSimulatedHits'', outputSimHits),
                                  (''inputMeasurementSimHitsMap'', m),
                                  (''outputProtoTracks'', Str ''sortedprototracks'')]\<rparr>
                           in fit (cfg_key srfSortAlg ''outputProtoTracks'')
                                  (addAlgorithm srfSortAlg w1))))))
        else fit ''prototracks'' w1)"

section \<open>Declared inputs and outputs of a stage\<close>

text \<open>
  A stage reads the products named by its \<^verbatim>\<open>input...\<close> arguments and writes those named
  by its \<^verbatim>\<open>output...\<close> arguments; an argument may hold one key or a list of keys. The
  empty key names nothing: the source passes \<^verbatim>\<open>inputSeeds=""\<close> where there are no seeds
  and \<^verbatim>\<open>inputTime=""\<close> where no time is produced. The directory \<^verbatim>\<open>outputDir\<close> of the
  CSV writer is the text of a path, not a key.
\<close>

fun starts_with :: "string \<Rightarrow> string \<Rightarrow> bool" where
  "starts_with [] s = True"
| "starts_with (c # cs) [] = False"
| "starts_with (c # cs) (d # ds) = (c = d \<and> starts_with cs ds)"

fun keys_of :: "pval \<Rightarrow> key list" where
  "keys_of (Str k) = [k]"
| "keys_of (Vec vs) = concat (map (\<lambda>v. case v of Str k \<Rightarrow> [k] | _ \<Rightarrow> []) vs)"
| "keys_of v = []"

fun keys_with :: "string \<Rightarrow> (string \<times> pval) list \<Rightarrow> key list" where
  "keys_with p [] = []"
| "keys_with p ((n, v) # kvs) = (if starts_with p n then keys_of v else []) @ keys_with p kvs"

definition requiredInputs :: "element \<Rightarrow> key list" where
  "requiredInputs el = filter (\<lambda>k. k \<noteq> []) (keys_with ''input'' (config el))"

definition producedOutputs :: "element \<Rightarrow> key list" where
  "producedOutputs el = filter (\<lambda>k. k \<noteq> []) (keys_with ''output'' (config el))"

definition produces :: "key \<Rightarrow> kind \<times> element \<Rightarrow> bool" where
  "produces k x = (k \<in> set (producedOutputs (snd x)))"

section \<open>Defaults and examples\<close>

text \<open>The defaults of the named tuples and of the keyword arguments, as the signatures give them.\<close>

definition default_TruthSeedRanges :: TruthSeedRanges where
  "default_TruthSeedRanges =
    \<lparr>rho = (None, None), TruthSeedRanges.z = (None, None), TruthSeedRanges.phi = (None, None),
     eta = (None, None), absEta = (None, None), pt = (None, None), nHits = (None, None)\<rparr>"

definition default_ParticleSmearingSigmas :: ParticleSmearingSigmas where
  "default_ParticleSmearingSigmas =
    \<lparr>d0 = None, d0PtA = None, d0PtB = None, z0 = None, z0PtA = None, z0PtB = None, t0 = None,
     ParticleSmearingSigmas.phi = None, theta = None, pRel = None\<rparr>"

definition default_SeedfinderConfigArg :: SeedfinderConfigArg where
  "default_SeedfinderConfigArg =
    \<lparr>maxSeedsPerSpM = None, cotThetaMax = None, sigmaScattering = None, radLengthPerSeed = None,
     minPt = None, bFieldInZ = None, impactMax = None,
     SeedfinderConfigArg.deltaR = (None, None), collisionRegion = (None, None),
     r = (None, None), SeedfinderConfigArg.z = (None, None), beamPos = Some (None, None)\<rparr>"

definition default_TrackParamsEstimationConfig :: TrackParamsEstimationConfig where
  "default_TrackParamsEstimationConfig = \<lparr>TrackParamsEstimationConfig.deltaR = (None, None)\<rparr>"

definition default_addSeeding_args :: addSeeding_args where
  "default_addSeeding_args =
    \<lparr>geoSelectionConfigFile = None,
     seedingAlgorithm = Default,
     truthSeedRanges = Some default_TruthSeedRanges,
     particleSmearingSigmas = default_ParticleSmearingSigmas,
     initialVarInflation = None,
     seedfinderConfigArg = default_SeedfinderConfigArg,
     trackParamsEstimationConfig = default_TrackParamsEstimationConfig,
     inputParticles = ''particles_initial'',
     addSeeding_args.outputDirRoot = None,
     addSeeding_args.logLevel = None,
     rnd = None\<rparr>"

definition default_addCKFTracks_args :: addCKFTracks_args where
  "default_addCKFTracks_args =
    \<lparr>CKFPerformanceConfigArg =
       \<lparr>truthMatchProbMin = None, nMeasurementsMin = None, ptMin = None\<rparr>,
     outputDirCsv = None,
     addCKFTracks_args.outputDirRoot = None,
     selectedParticles = ''truth_seeds_selected''\<rparr>"

definition default_addVertexFitting_args :: addVertexFitting_args where
  "default_addVertexFitting_args =
    \<lparr>addVertexFitting_args.outputDirRoot = None,
     associatedParticles = ''particles_input'',
     trackParameters = ''trackparameters'',
     vertexFinder = Truth,
     addVertexFitting_args.logLevel = None\<rparr>"

text \<open>
  \<^verbatim>\<open>Sequencer(events=..., numThreads=..., logLevel=..., skip=...)\<close>: a sequencer that holds
  no stage yet.
\<close>

definition Sequencer :: "int option \<Rightarrow> int option \<Rightarrow> level \<Rightarrow> int option \<Rightarrow> sequencer" where
  "Sequencer ev nt lvl sk = \<lparr>events = ev, numThreads = nt, sequencer.logLevel = lvl, skip = sk, stages = []\<rparr>"

text \<open>
  An example of the surroundings: a logger that does not raise, no defaults of interest,
  and a geometry selection that is the name of its file; and a world with a fresh
  sequencer, the directory \<^verbatim>\<open>out\<close> and nothing logged.
\<close>

definition env0 :: env where
  "env0 = \<lparr>fatalRaises = False, cxxDefault = (\<lambda>c n. Str []), readJsonGeometryList = Str\<rparr>"

definition world0 :: world where
  "world0 = \<lparr>seq = Sequencer (Some 10) (Some 1) INFO None, dirs = {[''out'']}, logged = []\<rparr>"

text \<open>Whether \<^verbatim>\<open>exists()\<close> holds or \<^verbatim>\<open>mkdir()\<close> can succeed for a directory.\<close>

definition dir_ok :: "path set \<Rightarrow> path \<Rightarrow> bool" where
  "dir_ok D d = (path_exists D d \<or> path_exists D (butlast d))"

section \<open>What a call of addSeeding appends\<close>

text \<open>
  The pieces of the chain that \<^verbatim>\<open>addSeeding\<close> appends, named so that the lemmas on the
  function can be stated: the truth seed selector (when \<^verbatim>\<open>truthSeedRanges\<close> is given),
  the key of the selected particles, the space point maker, the estimation of track
  parameters and the three performance writers.
\<close>

definition dirs_after :: "path set \<Rightarrow> path \<Rightarrow> path set" where
  "dirs_after D d = (if \<not> path_exists D d \<and> path_exists D (butlast d) then insert d D else D)"

definition selectorStages :: "sequencer \<Rightarrow> addSeeding_args \<Rightarrow> (kind \<times> element) list" where
  "selectorStages s a =
    (case truthSeedRanges a of
       None \<Rightarrow> []
     | Some t \<Rightarrow> [(Algorithm, mkTruthSeedSelector t
                     (customLogLevel (addSeeding_args.logLevel a) s INFO) (inputParticles a))])"

definition selectedKey :: "addSeeding_args \<Rightarrow> key" where
  "selectedKey a = (case truthSeedRanges a of None \<Rightarrow> inputParticles a | Some t \<Rightarrow> ''truth_seeds_selected'')"

definition smearingStage :: "sequencer \<Rightarrow> addSeeding_args \<Rightarrow> element" where
  "smearingStage s a =
    mkParticleSmearing (customLogLevel (addSeeding_args.logLevel a) s INFO) (selectedKey a)
      (case rnd a of Some x \<Rightarrow> Ref x | None \<Rightarrow> Obj ''RandomNumbers'' [(''seed'', IntV 42)])
      (particleSmearingSigmas a) (initialVarInflation a)"

definition spacePointStage :: "env \<Rightarrow> sequencer \<Rightarrow> nat \<Rightarrow> addSeeding_args \<Rightarrow> element" where
  "spacePointStage env s tg a =
    mkSpacePointMaker env (customLogLevel (addSeeding_args.logLevel a) s INFO) tg
      (geoSelectionConfigFile a)"

definition estimationStage ::
  "env \<Rightarrow> sequencer \<Rightarrow> nat \<Rightarrow> nat \<Rightarrow> addSeeding_args \<Rightarrow> key \<Rightarrow> element" where
  "estimationStage env s tg fld a seeds =
    mkTrackParamsEstimationAlgorithm (customLogLevel (addSeeding_args.logLevel a) s VERBOSE)
      seeds ''prototracks'' (spacePointStage env s tg a) tg fld (initialVarInflation a)
      (trackParamsEstimationConfig a)"

definition finderStage :: "env \<Rightarrow> sequencer \<Rightarrow> nat \<Rightarrow> addSeeding_args \<Rightarrow> element" where
  "finderStage env s tg a =
    (if seedingAlgorithm a = TruthEstimated then
       mkTruthTrackFinder (customLogLevel (addSeeding_args.logLevel a) s INFO) (selectedKey a)
         ''measurement_particles_map''
     else if seedingAlgorithm a = Default then
       mkSeedingAlgorithm env (customLogLevel (addSeeding_args.logLevel a) s VERBOSE)
         (spacePointStage env s tg a) (seedfinderConfigArg a)
     else
       mkSeedingOrthogonalAlgorithm env (customLogLevel (addSeeding_args.logLevel a) s VERBOSE)
         (spacePointStage env s tg a) (seedfinderConfigArg a))"

definition seedingWriterStages ::
  "sequencer \<Rightarrow> path set \<Rightarrow> addSeeding_args \<Rightarrow> (kind \<times> element) list" where
  "seedingWriterStages s D a =
    (case addSeeding_args.outputDirRoot a of
       None \<Rightarrow> []
     | Some d \<Rightarrow>
        (if dir_ok D d \<and> truthSeedRanges a \<noteq> None
         then [(Writer, mkTrackFinderPerformanceWriter
                  (customLogLevel (addSeeding_args.logLevel a) s INFO)
                  ''prototracks'' (selectedKey a) ''measurement_particles_map'' d),
               (Writer, mkSeedingPerformanceWriter
                  (customLogLevel (addSeeding_args.logLevel a) s DEBUG)
                  ''prototracks'' (selectedKey a) ''measurement_particles_map'' d),
               (Writer, mkRootTrackParameterWriter
                  (customLogLevel (addSeeding_args.logLevel a) s VERBOSE)
                  ''estimatedparameters'' ''prototracks_estimated'' (inputParticles a)
                  ''measurement_particles_map'' d)]
         else []))"

text \<open>The error of the writer block, if any.\<close>

definition seedingWriterError :: "path set \<Rightarrow> addSeeding_args \<Rightarrow> error option" where
  "seedingWriterError D a =
    (case addSeeding_args.outputDirRoot a of
       None \<Rightarrow> None
     | Some d \<Rightarrow>
        (if \<not> dir_ok D d then Some (FileNotFoundError d)
         else if truthSeedRanges a = None then Some (UnboundLocalError ''selAlg'')
         else None))"

section \<open>The run scripts\<close>

text \<open>
  \<^verbatim>\<open>CI/physmon/physmon.py\<close> and the tests of \<^verbatim>\<open>Examples/Python/tests/test_examples.py\<close>
  are straight-line scripts around a sequencer. Each is kept as the sequence of its
  steps that touch a sequencer or an output file, in the order of the source:
  the construction of a sequencer (with the keyword arguments as written), the call of a
  configuring function (with its arguments as written; the sequencer is the argument
  \<^verbatim>\<open>s\<close>), \<^verbatim>\<open>run()\<close>, \<^verbatim>\<open>del\<close>, and the looks at the files: \<^verbatim>\<open>assert f.exists()\<close>,
  \<^verbatim>\<open>assert not f.exists()\<close>, and any other reading of a file or directory (sizes, entries,
  hashes, listings, copies).
\<close>

type_synonym kwargs = "(string \<times> string) list"

datatype step =
    Construct string kwargs
  | Call string kwargs
  | Run string
  | Del string
  | Exists string
  | NotExists string
  | Inspect string

subsection \<open>physmon.py\<close>

definition physmon_truth_tracking :: "step list" where
  "physmon_truth_tracking =
    [Construct ''s'' [(''events'', ''args.events''), (''numThreads'', ''-1''),
                      (''logLevel'', ''acts.logging.INFO''), (''skip'', ''0'')],
     Call ''runTruthTracking'' [(''0'', ''trackingGeometry''), (''1'', ''field''),
                               (''digiConfigFile'', ''digiConfig''), (''outputDir'', ''tp''),
                               (''s'', ''s'')],
     Run ''s'',
     Del ''s'',
     Exists ''performance_track_fitter.root'',
     Inspect ''performance_track_fitter.root'']"

fun str_bool :: "bool \<Rightarrow> string" where
  "str_bool True = ''True''"
| "str_bool False = ''False''"

text \<open>The body of the loop over the three variants.\<close>

definition physmon_variant :: "bool \<times> bool \<times> string \<Rightarrow> step list" where
  "physmon_variant v =
    (case v of (truthSmeared, truthEstimated, label) \<Rightarrow>
      [Construct ''s'' [(''events'', ''args.events''), (''numThreads'', ''1''),
                        (''logLevel'', ''acts.logging.INFO''), (''skip'', ''args.skip'')],
       Call ''runCKFTracks'' [(''0'', ''trackingGeometry''), (''decorators'', ''decorators''),
                             (''field'', ''field''), (''digiConfigFile'', ''digiConfig''),
                             (''geometrySelection'', ''geoSel''), (''outputDir'', ''tp''),
                             (''outputCsv'', ''False''),
                             (''truthSmearedSeeded'', str_bool truthSmeared),
                             (''truthEstimatedSeeded'', str_bool truthEstimated),
                             (''s'', ''s'')],
       Run ''s'',
       Del ''s'',
       Exists ''performance_ckf.root'',
       Inspect ''performance_ckf.root'']
      @ (if \<not> truthSmeared \<and> \<not> truthEstimated then [Inspect ''trackstates_ckf.root''] else []))"

definition physmon_variants :: "(bool \<times> bool \<times> string) list" where
  "physmon_variants =
    [(True, False, ''truth_smeared''), (False, True, ''truth_estimated''),
     (False, False, ''seeded'')]"

definition physmon :: "step list" where
  "physmon = physmon_truth_tracking @ concat (map physmon_variant physmon_variants)"

subsection \<open>test_examples.py\<close>

text \<open>The loop \<^verbatim>\<open>for f in files: assert f.exists(); ...\<close> that checks and reads each file.\<close>

definition check_files :: "string list \<Rightarrow> step list" where
  "check_files fs = concat (map (\<lambda>f. [Exists f, Inspect f]) fs)"

definition test_fatras :: "step list" where
  "test_fatras =
    [Inspect ''csv'']
    @ map NotExists [''fatras_particles_final.root'', ''fatras_particles_initial.root'', ''hits.root'']
    @ [Construct ''seq'' [(''events'', ''nevents'')],
       Call ''runFatras'' [(''0'', ''trk_geo''), (''1'', ''field''), (''2'', ''str(tmp_path)''),
                          (''s'', ''seq'')],
       Run ''seq'',
       Del ''seq'',
       Inspect ''csv'', Inspect ''csv'', Inspect ''csv'']
    @ check_files [''fatras_particles_final.root'', ''fatras_particles_initial.root'', ''hits.root'']"

definition test_seeding :: "step list" where
  "test_seeding =
    [Construct ''seq'' [(''events'', ''10''), (''numThreads'', ''1'')]]
    @ map NotExists [''estimatedparams.root'', ''performance_seeding_trees.root'',
                     ''performance_seeding_hists.root'', ''evgen_particles.root'',
                     ''fatras_particles_final.root'', ''fatras_particles_initial.root'']
    @ [Inspect ''csv'',
       Call ''runSeeding'' [(''0'', ''trk_geo''), (''1'', ''field''),
                           (''outputDir'', ''str(tmp_path)''), (''s'', ''seq'')],
       Run ''seq'',
       Del ''seq'']
    @ check_files [''estimatedparams.root'', ''performance_seeding_trees.root'',
                   ''performance_seeding_hists.root'', ''evgen_particles.root'',
                   ''fatras_particles_final.root'', ''fatras_particles_initial.root'']
    @ [Inspect ''csv'', Inspect ''csv'', Inspect ''csv'', Inspect ''csv'']"

text \<open>The fixture \<^verbatim>\<open>seq\<close> is \<^verbatim>\<open>Sequencer(events=10, numThreads=1)\<close>.\<close>

definition test_propagation :: "step list" where
  "test_propagation =
    [Construct ''seq'' [(''events'', ''10''), (''numThreads'', ''1'')],
     NotExists ''propagation_steps.root'',
     Inspect ''obj'',
     Call ''runPropagation'' [(''0'', ''trk_geo''), (''1'', ''field''), (''2'', ''str(tmp_path)''),
                             (''s'', ''seq'')],
     Run ''seq'']
    @ check_files [''propagation_steps.root'']
    @ [Inspect ''obj'']"

text \<open>
  \<^verbatim>\<open>test_event_recording\<close> reads the files of a script run as a subprocess, then builds a
  sequencer by hand (\<^verbatim>\<open>addReader\<close>, \<^verbatim>\<open>addAlgorithm\<close>) and runs it; afterwards it looks at
  a counter, not at a file.
\<close>

definition test_event_recording :: "step list" where
  "test_event_recording =
    [Exists ''event_recording.py'',
     Inspect ''hepmc3'', Inspect ''hepmc3'',
     Construct ''s'' [(''numThreads'', ''1'')],
     Run ''s'']"

definition test_particle_gun :: "step list" where
  "test_particle_gun =
    [Construct ''s'' [(''events'', ''20''), (''numThreads'', ''-1'')],
     NotExists ''csv'',
     NotExists ''particles.root'',
     Call ''runParticleGun'' [(''0'', ''str(tmp_path)''), (''s'', ''s'')],
     Run ''s'',
     Exists ''csv'',
     Exists ''particles.root'',
     Inspect ''csv'', Inspect ''csv'',
     Inspect ''particles.root'', Inspect ''particles.root'', Inspect ''particles.root'']"

text \<open>The mapping part of \<^verbatim>\<open>test_material_mapping\<close>, and the validation part after it.\<close>

definition test_material_mapping_map :: "step list" where
  "test_material_mapping_map =
    [NotExists ''material-maps_tracks.root'',
     Construct ''s'' [(''numThreads'', ''1'')],
     Call ''runMaterialMapping'' [(''0'', ''trackingGeometry''), (''1'', ''decorators''),
                                 (''outputDir'', ''str(tmp_path)''),
                                 (''inputDir'', ''material_recording''), (''s'', ''s'')],
     Run ''s'',
     Del ''s'',
     Exists ''material-map.json'',
     Inspect ''material-map.json'', Inspect ''material-map.json'',
     Exists ''material-maps_tracks.root'',
     Inspect ''material-maps_tracks.root'', Inspect ''material-maps_tracks.root'']"

definition test_material_mapping_validation :: "step list" where
  "test_material_mapping_validation =
    [NotExists ''propagation-material.root'',
     Inspect ''material-map.json'',
     Construct ''s'' [(''events'', ''10''), (''numThreads'', ''1'')],
     Call ''runMaterialValidation'' [(''0'', ''trackingGeometry''), (''1'', ''decorators''),
                                    (''2'', ''field''), (''outputDir'', ''str(tmp_path)''),
                                    (''s'', ''s'')],
     Run ''s'',
     Exists ''propagation-material.root'',
     Inspect ''propagation-material.root'', Inspect ''propagation-material.root'']"

definition test_material_mapping :: "step list" where
  "test_material_mapping = test_material_mapping_map @ test_material_mapping_validation"

text \<open>\<^verbatim>\<open>runGeometry\<close> and \<^verbatim>\<open>runDigitizationConfig\<close> are handed no sequencer.\<close>

definition test_geometry_example :: "step list" where
  "test_geometry_example =
    [Call ''runGeometry'' [(''outputJson'', ''True''), (''trackingGeometry'', ''trackingGeometry''),
                          (''decorators'', ''decorators''), (''events'', ''events''),
                          (''outputDir'', ''str(tmp_path)'')],
     Call ''runGeometry'' [(''outputJson'', ''False''), (''trackingGeometry'', ''trackingGeometry''),
                          (''decorators'', ''decorators''), (''events'', ''events''),
                          (''outputDir'', ''str(tmp_path)'')],
     Inspect ''obj'', Inspect ''obj'', Inspect ''csv'', Inspect ''csv'']
    @ check_files [''detectors.csv'']
    @ [Inspect ''detectors.csv'',
       Exists ''detectors.csv'', Inspect ''detector.json'',
       Exists ''geometry-map.json'', Inspect ''geometry-map.json'']"

definition test_digitization_example :: "step list" where
  "test_digitization_example =
    [Construct ''s'' [(''events'', ''10''), (''numThreads'', ''-1'')],
     NotExists ''measurements.root'',
     NotExists ''csv'',
     Call ''configureDigitization'' [(''0'', ''trk_geo''), (''1'', ''field''),
                                    (''outputDir'', ''tmp_path''), (''s'', ''s'')],
     Run ''s'',
     Exists ''measurements.root'',
     Exists ''csv'',
     Inspect ''csv'', Inspect ''csv'',
     Inspect ''measurements.root'', Inspect ''measurements.root'']"

definition test_digitization_example_input :: "step list" where
  "test_digitization_example_input =
    [Construct ''pgs'' [(''events'', ''20''), (''numThreads'', ''-1'')],
     Call ''runParticleGun'' [(''0'', ''str(ptcl_dir)''), (''s'', ''pgs'')],
     Run ''pgs'',
     Construct ''s'' [(''numThreads'', ''-1'')],
     NotExists ''measurements.root'',
     NotExists ''csv'',
     Inspect ''ptcl/particles.root'',
     Call ''configureDigitization'' [(''0'', ''trk_geo''), (''1'', ''field''),
                                    (''outputDir'', ''tmp_path''),
                                    (''particlesInput'', ''ptcl_dir / particles.root''),
                                    (''s'', ''s'')],
     Run ''s'',
     Exists ''measurements.root'',
     Exists ''csv'',
     Inspect ''csv'', Inspect ''csv'',
     Inspect ''measurements.root'', Inspect ''measurements.root'']"

definition test_digitization_config_example :: "step list" where
  "test_digitization_config_example =
    [NotExists ''output.json'',
     Exists ''default-smearing-config-generic.json'',
     Call ''runDigitizationConfig'' [(''0'', ''trk_geo''), (''input'', ''input''),
                                    (''output'', ''out_file'')],
     Exists ''output.json'',
     Inspect ''output.json'']"

text \<open>
  The three tests of the CKF example differ in the two flags and in the files they
  expect; the comment at the construction reads \<^verbatim>\<open>Digitization is not thread-safe\<close>.
\<close>

text \<open>
  The loop over \<^verbatim>\<open>root_files\<close> after the run: every file must exist; it is read
  (\<^verbatim>\<open>assert_entries\<close>, \<^verbatim>\<open>assert_root_hash\<close>) when both its tree name and its number of
  entries are given.
\<close>

definition check_root_files :: "(string \<times> string option \<times> nat option) list \<Rightarrow> step list" where
  "check_root_files fs =
    concat (map (\<lambda>(f, tn, nume). Exists f # (if tn \<noteq> None \<and> nume \<noteq> None then [Inspect f] else []))
      fs)"

definition test_ckf_tracks_example ::
  "bool \<Rightarrow> bool \<Rightarrow> (string \<times> string option \<times> nat option) list \<Rightarrow> step list" where
  "test_ckf_tracks_example truthSmeared truthEstimated root_files =
    [Construct ''s'' [(''events'', ''events''), (''numThreads'', ''1'')],
     NotExists ''csv'']
    @ map NotExists (map fst root_files)
    @ [Call ''runCKFTracks'' [(''0'', ''trackingGeometry''), (''1'', ''decorators''),
                             (''field'', ''field''),
                             (''geometrySelection'', ''geoSelection-genericDetector.json''),
                             (''digiConfigFile'', ''default-smearing-config-generic.json''),
                             (''outputCsv'', ''True''), (''outputDir'', ''tmp_path''),
                             (''truthSmearedSeeded'', str_bool truthSmeared),
                             (''truthEstimatedSeeded'', str_bool truthEstimated),
                             (''s'', ''s'')],
       Run ''s'',
       Del ''s'',
       Exists ''csv'']
    @ check_root_files root_files
    @ [Inspect ''csv'', Inspect ''csv'']"

definition test_ckf_tracks_example_full_seeding :: "step list" where
  "test_ckf_tracks_example_full_seeding =
    test_ckf_tracks_example False False
      [(''performance_ckf.root'', None, None),
       (''performance_seeding_trees.root'', Some ''track_finder_tracks'', Some 368),
       (''performance_seeding_trees.root'', Some ''track_finder_particles'', Some 80),
       (''trackstates_ckf.root'', Some ''trackstates'', Some 368),
       (''tracksummary_ckf.root'', Some ''tracksummary'', Some 10)]"

definition test_ckf_tracks_example_truth_estimate :: "step list" where
  "test_ckf_tracks_example_truth_estimate =
    test_ckf_tracks_example False True
      [(''performance_ckf.root'', None, None),
       (''performance_seeding_trees.root'', Some ''track_finder_tracks'', Some 80),
       (''performance_seeding_trees.root'', Some ''track_finder_particles'', Some 80),
       (''trackstates_ckf.root'', Some ''trackstates'', Some 80),
       (''tracksummary_ckf.root'', Some ''tracksummary'', Some 10)]"

definition test_ckf_tracks_example_truth_smeared :: "step list" where
  "test_ckf_tracks_example_truth_smeared =
    test_ckf_tracks_example True False
      [(''performance_ckf.root'', None, None),
       (''trackstates_ckf.root'', Some ''trackstates'', Some 80),
       (''tracksummary_ckf.root'', Some ''tracksummary'', Some 10)]"

subsection \<open>Properties of a script\<close>

text \<open>
  The sequencers that have run and were not deleted since are \<open>live\<close>. A script deletes
  before it looks when no file is looked at while a sequencer is live. Binding the name
  again lets go of the earlier object.
\<close>

fun del_before_look :: "string list \<Rightarrow> step list \<Rightarrow> bool" where
  "del_before_look live [] = True"
| "del_before_look live (Construct v k # ss) = del_before_look (removeAll v live) ss"
| "del_before_look live (Call f k # ss) = del_before_look live ss"
| "del_before_look live (Run v # ss) = del_before_look (v # live) ss"
| "del_before_look live (Del v # ss) = del_before_look (removeAll v live) ss"
| "del_before_look live (Exists f # ss) = (live = [] \<and> del_before_look live ss)"
| "del_before_look live (NotExists f # ss) = (live = [] \<and> del_before_look live ss)"
| "del_before_look live (Inspect f # ss) = (live = [] \<and> del_before_look live ss)"

text \<open>
  A call configures digitization when it is \<^verbatim>\<open>configureDigitization\<close> or is handed a
  digitization configuration (\<^verbatim>\<open>digiConfigFile\<close>).
\<close>

definition uses_digitization :: "string \<Rightarrow> kwargs \<Rightarrow> bool" where
  "uses_digitization f k = (f = ''configureDigitization'' \<or> map_of k ''digiConfigFile'' \<noteq> None)"

text \<open>
  An argument of a call is a sequencer when it is, by position or by keyword, a name that
  a sequencer was bound to by a construction before and that was not deleted since.

  \<open>run_threads\<close> gives, for every \<^verbatim>\<open>run()\<close> of a script in order, the \<^verbatim>\<open>numThreads\<close> that
  the sequencer that runs was constructed with (\<open>None\<close> when the argument was left out), and
  whether a call that configures digitization was handed that sequencer before. \<open>built\<close>
  holds, for each name, the arguments of the construction and whether digitization was
  configured since.
\<close>

fun run_threads :: "(string \<times> kwargs \<times> bool) list \<Rightarrow> step list \<Rightarrow> (string option \<times> bool) list" where
  "run_threads built [] = []"
| "run_threads built (Construct v k # ss) = run_threads ((v, k, False) # built) ss"
| "run_threads built (Call f k # ss) =
     run_threads
       (if uses_digitization f k
        then map (\<lambda>(v, kc, d). (v, kc, d \<or> v \<in> set (map snd k))) built
        else built) ss"
| "run_threads built (Run v # ss) =
     (case map_of built v of
        None \<Rightarrow> []
      | Some (kc, d) \<Rightarrow> [(map_of kc ''numThreads'', d)])
     @ run_threads built ss"
| "run_threads built (Del v # ss) = run_threads (filter (\<lambda>b. fst b \<noteq> v) built) ss"
| "run_threads built (x # ss) = run_threads built ss"

text \<open>
  \<open>sequencers_handed\<close> gives, for every call of a script in order, the function and the
  sequencers among its arguments, each sequencer by the number of its construction in the
  script (the first one constructed is 0). \<open>built\<close> holds the number behind each name and
  \<open>n\<close> the number of constructions so far.
\<close>

fun sequencers_handed :: "nat \<Rightarrow> (string \<times> nat) list \<Rightarrow> step list \<Rightarrow> (string \<times> nat list) list" where
  "sequencers_handed n built [] = []"
| "sequencers_handed n built (Construct v k # ss) = sequencers_handed (Suc n) ((v, n) # built) ss"
| "sequencers_handed n built (Call f k # ss) =
     (f, List.map_filter (map_of built) (map snd k)) # sequencers_handed n built ss"
| "sequencers_handed n built (Del v # ss) =
     sequencers_handed n (filter (\<lambda>b. fst b \<noteq> v) built) ss"
| "sequencers_handed n built (x # ss) = sequencers_handed n built ss"

text \<open>The flags of the calls of \<^verbatim>\<open>runCKFTracks\<close> in a script.\<close>

fun ckf_flags :: "step list \<Rightarrow> (string option \<times> string option) list" where
  "ckf_flags [] = []"
| "ckf_flags (Call f k # ss) =
     (if f = ''runCKFTracks''
      then (map_of k ''truthSmearedSeeded'', map_of k ''truthEstimatedSeeded'') # ckf_flags ss
      else ckf_flags ss)"
| "ckf_flags (x # ss) = ckf_flags ss"


section \<open>The stages of one variant\<close>

text \<open>
  The classes that only one branch of the chain in \<^verbatim>\<open>addSeeding\<close> constructs, and the
  classes that each branch of the chain in \<^verbatim>\<open>addVertexFitting\<close> constructs.
\<close>

fun variantClass :: "SeedingAlgorithm \<Rightarrow> string list" where
  "variantClass TruthSmeared = [''ParticleSmearing'']"
| "variantClass TruthEstimated = [''TruthTrackFinder'']"
| "variantClass Default = [''SeedingAlgorithm'']"
| "variantClass Orthogonal = [''SeedingOrthogonalAlgorithm'']"
| "variantClass (NoSeedingAlgorithm x) = []"

definition variantClasses :: "string list" where
  "variantClasses = concat (map variantClass [Default, TruthSmeared, TruthEstimated, Orthogonal])"

fun vertexClasses :: "VertexFinder \<Rightarrow> string list" where
  "vertexClasses Truth = [''TruthVertexFinder'', ''VertexFitterAlgorithm'']"
| "vertexClasses Iterative = [''IterativeVertexFinderAlgorithm'']"
| "vertexClasses AMVF = [''AdaptiveMultiVertexFinderAlgorithm'']"
| "vertexClasses (NoVertexFinder x) = []"

section \<open>The validation of a pipeline\<close>

text \<open>
  Modelled from the spec: the pipeline builder and validator (section 4.3) is not among
  the files at hand; the sequencer of the source accepts any stage. Given the ordered
  list of stages, the validator first verifies that every required input of a stage is
  among the outputs of the stages before it, and fails with \<open>UnsatisfiedDependency\<close>
  naming the stage and the missing key; then it verifies that no key is produced by two
  stages, and fails with \<open>DuplicateProduct\<close> naming the key and the two stages. It does
  not reorder the stages.
\<close>

datatype build_error =
    UnsatisfiedDependency string key
  | DuplicateProduct key string string

fun check_dependencies :: "key list \<Rightarrow> element list \<Rightarrow> build_error option" where
  "check_dependencies avail [] = None"
| "check_dependencies avail (s # ss) =
     (case filter (\<lambda>k. k \<notin> set avail) (requiredInputs s) of
        [] \<Rightarrow> check_dependencies (avail @ producedOutputs s) ss
      | k # ks \<Rightarrow> Some (UnsatisfiedDependency (cls s) k))"

fun first_duplicate :: "(key \<times> string) list \<Rightarrow> key list \<Rightarrow> (key \<times> string) option" where
  "first_duplicate seen [] = None"
| "first_duplicate seen (k # ks) =
     (case map_of seen k of Some f \<Rightarrow> Some (k, f) | None \<Rightarrow> first_duplicate seen ks)"

fun check_unique :: "(key \<times> string) list \<Rightarrow> element list \<Rightarrow> build_error option" where
  "check_unique seen [] = None"
| "check_unique seen (s # ss) =
     (case first_duplicate seen (producedOutputs s) of
        Some (k, f) \<Rightarrow> Some (DuplicateProduct k f (cls s))
      | None \<Rightarrow> check_unique (seen @ map (\<lambda>k. (k, cls s)) (producedOutputs s)) ss)"

definition build :: "element list \<Rightarrow> build_error + element list" where
  "build P =
    (case check_dependencies [] P of
       Some e \<Rightarrow> Inl e
     | None \<Rightarrow> (case check_unique [] P of Some e \<Rightarrow> Inl e | None \<Rightarrow> Inr P))"

text \<open>
  The property itself, in the words of the spec: every key a stage requires is produced
  by a stage before it (or is among the keys \<open>avail\<close> that are there from the start).
\<close>

definition dependencies_satisfied :: "key list \<Rightarrow> element list \<Rightarrow> bool" where
  "dependencies_satisfied avail P =
    (\<forall>i<length P. \<forall>k\<in>set (requiredInputs (P ! i)).
        k \<in> set avail \<or> (\<exists>j<i. k \<in> set (producedOutputs (P ! j))))"

text \<open>
  The keys that \<^verbatim>\<open>addSeeding\<close> and \<^verbatim>\<open>addVertexFitting\<close> read and do not produce
  themselves: the stages of simulation and digitization, added before, are to provide
  them.
\<close>

definition seedingUpstream :: "addSeeding_args \<Rightarrow> key list" where
  "seedingUpstream a =
    [inputParticles a, ''measurement_particles_map'', ''sourcelinks'', ''measurements'',
     ''simhits'', ''measurement_simhits_map'']"

definition vertexUpstream :: "addVertexFitting_args \<Rightarrow> key list" where
  "vertexUpstream b =
    [''particles_selected'', trackParameters b, ''particles_input'', associatedParticles b]"

text \<open>All keys the stages of a sequencer produce.\<close>

definition produced_by :: "(kind \<times> element) list \<Rightarrow> key list" where
  "produced_by sts = concat (map (\<lambda>x. producedOutputs (snd x)) sts)"

text \<open>
  Examples: the scenario of the spec (a reader producing \<^verbatim>\<open>raw\<close>, a transformation
  to \<^verbatim>\<open>derived\<close>, a sink), and a world whose sequencer already holds a stage that
  produces what \<^verbatim>\<open>addSeeding\<close> reads from upstream.
\<close>

definition gen_transform_sink :: "element list" where
  "gen_transform_sink =
    [\<lparr>cls = ''gen'', config = [(''output'', Str ''raw'')]\<rparr>,
     \<lparr>cls = ''transform'', config = [(''input'', Str ''raw''), (''output'', Str ''derived'')]\<rparr>,
     \<lparr>cls = ''sink'', config = [(''input'', Str ''derived'')]\<rparr>]"

definition simulated :: element where
  "simulated =
    \<lparr>cls = ''Simulation'', config =
       [(''outputParticles'', Str ''particles_initial''),
        (''outputMeasurementParticlesMap'', Str ''measurement_particles_map''),
        (''outputSourceLinks'', Str ''sourcelinks''),
        (''outputMeasurements'', Str ''measurements''),
        (''outputSimHits'', Str ''simhits''),
        (''outputMeasurementSimHitsMap'', Str ''measurement_simhits_map'')]\<rparr>"

definition world1 :: world where
  "world1 = world0\<lparr>seq := (seq world0)\<lparr>stages := [(Algorithm, simulated)]\<rparr>\<rparr>"

section \<open>Lemmas on the helpers\<close>

subsection \<open>The elements\<close>

lemma keys_with_append: "keys_with p (xs @ ys) = keys_with p xs @ keys_with p ys"
  by (induction p xs rule: keys_with.induct) auto

lemma keys_with_defaultKWArgs:
  "list_all (\<lambda>x. \<not> starts_with p (fst x)) kvs \<Longrightarrow> keys_with p (defaultKWArgs kvs) = []"
  by (induction kvs rule: defaultKWArgs.induct) auto

lemma map_of_defaultKWArgs:
  "list_all (\<lambda>x. fst x \<noteq> n) kvs \<Longrightarrow> map_of (defaultKWArgs kvs) n = None"
  by (induction kvs rule: defaultKWArgs.induct) auto

lemmas mk_defs = mkTruthSeedSelector_def mkParticleSmearing_def mkSpacePointMaker_def
  mkTruthTrackFinder_def mkSeedingAlgorithm_def mkSeedingOrthogonalAlgorithm_def
  mkTrackParamsEstimationAlgorithm_def mkTrackFinderPerformanceWriter_def
  mkSeedingPerformanceWriter_def mkRootTrackParameterWriter_def mkTrackFindingAlgorithm_def
  mkRootTrajectoryStatesWriter_def mkRootTrajectorySummaryWriter_def mkCKFPerformanceWriter_def
  mkCsvMultiTrajectoryWriter_def mkTruthVertexFinder_def mkVertexFitterAlgorithm_def
  mkIterativeVertexFinderAlgorithm_def mkAdaptiveMultiVertexFinderAlgorithm_def
  mkRootVertexPerformanceWriter_def

text \<open>The configuration values that the helpers read back.\<close>

lemma cfg_key_mk:
  "cfg_key (mkTruthSeedSelector t lvl ip) ''outputParticles'' = ''truth_seeds_selected''"
  "cfg_key (mkTruthSeedSelector t lvl ip) ''inputMeasurementParticlesMap''
     = ''measurement_particles_map''"
  "cfg_key (mkSpacePointMaker env lvl tg gs) ''outputSpacePoints'' = ''spacepoints''"
  "cfg_key (mkSpacePointMaker env lvl tg gs) ''inputSourceLinks'' = ''sourcelinks''"
  "cfg_key (mkTruthTrackFinder lvl sp m) ''outputProtoTracks'' = ''prototracks''"
  "cfg_key (mkSeedingAlgorithm env lvl spa c) ''outputProtoTracks'' = ''prototracks''"
  "cfg_key (mkSeedingAlgorithm env lvl spa c) ''outputSeeds'' = ''seeds''"
  "cfg_key (mkSeedingOrthogonalAlgorithm env lvl spa c) ''outputProtoTracks'' = ''prototracks''"
  "cfg_key (mkSeedingOrthogonalAlgorithm env lvl spa c) ''outputSeeds'' = ''seeds''"
  "cfg_key (mkTrackParamsEstimationAlgorithm lvl s p spa tg fld i e) ''outputTrackParameters''
     = ''estimatedparameters''"
  "cfg_key (mkTrackParamsEstimationAlgorithm lvl s p spa tg fld i e) ''outputProtoTracks''
     = ''prototracks_estimated''"
  "cfg_key (mkTrackFindingAlgorithm lvl tg fld) ''outputTrajectories'' = ''trajectories''"
  "cfg_key (mkTrackFindingAlgorithm lvl tg fld) ''inputInitialTrackParameters''
     = ''estimatedparameters''"
  "cfg_key (mkTruthVertexFinder lvl sp) ''outputProtoVertices'' = ''protovertices''"
  by (simp_all add: cfg_key_def mk_defs Let_def map_add_def map_of_defaultKWArgs)

lemma cls_mk:
  "cls (mkTruthSeedSelector t lvl ip) = ''TruthSeedSelector''"
  "cls (mkParticleSmearing lvl sp rv g infl) = ''ParticleSmearing''"
  "cls (mkSpacePointMaker env lvl tg gs) = ''SpacePointMaker''"
  "cls (mkTruthTrackFinder lvl sp m) = ''TruthTrackFinder''"
  "cls (mkSeedingAlgorithm env lvl spa c) = ''SeedingAlgorithm''"
  "cls (mkSeedingOrthogonalAlgorithm env lvl spa c) = ''SeedingOrthogonalAlgorithm''"
  "cls (mkTrackParamsEstimationAlgorithm lvl s p spa tg fld i e)
     = ''TrackParamsEstimationAlgorithm''"
  "cls (mkTrackFinderPerformanceWriter lvl p sp m d) = ''TrackFinderPerformanceWriter''"
  "cls (mkSeedingPerformanceWriter lvl p sp m d) = ''SeedingPerformanceWriter''"
  "cls (mkRootTrackParameterWriter lvl tp p ip m d) = ''RootTrackParameterWriter''"
  "cls (mkTrackFindingAlgorithm lvl tg fld) = ''TrackFindingAlgorithm''"
  "cls (mkRootTrajectoryStatesWriter lvl tr d) = ''RootTrajectoryStatesWriter''"
  "cls (mkRootTrajectorySummaryWriter lvl tr d) = ''RootTrajectorySummaryWriter''"
  "cls (mkCKFPerformanceWriter lvl sp tr cc d) = ''CKFPerformanceWriter''"
  "cls (mkCsvMultiTrajectoryWriter lvl tr d) = ''CsvMultiTrajectoryWriter''"
  "cls (mkTruthVertexFinder lvl sp) = ''TruthVertexFinder''"
  "cls (mkVertexFitterAlgorithm lvl fld tp pv ov) = ''VertexFitterAlgorithm''"
  "cls (mkIterativeVertexFinderAlgorithm lvl fld tp ov) = ''IterativeVertexFinderAlgorithm''"
  "cls (mkAdaptiveMultiVertexFinderAlgorithm lvl fld tp ov ot)
     = ''AdaptiveMultiVertexFinderAlgorithm''"
  "cls (mkRootVertexPerformanceWriter lvl p1 p2 p3 tp ov ot d) = ''RootVertexPerformanceWriter''"
  by (simp_all add: mk_defs Let_def)

text \<open>What each element writes.\<close>

lemma producedOutputs_mk:
  "producedOutputs (mkTruthSeedSelector t lvl ip) = [''truth_seeds_selected'']"
  "producedOutputs (mkParticleSmearing lvl sp rv g infl) = [''estimatedparameters'']"
  "producedOutputs (mkSpacePointMaker env lvl tg gs) = [''spacepoints'']"
  "producedOutputs (mkTruthTrackFinder lvl sp m) = [''prototracks'']"
  "producedOutputs (mkSeedingAlgorithm env lvl spa c) = [''seeds'', ''prototracks'']"
  "producedOutputs (mkSeedingOrthogonalAlgorithm env lvl spa c) = [''seeds'', ''prototracks'']"
  "producedOutputs (mkTrackParamsEstimationAlgorithm lvl s p spa tg fld i e)
     = [''estimatedparameters'', ''prototracks_estimated'']"
  "producedOutputs (mkTrackFinderPerformanceWriter lvl p sp m d) = []"
  "producedOutputs (mkSeedingPerformanceWriter lvl p sp m d) = []"
  "producedOutputs (mkRootTrackParameterWriter lvl tp p ip m d) = []"
  "producedOutputs (mkTrackFindingAlgorithm lvl tg fld)
     = [''trajectories'', ''fittedTrackParameters'']"
  "producedOutputs (mkRootTrajectoryStatesWriter lvl tr d) = []"
  "producedOutputs (mkRootTrajectorySummaryWriter lvl tr d) = []"
  "producedOutputs (mkCKFPerformanceWriter lvl sp tr cc d) = []"
  "producedOutputs (mkCsvMultiTrajectoryWriter lvl tr d) = []"
  "producedOutputs (mkTruthVertexFinder lvl sp) = [''protovertices'']"
  "producedOutputs (mkVertexFitterAlgorithm lvl fld tp pv ov) = filter (\<lambda>k. k \<noteq> []) [ov]"
  "producedOutputs (mkIterativeVertexFinderAlgorithm lvl fld tp ov)
     = ''protovertices'' # filter (\<lambda>k. k \<noteq> []) [ov]"
  "producedOutputs (mkAdaptiveMultiVertexFinderAlgorithm lvl fld tp ov ot)
     = ''protovertices'' # filter (\<lambda>k. k \<noteq> []) [ov, ot]"
  "producedOutputs (mkRootVertexPerformanceWriter lvl p1 p2 p3 tp ov ot d) = []"
  by (simp_all add: producedOutputs_def mk_defs Let_def keys_with_append keys_with_defaultKWArgs)

text \<open>What each element reads.\<close>

lemma requiredInputs_mk:
  "requiredInputs (mkTruthSeedSelector t lvl ip)
     = filter (\<lambda>k. k \<noteq> []) [ip, ''measurement_particles_map'']"
  "requiredInputs (mkParticleSmearing lvl sp rv g infl) = filter (\<lambda>k. k \<noteq> []) [sp]"
  "requiredInputs (mkSpacePointMaker env lvl tg gs) = [''sourcelinks'', ''measurements'']"
  "requiredInputs (mkTruthTrackFinder lvl sp m) = filter (\<lambda>k. k \<noteq> []) [sp, m]"
  "requiredInputs (mkSeedingAlgorithm env lvl spa c)
     = filter (\<lambda>k. k \<noteq> []) [cfg_key spa ''outputSpacePoints'']"
  "requiredInputs (mkSeedingOrthogonalAlgorithm env lvl spa c)
     = filter (\<lambda>k. k \<noteq> []) [cfg_key spa ''outputSpacePoints'']"
  "requiredInputs (mkTrackParamsEstimationAlgorithm lvl s p spa tg fld i e)
     = filter (\<lambda>k. k \<noteq> [])
         [s, p, cfg_key spa ''outputSpacePoints'', cfg_key spa ''inputSourceLinks'']"
  "requiredInputs (mkTrackFinderPerformanceWriter lvl p sp m d)
     = filter (\<lambda>k. k \<noteq> []) [p, sp, m]"
  "requiredInputs (mkSeedingPerformanceWriter lvl p sp m d)
     = filter (\<lambda>k. k \<noteq> []) [p, sp, m]"
  "requiredInputs (mkRootTrackParameterWriter lvl tp p ip m d)
     = filter (\<lambda>k. k \<noteq> []) [tp, p, ip, ''simhits'', m, ''measurement_simhits_map'']"
  "requiredInputs (mkTrackFindingAlgorithm lvl tg fld)
     = [''measurements'', ''sourcelinks'', ''estimatedparameters'']"
  "requiredInputs (mkRootTrajectoryStatesWriter lvl tr d)
     = filter (\<lambda>k. k \<noteq> [])
         [tr, ''particles_selected'', ''simhits'', ''measurement_particles_map'',
          ''measurement_simhits_map'']"
  "requiredInputs (mkRootTrajectorySummaryWriter lvl tr d)
     = filter (\<lambda>k. k \<noteq> []) [tr, ''particles_selected'', ''measurement_particles_map'']"
  "requiredInputs (mkCKFPerformanceWriter lvl sp tr cc d)
     = filter (\<lambda>k. k \<noteq> []) [sp, tr, ''measurement_particles_map'']"
  "requiredInputs (mkCsvMultiTrajectoryWriter lvl tr d)
     = filter (\<lambda>k. k \<noteq> []) [tr, ''measurement_particles_map'']"
  "requiredInputs (mkTruthVertexFinder lvl sp) = filter (\<lambda>k. k \<noteq> []) [sp]"
  "requiredInputs (mkVertexFitterAlgorithm lvl fld tp pv ov) = filter (\<lambda>k. k \<noteq> []) [tp, pv]"
  "requiredInputs (mkIterativeVertexFinderAlgorithm lvl fld tp ov) = filter (\<lambda>k. k \<noteq> []) [tp]"
  "requiredInputs (mkAdaptiveMultiVertexFinderAlgorithm lvl fld tp ov ot)
     = filter (\<lambda>k. k \<noteq> []) [tp]"
  "requiredInputs (mkRootVertexPerformanceWriter lvl p1 p2 p3 tp ov ot d)
     = filter (\<lambda>k. k \<noteq> []) [p1, p2, p3, tp, ov, ot]"
  by (simp_all add: requiredInputs_def mk_defs Let_def keys_with_append keys_with_defaultKWArgs)

subsection \<open>The primitives\<close>

lemma prim_simps:
  "stages (seq (addAlgorithm el w)) = stages (seq w) @ [(Algorithm, el)]"
  "stages (seq (addWriter el w)) = stages (seq w) @ [(Writer, el)]"
  "stages (seq (logger_info n m w)) = stages (seq w)"
  "dirs (addAlgorithm el w) = dirs w"
  "dirs (addWriter el w) = dirs w"
  "dirs (logger_info n m w) = dirs w"
  "sequencer.logLevel (seq (addAlgorithm el w)) = sequencer.logLevel (seq w)"
  by (simp_all add: addAlgorithm_def addWriter_def logger_info_def)

lemma ensure_dir_alt:
  "ensure_dir d w =
    (if path_exists (dirs w) d then Returned w
     else if path_exists (dirs w) (butlast d) then Returned (w\<lparr>dirs := insert d (dirs w)\<rparr>)
     else Raised (FileNotFoundError d) w)"
  by (simp add: ensure_dir_def mkdir_def)

lemma ensure_dir_facts:
  "raised (ensure_dir d w) = (if dir_ok (dirs w) d then None else Some (FileNotFoundError d))"
  "stages (seq (final (ensure_dir d w))) = stages (seq w)"
  "dirs (final (ensure_dir d w))
     = (if \<not> path_exists (dirs w) d \<and> path_exists (dirs w) (butlast d)
        then insert d (dirs w) else dirs w)"
  by (simp_all add: ensure_dir_alt dir_ok_def)

subsection \<open>The blocks of addSeeding\<close>

lemma seeding_writers_facts:
  "stages (seq (final (seeding_writers a CL sel sp ip pe d w)))
     = stages (seq w) @
       (case sel of
          None \<Rightarrow> []
        | Some s \<Rightarrow>
           (if dir_ok (dirs w) d
            then [(Writer, mkTrackFinderPerformanceWriter (CL INFO) ip sp
                     (cfg_key s ''inputMeasurementParticlesMap'') d),
                  (Writer, mkSeedingPerformanceWriter (CL DEBUG) ip sp
                     (cfg_key s ''inputMeasurementParticlesMap'') d),
                  (Writer, mkRootTrackParameterWriter (CL VERBOSE)
                     (cfg_key pe ''outputTrackParameters'') (cfg_key pe ''outputProtoTracks'')
                     (inputParticles a) (cfg_key s ''inputMeasurementParticlesMap'') d)]
            else []))"
  "raised (seeding_writers a CL sel sp ip pe d w)
     = (if \<not> dir_ok (dirs w) d then Some (FileNotFoundError d)
        else if sel = None then Some (UnboundLocalError ''selAlg'') else None)"
  "dirs (final (seeding_writers a CL sel sp ip pe d w))
     = (if \<not> path_exists (dirs w) d \<and> path_exists (dirs w) (butlast d)
        then insert d (dirs w) else dirs w)"
  by (cases sel; simp add: seeding_writers_def Let_def prim_simps ensure_dir_alt dir_ok_def)+

lemmas seeding_unfold = addSeeding_def seeding_finder_def Let_def prim_simps logger_fatal_def
  cfg_key_mk seeding_writers_facts

subsection \<open>addSeeding\<close>

lemmas seeding_names = selectorStages_def selectedKey_def smearingStage_def spacePointStage_def
  estimationStage_def finderStage_def seedingWriterStages_def seedingWriterError_def

text \<open>The stages a call appends, in every case.\<close>

lemma added_addSeeding:
  "added w (addSeeding env w tg fld a)
     = selectorStages (seq w) a @
       (case seedingAlgorithm a of
          TruthSmeared \<Rightarrow> [(Algorithm, smearingStage (seq w) a)]
        | TruthEstimated \<Rightarrow>
            (Algorithm, spacePointStage env (seq w) tg a) #
            (if truthSeedRanges a = None then []
             else [(Algorithm, finderStage env (seq w) tg a),
                   (Algorithm, estimationStage env (seq w) tg fld a [])]
                  @ seedingWriterStages (seq w) (dirs w) a)
        | NoSeedingAlgorithm x \<Rightarrow> [(Algorithm, spacePointStage env (seq w) tg a)]
        | _ \<Rightarrow>
            [(Algorithm, spacePointStage env (seq w) tg a),
             (Algorithm, finderStage env (seq w) tg a),
             (Algorithm, estimationStage env (seq w) tg fld a ''seeds'')]
            @ seedingWriterStages (seq w) (dirs w) a)"
  by (cases "seedingAlgorithm a"; cases "truthSeedRanges a"; cases "addSeeding_args.outputDirRoot a")
     (simp_all add: seeding_unfold added_def seeding_names)

text \<open>Whether a call raises, and what.\<close>

lemma raised_addSeeding:
  "raised (addSeeding env w tg fld a)
     = (case seedingAlgorithm a of
          TruthSmeared \<Rightarrow> None
        | TruthEstimated \<Rightarrow>
            (if truthSeedRanges a = None then Some (UnboundLocalError ''selAlg'')
             else seedingWriterError (dirs w) a)
        | NoSeedingAlgorithm x \<Rightarrow>
            (if fatalRaises env then Some (ThresholdFailure (''unknown seedingAlgorithm '' @ x))
             else Some (UnboundLocalError ''inputSeeds''))
        | _ \<Rightarrow> seedingWriterError (dirs w) a)"
  by (cases "seedingAlgorithm a"; cases "truthSeedRanges a"; cases "addSeeding_args.outputDirRoot a")
     (simp_all add: seeding_unfold seeding_names)

text \<open>The directories after a call.\<close>

lemma dirs_addSeeding:
  "dirs (final (addSeeding env w tg fld a))
     = (case addSeeding_args.outputDirRoot a of
          None \<Rightarrow> dirs w
        | Some d \<Rightarrow>
           (if seedingAlgorithm a \<in> {Default, Orthogonal}
               \<or> (seedingAlgorithm a = TruthEstimated \<and> truthSeedRanges a \<noteq> None)
            then dirs_after (dirs w) d else dirs w))"
  by (cases "seedingAlgorithm a"; cases "truthSeedRanges a"; cases "addSeeding_args.outputDirRoot a")
     (simp_all add: seeding_unfold dirs_after_def)

subsection \<open>addCKFTracks\<close>

lemmas ckf_unfold = addCKFTracks_def ckf_root_writers_def ckf_csv_writer_def Let_def prim_simps
  ensure_dir_alt cfg_key_mk

lemma added_addCKFTracks:
  "added w (addCKFTracks w tg fld c)
     = (Algorithm, mkTrackFindingAlgorithm (sequencer.logLevel (seq w)) tg fld) #
       (case addCKFTracks_args.outputDirRoot c of
          None \<Rightarrow>
           (case outputDirCsv c of
              None \<Rightarrow> []
            | Some e \<Rightarrow>
               (if dir_ok (dirs w) e
                then [(Writer, mkCsvMultiTrajectoryWriter (sequencer.logLevel (seq w))
                         ''trajectories'' e)]
                else []))
        | Some d \<Rightarrow>
           (if dir_ok (dirs w) d
            then [(Writer, mkRootTrajectoryStatesWriter (sequencer.logLevel (seq w))
                     ''trajectories'' d),
                  (Writer, mkRootTrajectorySummaryWriter (sequencer.logLevel (seq w))
                     ''trajectories'' d),
                  (Writer, mkCKFPerformanceWriter (sequencer.logLevel (seq w))
                     (selectedParticles c) ''trajectories'' (CKFPerformanceConfigArg c) d)]
                 @ (case outputDirCsv c of
                      None \<Rightarrow> []
                    | Some e \<Rightarrow>
                       (if dir_ok (dirs_after (dirs w) d) e
                        then [(Writer, mkCsvMultiTrajectoryWriter (sequencer.logLevel (seq w))
                                 ''trajectories'' e)]
                        else []))
            else []))"
  by (cases "addCKFTracks_args.outputDirRoot c"; cases "outputDirCsv c")
     (simp_all add: ckf_unfold added_def dir_ok_def dirs_after_def)

lemma raised_addCKFTracks:
  "raised (addCKFTracks w tg fld c)
     = (case addCKFTracks_args.outputDirRoot c of
          None \<Rightarrow>
           (case outputDirCsv c of
              None \<Rightarrow> None
            | Some e \<Rightarrow> (if dir_ok (dirs w) e then None else Some (FileNotFoundError e)))
        | Some d \<Rightarrow>
           (if dir_ok (dirs w) d
            then (case outputDirCsv c of
                    None \<Rightarrow> None
                  | Some e \<Rightarrow> (if dir_ok (dirs_after (dirs w) d) e then None
                               else Some (FileNotFoundError e)))
            else Some (FileNotFoundError d)))"
  by (cases "addCKFTracks_args.outputDirRoot c"; cases "outputDirCsv c")
     (simp_all add: ckf_unfold dir_ok_def dirs_after_def)

lemma dirs_addCKFTracks:
  "dirs (final (addCKFTracks w tg fld c))
     = (case addCKFTracks_args.outputDirRoot c of
          None \<Rightarrow> (case outputDirCsv c of None \<Rightarrow> dirs w | Some e \<Rightarrow> dirs_after (dirs w) e)
        | Some d \<Rightarrow>
           (if dir_ok (dirs w) d
            then (case outputDirCsv c of
                    None \<Rightarrow> dirs_after (dirs w) d
                  | Some e \<Rightarrow> dirs_after (dirs_after (dirs w) d) e)
            else dirs w))"
  by (cases "addCKFTracks_args.outputDirRoot c"; cases "outputDirCsv c")
     (simp_all add: ckf_unfold dir_ok_def dirs_after_def)

subsection \<open>addVertexFitting\<close>

lemmas vertex_unfold = addVertexFitting_def vertex_finder_def Let_def prim_simps
  ensure_dir_alt cfg_key_mk

lemma added_addVertexFitting:
  "added w (addVertexFitting w fld a)
     = (case vertexFinder a of
          Truth \<Rightarrow>
            [(Algorithm, mkTruthVertexFinder
                (customLogLevel (addVertexFitting_args.logLevel a) (seq w) VERBOSE)
                ''particles_selected''),
             (Algorithm, mkVertexFitterAlgorithm
                (customLogLevel (addVertexFitting_args.logLevel a) (seq w) VERBOSE) fld
                (trackParameters a) ''protovertices'' ''fittedVertices'')]
        | Iterative \<Rightarrow>
            [(Algorithm, mkIterativeVertexFinderAlgorithm
                (customLogLevel (addVertexFitting_args.logLevel a) (seq w) INFO) fld
                (trackParameters a) ''fittedVertices'')]
        | AMVF \<Rightarrow>
            [(Algorithm, mkAdaptiveMultiVertexFinderAlgorithm
                (customLogLevel (addVertexFitting_args.logLevel a) (seq w) INFO) fld
                (trackParameters a) ''fittedVertices'' ''outputTime'')]
        | NoVertexFinder x \<Rightarrow> [])
       @ (case addVertexFitting_args.outputDirRoot a of
            None \<Rightarrow> []
          | Some d \<Rightarrow>
             (if dir_ok (dirs w) d \<and> vertexFinder a \<in> {Truth, Iterative, AMVF}
              then [(Writer, mkRootVertexPerformanceWriter
                       (customLogLevel (addVertexFitting_args.logLevel a) (seq w) INFO)
                       ''particles_input'' ''particles_selected'' (associatedParticles a)
                       (trackParameters a) ''fittedVertices''
                       (if vertexFinder a = AMVF then ''outputTime'' else []) d)]
              else []))"
  by (cases "vertexFinder a"; cases "addVertexFitting_args.outputDirRoot a")
     (simp_all add: vertex_unfold added_def dir_ok_def)

lemma raised_addVertexFitting:
  "raised (addVertexFitting w fld a)
     = (if vertexFinder a \<in> {Truth, Iterative, AMVF}
        then (case addVertexFitting_args.outputDirRoot a of
                None \<Rightarrow> None
              | Some d \<Rightarrow> (if dir_ok (dirs w) d then None else Some (FileNotFoundError d)))
        else Some (RuntimeError ''Invalid finder argument''))"
  by (cases "vertexFinder a"; cases "addVertexFitting_args.outputDirRoot a")
     (simp_all add: vertex_unfold dir_ok_def)

lemma dirs_addVertexFitting:
  "dirs (final (addVertexFitting w fld a))
     = (case addVertexFitting_args.outputDirRoot a of
          None \<Rightarrow> dirs w
        | Some d \<Rightarrow>
           (if vertexFinder a \<in> {Truth, Iterative, AMVF} then dirs_after (dirs w) d
            else dirs w))"
  by (cases "vertexFinder a"; cases "addVertexFitting_args.outputDirRoot a")
     (simp_all add: vertex_unfold dirs_after_def)

subsection \<open>addKalmanTracks\<close>

lemma load_global_outputSimHits: "load_global ''outputSimHits'' = Inl (NameError ''outputSimHits'')"
  by (simp add: load_global_def module_globals_def)

text \<open>
  C8. With \<^verbatim>\<open>directNavigation=True\<close> the call raises \<^verbatim>\<open>NameError\<close> for
  \<^verbatim>\<open>outputSimHits\<close>, a name bound neither in the function nor in the module, when only the
  truth track finder has been added: no surface sorting algorithm and no fitting
  algorithm is in the sequencer. With \<^verbatim>\<open>directNavigation=False\<close> the call returns, having
  added exactly the truth track finder and then the fitting algorithm.
\<close>

theorem addKalmanTracks_directNavigation:
  "raised (addKalmanTracks w tg fld True thr) = Some (NameError ''outputSimHits'')
   \<and> map (\<lambda>(k, el). (k, cls el)) (added w (addKalmanTracks w tg fld True thr))
       = [(Algorithm, ''TruthTrackFinder'')]
   \<and> map_of module_globals ''outputSimHits'' = None
   \<and> map_of module_globals ''digiAlg'' = None
   \<and> raised (addKalmanTracks w tg fld False thr) = None
   \<and> map (\<lambda>(k, el). (k, cls el)) (added w (addKalmanTracks w tg fld False thr))
       = [(Algorithm, ''TruthTrackFinder''), (Algorithm, ''TrackFittingAlgorithm'')]"
  by (simp add: addKalmanTracks_def load_global_outputSimHits added_def addAlgorithm_def
      module_globals_def)

section \<open>The claims\<close>

subsection \<open>The shared key of the track parameters\<close>

lemma producers_addSeeding:
  "map (\<lambda>x. (fst x, cls (snd x)))
     (filter (produces ''estimatedparameters'') (added w (addSeeding env w tg fld a)))
   = (if seedingAlgorithm a = TruthSmeared then [(Algorithm, ''ParticleSmearing'')]
      else if seedingAlgorithm a \<in> {Default, Orthogonal}
              \<or> (seedingAlgorithm a = TruthEstimated \<and> truthSeedRanges a \<noteq> None)
           then [(Algorithm, ''TrackParamsEstimationAlgorithm'')]
      else [])"
  by (cases "seedingAlgorithm a"; cases "truthSeedRanges a"; cases "addSeeding_args.outputDirRoot a")
     (simp_all add: added_addSeeding seeding_names produces_def producedOutputs_mk cls_mk)

lemma returned_addSeeding:
  assumes "raised (addSeeding env w tg fld a) = None"
  shows "seedingAlgorithm a \<in> {TruthSmeared, Default, Orthogonal}
         \<or> (seedingAlgorithm a = TruthEstimated \<and> truthSeedRanges a \<noteq> None)"
  using assms by (cases "seedingAlgorithm a") (simp_all add: raised_addSeeding split: if_splits)

lemma returns_addSeeding:
  assumes "seedingAlgorithm a \<in> {Default, TruthSmeared, TruthEstimated, Orthogonal}"
    and "truthSeedRanges a \<noteq> None" and "addSeeding_args.outputDirRoot a = None"
  shows "raised (addSeeding env w tg fld a) = None"
  using assms by (cases "seedingAlgorithm a") (simp_all add: raised_addSeeding seedingWriterError_def)

lemma trackFinder_addCKFTracks:
  "\<exists>tf rest. added w (addCKFTracks w tg fld c) = (Algorithm, tf) # rest
      \<and> cls tf = ''TrackFindingAlgorithm''
      \<and> cfg_key tf ''inputInitialTrackParameters'' = ''estimatedparameters''
      \<and> requiredInputs tf = [''measurements'', ''sourcelinks'', ''estimatedparameters'']
      \<and> list_all (\<lambda>x. fst x = Writer) rest"
  by (cases "addCKFTracks_args.outputDirRoot c"; cases "outputDirCsv c")
     (simp_all add: added_addCKFTracks cls_mk cfg_key_mk requiredInputs_mk)

lemma default_args_simps:
  "truthSeedRanges default_addSeeding_args = Some default_TruthSeedRanges"
  "addSeeding_args.outputDirRoot default_addSeeding_args = None"
  "seedingAlgorithm default_addSeeding_args = Default"
  "inputParticles default_addSeeding_args = ''particles_initial''"
  by (simp_all add: default_addSeeding_args_def)

text \<open>
  C1. Whenever \<^verbatim>\<open>addSeeding\<close> returns, exactly one of the stages it appended writes the key
  \<^verbatim>\<open>estimatedparameters\<close>: the particle smearing for \<^verbatim>\<open>TruthSmeared\<close>, the estimation of
  track parameters for every other variant. It returns for each of the four variants when
  \<^verbatim>\<open>truthSeedRanges\<close> is given and no output directory is asked for. The first stage that
  \<^verbatim>\<open>addCKFTracks\<close> appends, whatever its arguments, is the track finding algorithm, which
  reads exactly that key as its initial track parameters; the stages after it are writers.
\<close>

theorem addSeeding_estimatedparameters:
  "(raised (addSeeding env w tg fld a) = None \<longrightarrow>
      map (\<lambda>x. (fst x, cls (snd x)))
        (filter (produces ''estimatedparameters'') (added w (addSeeding env w tg fld a)))
      = [(Algorithm, if seedingAlgorithm a = TruthSmeared then ''ParticleSmearing''
                     else ''TrackParamsEstimationAlgorithm'')])
   \<and> (seedingAlgorithm a \<in> {Default, TruthSmeared, TruthEstimated, Orthogonal}
        \<and> truthSeedRanges a \<noteq> None \<and> addSeeding_args.outputDirRoot a = None
      \<longrightarrow> raised (addSeeding env w tg fld a) = None)
   \<and> (\<exists>tf rest. added w' (addCKFTracks w' tg' fld' c) = (Algorithm, tf) # rest
          \<and> cls tf = ''TrackFindingAlgorithm''
          \<and> cfg_key tf ''inputInitialTrackParameters'' = ''estimatedparameters''
          \<and> requiredInputs tf = [''measurements'', ''sourcelinks'', ''estimatedparameters'']
          \<and> list_all (\<lambda>x. fst x = Writer) rest)"
proof (intro conjI impI)
  assume "raised (addSeeding env w tg fld a) = None"
  from returned_addSeeding[OF this]
  show "map (\<lambda>x. (fst x, cls (snd x)))
        (filter (produces ''estimatedparameters'') (added w (addSeeding env w tg fld a)))
      = [(Algorithm, if seedingAlgorithm a = TruthSmeared then ''ParticleSmearing''
                     else ''TrackParamsEstimationAlgorithm'')]"
    by (auto simp: producers_addSeeding)
next
  assume "seedingAlgorithm a \<in> {Default, TruthSmeared, TruthEstimated, Orthogonal}
        \<and> truthSeedRanges a \<noteq> None \<and> addSeeding_args.outputDirRoot a = None"
  then show "raised (addSeeding env w tg fld a) = None"
    by (simp add: returns_addSeeding)
next
  show "\<exists>tf rest. added w' (addCKFTracks w' tg' fld' c) = (Algorithm, tf) # rest
          \<and> cls tf = ''TrackFindingAlgorithm''
          \<and> cfg_key tf ''inputInitialTrackParameters'' = ''estimatedparameters''
          \<and> requiredInputs tf = [''measurements'', ''sourcelinks'', ''estimatedparameters'']
          \<and> list_all (\<lambda>x. fst x = Writer) rest"
    by (rule trackFinder_addCKFTracks)
qed

theorem addSeeding_estimatedparameters_witness:
  "raised (addSeeding env0 world0 0 0 (default_addSeeding_args\<lparr>seedingAlgorithm := TruthSmeared\<rparr>)) = None
   \<and> map (\<lambda>x. (fst x, cls (snd x)))
        (filter (produces ''estimatedparameters'')
           (added world0 (addSeeding env0 world0 0 0
              (default_addSeeding_args\<lparr>seedingAlgorithm := TruthSmeared\<rparr>))))
      = [(Algorithm, ''ParticleSmearing'')]
   \<and> raised (addSeeding env0 world0 0 0 (default_addSeeding_args\<lparr>seedingAlgorithm := TruthEstimated\<rparr>)) = None
   \<and> map (\<lambda>x. (fst x, cls (snd x)))
        (filter (produces ''estimatedparameters'')
           (added world0 (addSeeding env0 world0 0 0
              (default_addSeeding_args\<lparr>seedingAlgorithm := TruthEstimated\<rparr>))))
      = [(Algorithm, ''TrackParamsEstimationAlgorithm'')]
   \<and> raised (addSeeding env0 world0 0 0 (default_addSeeding_args\<lparr>seedingAlgorithm := Orthogonal\<rparr>)) = None
   \<and> map (\<lambda>x. (fst x, cls (snd x)))
        (filter (produces ''estimatedparameters'')
           (added world0 (addSeeding env0 world0 0 0
              (default_addSeeding_args\<lparr>seedingAlgorithm := Orthogonal\<rparr>))))
      = [(Algorithm, ''TrackParamsEstimationAlgorithm'')]
   \<and> raised (addSeeding env0 world0 0 0 default_addSeeding_args) = None
   \<and> map (\<lambda>x. (fst x, cls (snd x)))
        (filter (produces ''estimatedparameters'')
           (added world0 (addSeeding env0 world0 0 0 default_addSeeding_args)))
      = [(Algorithm, ''TrackParamsEstimationAlgorithm'')]"
  using addSeeding_estimatedparameters[of env0 world0 0 0
          "default_addSeeding_args\<lparr>seedingAlgorithm := TruthSmeared\<rparr>"]
        addSeeding_estimatedparameters[of env0 world0 0 0
          "default_addSeeding_args\<lparr>seedingAlgorithm := TruthEstimated\<rparr>"]
        addSeeding_estimatedparameters[of env0 world0 0 0
          "default_addSeeding_args\<lparr>seedingAlgorithm := Orthogonal\<rparr>"]
        addSeeding_estimatedparameters[of env0 world0 0 0 default_addSeeding_args]
  by (simp add: default_args_simps)

subsection \<open>The TruthSmeared branch\<close>

text \<open>
  C9. With \<^verbatim>\<open>seedingAlgorithm = TruthSmeared\<close> the whole outcome of \<^verbatim>\<open>addSeeding\<close> (the
  stages appended, the directories, the messages) is the same whatever is passed for
  \<^verbatim>\<open>geoSelectionConfigFile\<close>, \<^verbatim>\<open>seedfinderConfigArg\<close> and \<^verbatim>\<open>trackParamsEstimationConfig\<close>;
  the call returns, every stage it appends is an algorithm (no writer), and no directory is
  made, whatever \<^verbatim>\<open>outputDirRoot\<close> is.
\<close>

theorem addSeeding_TruthSmeared_independent:
  "addSeeding env w tg fld
      (a\<lparr>seedingAlgorithm := TruthSmeared, geoSelectionConfigFile := g,
         seedfinderConfigArg := sf, trackParamsEstimationConfig := tp\<rparr>)
     = addSeeding env w tg fld (a\<lparr>seedingAlgorithm := TruthSmeared\<rparr>)
   \<and> raised (addSeeding env w tg fld
        (a\<lparr>seedingAlgorithm := TruthSmeared, addSeeding_args.outputDirRoot := odr\<rparr>)) = None
   \<and> list_all (\<lambda>x. fst x = Algorithm)
        (added w (addSeeding env w tg fld
           (a\<lparr>seedingAlgorithm := TruthSmeared, addSeeding_args.outputDirRoot := odr\<rparr>)))
   \<and> dirs (final (addSeeding env w tg fld
        (a\<lparr>seedingAlgorithm := TruthSmeared, addSeeding_args.outputDirRoot := odr\<rparr>))) = dirs w"
proof (intro conjI)
  show "addSeeding env w tg fld
      (a\<lparr>seedingAlgorithm := TruthSmeared, geoSelectionConfigFile := g,
         seedfinderConfigArg := sf, trackParamsEstimationConfig := tp\<rparr>)
     = addSeeding env w tg fld (a\<lparr>seedingAlgorithm := TruthSmeared\<rparr>)"
    by (cases "truthSeedRanges a") (simp_all add: addSeeding_def Let_def)
  show "raised (addSeeding env w tg fld
        (a\<lparr>seedingAlgorithm := TruthSmeared, addSeeding_args.outputDirRoot := odr\<rparr>)) = None"
    by (simp add: raised_addSeeding)
  show "list_all (\<lambda>x. fst x = Algorithm)
        (added w (addSeeding env w tg fld
           (a\<lparr>seedingAlgorithm := TruthSmeared, addSeeding_args.outputDirRoot := odr\<rparr>)))"
    by (cases "truthSeedRanges a") (simp_all add: added_addSeeding selectorStages_def)
  show "dirs (final (addSeeding env w tg fld
        (a\<lparr>seedingAlgorithm := TruthSmeared, addSeeding_args.outputDirRoot := odr\<rparr>))) = dirs w"
    by (cases odr) (simp_all add: dirs_addSeeding)
qed

theorem addSeeding_TruthSmeared_independent_witness:
  "addSeeding env0 world0 0 0
      (default_addSeeding_args\<lparr>seedingAlgorithm := TruthSmeared,
         geoSelectionConfigFile := Some [''geo.json''],
         seedfinderConfigArg := default_SeedfinderConfigArg\<lparr>minPt := Some 1\<rparr>,
         trackParamsEstimationConfig := \<lparr>TrackParamsEstimationConfig.deltaR = (Some 1, Some 2)\<rparr>\<rparr>)
     = addSeeding env0 world0 0 0 (default_addSeeding_args\<lparr>seedingAlgorithm := TruthSmeared\<rparr>)
   \<and> raised (addSeeding env0 world0 0 0
        (default_addSeeding_args\<lparr>seedingAlgorithm := TruthSmeared,
           addSeeding_args.outputDirRoot := Some [''plots'']\<rparr>)) = None
   \<and> list_all (\<lambda>x. fst x = Algorithm)
        (added world0 (addSeeding env0 world0 0 0
           (default_addSeeding_args\<lparr>seedingAlgorithm := TruthSmeared,
              addSeeding_args.outputDirRoot := Some [''plots'']\<rparr>)))
   \<and> dirs (final (addSeeding env0 world0 0 0
        (default_addSeeding_args\<lparr>seedingAlgorithm := TruthSmeared,
           addSeeding_args.outputDirRoot := Some [''plots'']\<rparr>))) = dirs world0"
  by (rule addSeeding_TruthSmeared_independent)

subsection \<open>Unknown variants\<close>

lemma logged_prim:
  "logged (addAlgorithm el w) = logged w"
  "logged (addWriter el w) = logged w"
  "logged (logger_info n m w) = logged w @ [(n, INFO, m)]"
  by (simp_all add: addAlgorithm_def addWriter_def logger_info_def)

lemma logged_addSeeding_unknown:
  "logged (final (addSeeding env w tg fld (a\<lparr>seedingAlgorithm := NoSeedingAlgorithm x\<rparr>)))
     = logged w @ [(''addSeeding'', FATAL, ''unknown seedingAlgorithm '' @ x)]"
  by (cases "truthSeedRanges a") (simp_all add: seeding_unfold logged_prim)

text \<open>
  C4. A vertex finder that is no member of the enumeration makes \<^verbatim>\<open>addVertexFitting\<close>
  raise \<^verbatim>\<open>RuntimeError("Invalid finder argument")\<close> with nothing appended. A seeding
  algorithm that is no member makes \<^verbatim>\<open>addSeeding\<close> append the selector and the space point
  maker and log \<^verbatim>\<open>unknown seedingAlgorithm\<close> at \<^verbatim>\<open>FATAL\<close>; where logging at that level does
  not raise, the function goes on and ends in \<^verbatim>\<open>UnboundLocalError\<close> for \<^verbatim>\<open>inputSeeds\<close>.
\<close>

theorem addSeeding_unknown_seedingAlgorithm:
  "raised (addSeeding (env\<lparr>fatalRaises := False\<rparr>) w tg fld
        (a\<lparr>seedingAlgorithm := NoSeedingAlgorithm x\<rparr>))
     = Some (UnboundLocalError ''inputSeeds'')
   \<and> raised (addSeeding (env\<lparr>fatalRaises := True\<rparr>) w tg fld
        (a\<lparr>seedingAlgorithm := NoSeedingAlgorithm x\<rparr>))
     = Some (ThresholdFailure (''unknown seedingAlgorithm '' @ x))
   \<and> map (\<lambda>y. cls (snd y))
        (added w (addSeeding env w tg fld (a\<lparr>seedingAlgorithm := NoSeedingAlgorithm x\<rparr>)))
     = (case truthSeedRanges a of None \<Rightarrow> [] | Some t \<Rightarrow> [''TruthSeedSelector''])
       @ [''SpacePointMaker'']
   \<and> logged (final (addSeeding env w tg fld (a\<lparr>seedingAlgorithm := NoSeedingAlgorithm x\<rparr>)))
     = logged w @ [(''addSeeding'', FATAL, ''unknown seedingAlgorithm '' @ x)]
   \<and> raised (addVertexFitting w fld (b\<lparr>vertexFinder := NoVertexFinder y\<rparr>))
     = Some (RuntimeError ''Invalid finder argument'')
   \<and> added w (addVertexFitting w fld (b\<lparr>vertexFinder := NoVertexFinder y\<rparr>)) = []"
proof (intro conjI)
  show "raised (addSeeding (env\<lparr>fatalRaises := False\<rparr>) w tg fld
        (a\<lparr>seedingAlgorithm := NoSeedingAlgorithm x\<rparr>))
     = Some (UnboundLocalError ''inputSeeds'')"
    by (simp add: raised_addSeeding)
  show "raised (addSeeding (env\<lparr>fatalRaises := True\<rparr>) w tg fld
        (a\<lparr>seedingAlgorithm := NoSeedingAlgorithm x\<rparr>))
     = Some (ThresholdFailure (''unknown seedingAlgorithm '' @ x))"
    by (simp add: raised_addSeeding)
  show "map (\<lambda>y. cls (snd y))
        (added w (addSeeding env w tg fld (a\<lparr>seedingAlgorithm := NoSeedingAlgorithm x\<rparr>)))
     = (case truthSeedRanges a of None \<Rightarrow> [] | Some t \<Rightarrow> [''TruthSeedSelector''])
       @ [''SpacePointMaker'']"
    by (cases "truthSeedRanges a")
       (simp_all add: added_addSeeding selectorStages_def spacePointStage_def cls_mk)
  show "logged (final (addSeeding env w tg fld (a\<lparr>seedingAlgorithm := NoSeedingAlgorithm x\<rparr>)))
     = logged w @ [(''addSeeding'', FATAL, ''unknown seedingAlgorithm '' @ x)]"
    by (rule logged_addSeeding_unknown)
  show "raised (addVertexFitting w fld (b\<lparr>vertexFinder := NoVertexFinder y\<rparr>))
     = Some (RuntimeError ''Invalid finder argument'')"
    by (simp add: raised_addVertexFitting)
  show "added w (addVertexFitting w fld (b\<lparr>vertexFinder := NoVertexFinder y\<rparr>)) = []"
    by (cases "addVertexFitting_args.outputDirRoot b") (simp_all add: added_addVertexFitting)
qed

subsection \<open>Calls without an output directory\<close>

lemma path_exists_dirs_after:
  "dir_ok D d \<Longrightarrow> path_exists (dirs_after D d) d"
  "path_exists D p \<Longrightarrow> path_exists (dirs_after D e) p"
  by (auto simp: dir_ok_def dirs_after_def path_exists_def)

lemma dirs_after_made:
  "dir_ok D d \<Longrightarrow> dirs_after D d = (if path_exists D d then D else insert d D)"
  by (auto simp: dir_ok_def dirs_after_def)

lemma frame_addSeeding:
  "list_all (\<lambda>x. fst x = Algorithm)
     (added w (addSeeding env w tg fld (a\<lparr>addSeeding_args.outputDirRoot := None\<rparr>)))
   \<and> dirs (final (addSeeding env w tg fld (a\<lparr>addSeeding_args.outputDirRoot := None\<rparr>))) = dirs w
   \<and> filter (\<lambda>x. fst x = Algorithm)
        (added w (addSeeding env w tg fld (a\<lparr>addSeeding_args.outputDirRoot := Some d\<rparr>)))
      = added w (addSeeding env w tg fld (a\<lparr>addSeeding_args.outputDirRoot := None\<rparr>))
   \<and> (raised (addSeeding env w tg fld (a\<lparr>addSeeding_args.outputDirRoot := Some d\<rparr>)) = None
        \<and> seedingAlgorithm a \<noteq> TruthSmeared \<longrightarrow>
        path_exists (dirs (final (addSeeding env w tg fld
           (a\<lparr>addSeeding_args.outputDirRoot := Some d\<rparr>)))) d
        \<and> dirs (final (addSeeding env w tg fld (a\<lparr>addSeeding_args.outputDirRoot := Some d\<rparr>)))
            = (if path_exists (dirs w) d then dirs w else insert d (dirs w))
        \<and> map (\<lambda>x. cls (snd x)) (filter (\<lambda>x. fst x = Writer)
             (added w (addSeeding env w tg fld (a\<lparr>addSeeding_args.outputDirRoot := Some d\<rparr>))))
            = [''TrackFinderPerformanceWriter'', ''SeedingPerformanceWriter'',
               ''RootTrackParameterWriter''])"
proof (intro conjI impI)
  show "list_all (\<lambda>x. fst x = Algorithm)
     (added w (addSeeding env w tg fld (a\<lparr>addSeeding_args.outputDirRoot := None\<rparr>)))"
    by (cases "seedingAlgorithm a"; cases "truthSeedRanges a")
       (simp_all add: added_addSeeding selectorStages_def seedingWriterStages_def)
  show "dirs (final (addSeeding env w tg fld (a\<lparr>addSeeding_args.outputDirRoot := None\<rparr>))) = dirs w"
    by (simp add: dirs_addSeeding)
  show "filter (\<lambda>x. fst x = Algorithm)
        (added w (addSeeding env w tg fld (a\<lparr>addSeeding_args.outputDirRoot := Some d\<rparr>)))
      = added w (addSeeding env w tg fld (a\<lparr>addSeeding_args.outputDirRoot := None\<rparr>))"
    by (cases "seedingAlgorithm a"; cases "truthSeedRanges a")
       (simp_all add: added_addSeeding seeding_names)
next
  assume h: "raised (addSeeding env w tg fld (a\<lparr>addSeeding_args.outputDirRoot := Some d\<rparr>)) = None
        \<and> seedingAlgorithm a \<noteq> TruthSmeared"
  then have ok: "dir_ok (dirs w) d" and sel: "truthSeedRanges a \<noteq> None"
    and alg: "seedingAlgorithm a \<in> {Default, Orthogonal, TruthEstimated}"
    by (cases "seedingAlgorithm a"; simp add: raised_addSeeding seedingWriterError_def
          split: if_splits)+
  from ok sel alg
  show "path_exists (dirs (final (addSeeding env w tg fld
           (a\<lparr>addSeeding_args.outputDirRoot := Some d\<rparr>)))) d"
    by (auto simp: dirs_addSeeding path_exists_dirs_after)
  from ok sel alg
  show "dirs (final (addSeeding env w tg fld (a\<lparr>addSeeding_args.outputDirRoot := Some d\<rparr>)))
            = (if path_exists (dirs w) d then dirs w else insert d (dirs w))"
    by (auto simp: dirs_addSeeding dirs_after_made)
  from ok sel alg
  show "map (\<lambda>x. cls (snd x)) (filter (\<lambda>x. fst x = Writer)
             (added w (addSeeding env w tg fld (a\<lparr>addSeeding_args.outputDirRoot := Some d\<rparr>))))
            = [''TrackFinderPerformanceWriter'', ''SeedingPerformanceWriter'',
               ''RootTrackParameterWriter'']"
    by (cases "seedingAlgorithm a"; cases "truthSeedRanges a")
       (simp_all add: added_addSeeding seeding_names cls_mk)
qed

lemma frame_addCKFTracks:
  "added w (addCKFTracks w tg fld
       (c\<lparr>addCKFTracks_args.outputDirRoot := None, outputDirCsv := None\<rparr>))
     = [(Algorithm, mkTrackFindingAlgorithm (sequencer.logLevel (seq w)) tg fld)]
   \<and> dirs (final (addCKFTracks w tg fld
        (c\<lparr>addCKFTracks_args.outputDirRoot := None, outputDirCsv := None\<rparr>))) = dirs w
   \<and> filter (\<lambda>x. fst x = Algorithm) (added w (addCKFTracks w tg fld c))
      = added w (addCKFTracks w tg fld
          (c\<lparr>addCKFTracks_args.outputDirRoot := None, outputDirCsv := None\<rparr>))
   \<and> (raised (addCKFTracks w tg fld (c\<lparr>addCKFTracks_args.outputDirRoot := Some d\<rparr>)) = None
        \<longrightarrow>
        path_exists (dirs (final (addCKFTracks w tg fld
           (c\<lparr>addCKFTracks_args.outputDirRoot := Some d\<rparr>)))) d
        \<and> map (\<lambda>x. cls (snd x)) (filter (\<lambda>x. fst x = Writer)
             (added w (addCKFTracks w tg fld (c\<lparr>addCKFTracks_args.outputDirRoot := Some d\<rparr>))))
            = [''RootTrajectoryStatesWriter'', ''RootTrajectorySummaryWriter'',
               ''CKFPerformanceWriter'']
              @ (case outputDirCsv c of None \<Rightarrow> [] | Some e \<Rightarrow> [''CsvMultiTrajectoryWriter'']))"
proof (intro conjI impI)
  show "added w (addCKFTracks w tg fld
       (c\<lparr>addCKFTracks_args.outputDirRoot := None, outputDirCsv := None\<rparr>))
     = [(Algorithm, mkTrackFindingAlgorithm (sequencer.logLevel (seq w)) tg fld)]"
    by (simp add: added_addCKFTracks)
  show "dirs (final (addCKFTracks w tg fld
        (c\<lparr>addCKFTracks_args.outputDirRoot := None, outputDirCsv := None\<rparr>))) = dirs w"
    by (simp add: dirs_addCKFTracks)
  show "filter (\<lambda>x. fst x = Algorithm) (added w (addCKFTracks w tg fld c))
      = added w (addCKFTracks w tg fld
          (c\<lparr>addCKFTracks_args.outputDirRoot := None, outputDirCsv := None\<rparr>))"
    by (cases "addCKFTracks_args.outputDirRoot c"; cases "outputDirCsv c")
       (simp_all add: added_addCKFTracks)
next
  assume h: "raised (addCKFTracks w tg fld (c\<lparr>addCKFTracks_args.outputDirRoot := Some d\<rparr>)) = None"
  then have ok: "dir_ok (dirs w) d"
    by (simp add: raised_addCKFTracks split: if_splits)
  from ok show "path_exists (dirs (final (addCKFTracks w tg fld
           (c\<lparr>addCKFTracks_args.outputDirRoot := Some d\<rparr>)))) d"
    by (cases "outputDirCsv c") (simp_all add: dirs_addCKFTracks path_exists_dirs_after)
  from h ok show "map (\<lambda>x. cls (snd x)) (filter (\<lambda>x. fst x = Writer)
             (added w (addCKFTracks w tg fld (c\<lparr>addCKFTracks_args.outputDirRoot := Some d\<rparr>))))
            = [''RootTrajectoryStatesWriter'', ''RootTrajectorySummaryWriter'',
               ''CKFPerformanceWriter'']
              @ (case outputDirCsv c of None \<Rightarrow> [] | Some e \<Rightarrow> [''CsvMultiTrajectoryWriter''])"
    by (cases "outputDirCsv c")
       (simp_all add: added_addCKFTracks raised_addCKFTracks cls_mk split: if_splits)
qed

lemma frame_addVertexFitting:
  "list_all (\<lambda>x. fst x = Algorithm)
     (added w (addVertexFitting w fld (b\<lparr>addVertexFitting_args.outputDirRoot := None\<rparr>)))
   \<and> dirs (final (addVertexFitting w fld (b\<lparr>addVertexFitting_args.outputDirRoot := None\<rparr>)))
      = dirs w
   \<and> filter (\<lambda>x. fst x = Algorithm)
        (added w (addVertexFitting w fld (b\<lparr>addVertexFitting_args.outputDirRoot := Some d\<rparr>)))
      = added w (addVertexFitting w fld (b\<lparr>addVertexFitting_args.outputDirRoot := None\<rparr>))
   \<and> (raised (addVertexFitting w fld (b\<lparr>addVertexFitting_args.outputDirRoot := Some d\<rparr>)) = None
        \<longrightarrow>
        path_exists (dirs (final (addVertexFitting w fld
           (b\<lparr>addVertexFitting_args.outputDirRoot := Some d\<rparr>)))) d
        \<and> dirs (final (addVertexFitting w fld (b\<lparr>addVertexFitting_args.outputDirRoot := Some d\<rparr>)))
            = (if path_exists (dirs w) d then dirs w else insert d (dirs w))
        \<and> map (\<lambda>x. cls (snd x)) (filter (\<lambda>x. fst x = Writer)
             (added w (addVertexFitting w fld
                (b\<lparr>addVertexFitting_args.outputDirRoot := Some d\<rparr>))))
            = [''RootVertexPerformanceWriter''])"
proof (intro conjI impI)
  show "list_all (\<lambda>x. fst x = Algorithm)
     (added w (addVertexFitting w fld (b\<lparr>addVertexFitting_args.outputDirRoot := None\<rparr>)))"
    by (cases "vertexFinder b") (simp_all add: added_addVertexFitting)
  show "dirs (final (addVertexFitting w fld (b\<lparr>addVertexFitting_args.outputDirRoot := None\<rparr>)))
      = dirs w"
    by (simp add: dirs_addVertexFitting)
  show "filter (\<lambda>x. fst x = Algorithm)
        (added w (addVertexFitting w fld (b\<lparr>addVertexFitting_args.outputDirRoot := Some d\<rparr>)))
      = added w (addVertexFitting w fld (b\<lparr>addVertexFitting_args.outputDirRoot := None\<rparr>))"
    by (cases "vertexFinder b") (simp_all add: added_addVertexFitting)
next
  assume h: "raised (addVertexFitting w fld (b\<lparr>addVertexFitting_args.outputDirRoot := Some d\<rparr>)) = None"
  then have ok: "dir_ok (dirs w) d" and vf: "vertexFinder b \<in> {Truth, Iterative, AMVF}"
    by (simp_all add: raised_addVertexFitting split: if_splits)
  from ok vf show "path_exists (dirs (final (addVertexFitting w fld
           (b\<lparr>addVertexFitting_args.outputDirRoot := Some d\<rparr>)))) d"
    by (simp add: dirs_addVertexFitting path_exists_dirs_after)
  from ok vf show "dirs (final (addVertexFitting w fld
           (b\<lparr>addVertexFitting_args.outputDirRoot := Some d\<rparr>)))
            = (if path_exists (dirs w) d then dirs w else insert d (dirs w))"
    by (simp add: dirs_addVertexFitting dirs_after_made)
  from ok vf show "map (\<lambda>x. cls (snd x)) (filter (\<lambda>x. fst x = Writer)
             (added w (addVertexFitting w fld
                (b\<lparr>addVertexFitting_args.outputDirRoot := Some d\<rparr>))))
            = [''RootVertexPerformanceWriter'']"
    by (cases "vertexFinder b") (simp_all add: added_addVertexFitting cls_mk)
qed

lemma frame_addSeeding_TruthSmeared:
  "addSeeding env w tg fld
      (a\<lparr>seedingAlgorithm := TruthSmeared, addSeeding_args.outputDirRoot := Some d\<rparr>)
     = addSeeding env w tg fld
         (a\<lparr>seedingAlgorithm := TruthSmeared, addSeeding_args.outputDirRoot := None\<rparr>)
   \<and> raised (addSeeding env w tg fld
        (a\<lparr>seedingAlgorithm := TruthSmeared, addSeeding_args.outputDirRoot := Some d\<rparr>)) = None
   \<and> dirs (final (addSeeding env w tg fld
        (a\<lparr>seedingAlgorithm := TruthSmeared, addSeeding_args.outputDirRoot := Some d\<rparr>))) = dirs w
   \<and> filter (\<lambda>x. fst x = Writer)
        (added w (addSeeding env w tg fld
           (a\<lparr>seedingAlgorithm := TruthSmeared, addSeeding_args.outputDirRoot := Some d\<rparr>))) = []"
proof (intro conjI)
  show "addSeeding env w tg fld
      (a\<lparr>seedingAlgorithm := TruthSmeared, addSeeding_args.outputDirRoot := Some d\<rparr>)
     = addSeeding env w tg fld
         (a\<lparr>seedingAlgorithm := TruthSmeared, addSeeding_args.outputDirRoot := None\<rparr>)"
    by (cases "truthSeedRanges a") (simp_all add: addSeeding_def Let_def)
  show "raised (addSeeding env w tg fld
        (a\<lparr>seedingAlgorithm := TruthSmeared, addSeeding_args.outputDirRoot := Some d\<rparr>)) = None"
    by (simp add: raised_addSeeding)
  show "dirs (final (addSeeding env w tg fld
        (a\<lparr>seedingAlgorithm := TruthSmeared, addSeeding_args.outputDirRoot := Some d\<rparr>))) = dirs w"
    by (simp add: dirs_addSeeding)
  show "filter (\<lambda>x. fst x = Writer)
        (added w (addSeeding env w tg fld
           (a\<lparr>seedingAlgorithm := TruthSmeared, addSeeding_args.outputDirRoot := Some d\<rparr>))) = []"
    by (cases "truthSeedRanges a") (simp_all add: added_addSeeding selectorStages_def)
qed

lemma frame_addCKFTracks_csv:
  "(raised (addCKFTracks w tg fld
       (c\<lparr>addCKFTracks_args.outputDirRoot := None, outputDirCsv := Some e\<rparr>)) = None
    \<longrightarrow>
      path_exists (dirs (final (addCKFTracks w tg fld
         (c\<lparr>addCKFTracks_args.outputDirRoot := None, outputDirCsv := Some e\<rparr>)))) e
      \<and> dirs (final (addCKFTracks w tg fld
           (c\<lparr>addCKFTracks_args.outputDirRoot := None, outputDirCsv := Some e\<rparr>)))
          = (if path_exists (dirs w) e then dirs w else insert e (dirs w))
      \<and> map (\<lambda>x. (fst x, cls (snd x)))
           (added w (addCKFTracks w tg fld
              (c\<lparr>addCKFTracks_args.outputDirRoot := None, outputDirCsv := Some e\<rparr>)))
          = [(Algorithm, ''TrackFindingAlgorithm''), (Writer, ''CsvMultiTrajectoryWriter'')])
   \<and> (raised (addCKFTracks w tg fld
         (c\<lparr>addCKFTracks_args.outputDirRoot := Some d, outputDirCsv := None\<rparr>)) = None
      \<longrightarrow>
        dirs (final (addCKFTracks w tg fld
           (c\<lparr>addCKFTracks_args.outputDirRoot := Some d, outputDirCsv := None\<rparr>)))
          = (if path_exists (dirs w) d then dirs w else insert d (dirs w))
        \<and> map (\<lambda>x. (fst x, cls (snd x)))
             (added w (addCKFTracks w tg fld
                (c\<lparr>addCKFTracks_args.outputDirRoot := Some d, outputDirCsv := None\<rparr>)))
            = [(Algorithm, ''TrackFindingAlgorithm''), (Writer, ''RootTrajectoryStatesWriter''),
               (Writer, ''RootTrajectorySummaryWriter''), (Writer, ''CKFPerformanceWriter'')])
   \<and> (raised (addCKFTracks w tg fld
         (c\<lparr>addCKFTracks_args.outputDirRoot := Some d, outputDirCsv := Some e\<rparr>)) = None
      \<longrightarrow>
        path_exists (dirs (final (addCKFTracks w tg fld
           (c\<lparr>addCKFTracks_args.outputDirRoot := Some d, outputDirCsv := Some e\<rparr>)))) d
        \<and> path_exists (dirs (final (addCKFTracks w tg fld
             (c\<lparr>addCKFTracks_args.outputDirRoot := Some d, outputDirCsv := Some e\<rparr>)))) e
        \<and> dirs (final (addCKFTracks w tg fld
             (c\<lparr>addCKFTracks_args.outputDirRoot := Some d, outputDirCsv := Some e\<rparr>)))
            = (let D = (if path_exists (dirs w) d then dirs w else insert d (dirs w))
               in if path_exists D e then D else insert e D)
        \<and> map (\<lambda>x. (fst x, cls (snd x)))
             (added w (addCKFTracks w tg fld
                (c\<lparr>addCKFTracks_args.outputDirRoot := Some d, outputDirCsv := Some e\<rparr>)))
            = [(Algorithm, ''TrackFindingAlgorithm''), (Writer, ''RootTrajectoryStatesWriter''),
               (Writer, ''RootTrajectorySummaryWriter''), (Writer, ''CKFPerformanceWriter''),
               (Writer, ''CsvMultiTrajectoryWriter'')])"
proof (intro conjI impI)
  assume "raised (addCKFTracks w tg fld
       (c\<lparr>addCKFTracks_args.outputDirRoot := None, outputDirCsv := Some e\<rparr>)) = None"
  then have ok: "dir_ok (dirs w) e"
    by (simp add: raised_addCKFTracks split: if_splits)
  from ok show "path_exists (dirs (final (addCKFTracks w tg fld
         (c\<lparr>addCKFTracks_args.outputDirRoot := None, outputDirCsv := Some e\<rparr>)))) e"
    by (simp add: dirs_addCKFTracks path_exists_dirs_after)
  from ok show "dirs (final (addCKFTracks w tg fld
           (c\<lparr>addCKFTracks_args.outputDirRoot := None, outputDirCsv := Some e\<rparr>)))
          = (if path_exists (dirs w) e then dirs w else insert e (dirs w))"
    by (simp add: dirs_addCKFTracks dirs_after_made)
  from ok show "map (\<lambda>x. (fst x, cls (snd x)))
           (added w (addCKFTracks w tg fld
              (c\<lparr>addCKFTracks_args.outputDirRoot := None, outputDirCsv := Some e\<rparr>)))
          = [(Algorithm, ''TrackFindingAlgorithm''), (Writer, ''CsvMultiTrajectoryWriter'')]"
    by (simp add: added_addCKFTracks cls_mk)
next
  assume "raised (addCKFTracks w tg fld
         (c\<lparr>addCKFTracks_args.outputDirRoot := Some d, outputDirCsv := None\<rparr>)) = None"
  then have ok: "dir_ok (dirs w) d"
    by (simp add: raised_addCKFTracks split: if_splits)
  from ok show "dirs (final (addCKFTracks w tg fld
           (c\<lparr>addCKFTracks_args.outputDirRoot := Some d, outputDirCsv := None\<rparr>)))
          = (if path_exists (dirs w) d then dirs w else insert d (dirs w))"
    by (simp add: dirs_addCKFTracks dirs_after_made)
  from ok show "map (\<lambda>x. (fst x, cls (snd x)))
             (added w (addCKFTracks w tg fld
                (c\<lparr>addCKFTracks_args.outputDirRoot := Some d, outputDirCsv := None\<rparr>)))
            = [(Algorithm, ''TrackFindingAlgorithm''), (Writer, ''RootTrajectoryStatesWriter''),
               (Writer, ''RootTrajectorySummaryWriter''), (Writer, ''CKFPerformanceWriter'')]"
    by (simp add: added_addCKFTracks cls_mk)
next
  assume "raised (addCKFTracks w tg fld
         (c\<lparr>addCKFTracks_args.outputDirRoot := Some d, outputDirCsv := Some e\<rparr>)) = None"
  then have ok: "dir_ok (dirs w) d" and ok2: "dir_ok (dirs_after (dirs w) d) e"
    by (simp_all add: raised_addCKFTracks split: if_splits)
  from ok ok2 show "path_exists (dirs (final (addCKFTracks w tg fld
           (c\<lparr>addCKFTracks_args.outputDirRoot := Some d, outputDirCsv := Some e\<rparr>)))) d"
    by (simp add: dirs_addCKFTracks path_exists_dirs_after)
  from ok ok2 show "path_exists (dirs (final (addCKFTracks w tg fld
             (c\<lparr>addCKFTracks_args.outputDirRoot := Some d, outputDirCsv := Some e\<rparr>)))) e"
    by (simp add: dirs_addCKFTracks path_exists_dirs_after)
  from ok have D: "dirs_after (dirs w) d = (if path_exists (dirs w) d then dirs w else insert d (dirs w))"
    by (rule dirs_after_made)
  from ok2 have E: "dirs_after (dirs_after (dirs w) d) e
      = (if path_exists (dirs_after (dirs w) d) e then dirs_after (dirs w) d
         else insert e (dirs_after (dirs w) d))"
    by (rule dirs_after_made)
  from ok show "dirs (final (addCKFTracks w tg fld
             (c\<lparr>addCKFTracks_args.outputDirRoot := Some d, outputDirCsv := Some e\<rparr>)))
            = (let D = (if path_exists (dirs w) d then dirs w else insert d (dirs w))
               in if path_exists D e then D else insert e D)"
    unfolding Let_def D[symmetric] by (simp add: dirs_addCKFTracks E)
  from ok ok2 show "map (\<lambda>x. (fst x, cls (snd x)))
             (added w (addCKFTracks w tg fld
                (c\<lparr>addCKFTracks_args.outputDirRoot := Some d, outputDirCsv := Some e\<rparr>)))
            = [(Algorithm, ''TrackFindingAlgorithm''), (Writer, ''RootTrajectoryStatesWriter''),
               (Writer, ''RootTrajectorySummaryWriter''), (Writer, ''CKFPerformanceWriter''),
               (Writer, ''CsvMultiTrajectoryWriter'')]"
    by (simp add: added_addCKFTracks cls_mk)
qed

text \<open>
  C10 (as amended). For \<^verbatim>\<open>addSeeding\<close>, \<^verbatim>\<open>addCKFTracks\<close> and \<^verbatim>\<open>addVertexFitting\<close>: a call
  with \<^verbatim>\<open>outputDirRoot=None\<close> (and \<^verbatim>\<open>outputDirCsv=None\<close> for \<^verbatim>\<open>addCKFTracks\<close>) appends
  algorithms only and leaves the directories as they were; the algorithms that a call with
  an output directory appends are the same, in the same order. When the call with the
  directory \<open>d\<close> returns (and, for \<^verbatim>\<open>addSeeding\<close>, the seeding algorithm is not
  \<^verbatim>\<open>TruthSmeared\<close>), \<open>d\<close> exists afterwards, made if it was missing, and the writers were
  appended: three for \<^verbatim>\<open>addSeeding\<close>, three (and the CSV writer when \<^verbatim>\<open>outputDirCsv\<close> is
  given) for \<^verbatim>\<open>addCKFTracks\<close>, one for \<^verbatim>\<open>addVertexFitting\<close>.

  With \<^verbatim>\<open>TruthSmeared\<close>, the call of \<^verbatim>\<open>addSeeding\<close> with a directory has the outcome of the
  call without: it returns, makes no directory and appends no writer.

  For \<^verbatim>\<open>addCKFTracks\<close> each of the two directories stands for itself. A call that is
  given \<^verbatim>\<open>outputDirCsv\<close> only and returns has made that directory if it was missing, and
  nothing else, and has appended the track finding algorithm and the CSV writer. A call
  that is given \<^verbatim>\<open>outputDirRoot\<close> only and returns has made that directory if it was
  missing, and nothing else, and has appended the algorithm and the three ROOT writers. A
  call that is given both and returns has made first the one, then the other, each if it
  was missing, and has appended the algorithm, the three ROOT writers and the CSV writer,
  in this order.
\<close>

theorem outputDirRoot_None_frame:
  "(list_all (\<lambda>x. fst x = Algorithm)
     (added w (addSeeding env w tg fld (a\<lparr>addSeeding_args.outputDirRoot := None\<rparr>)))
   \<and> dirs (final (addSeeding env w tg fld (a\<lparr>addSeeding_args.outputDirRoot := None\<rparr>))) = dirs w
   \<and> filter (\<lambda>x. fst x = Algorithm)
        (added w (addSeeding env w tg fld (a\<lparr>addSeeding_args.outputDirRoot := Some d\<rparr>)))
      = added w (addSeeding env w tg fld (a\<lparr>addSeeding_args.outputDirRoot := None\<rparr>))
   \<and> (raised (addSeeding env w tg fld (a\<lparr>addSeeding_args.outputDirRoot := Some d\<rparr>)) = None
        \<and> seedingAlgorithm a \<noteq> TruthSmeared \<longrightarrow>
        path_exists (dirs (final (addSeeding env w tg fld
           (a\<lparr>addSeeding_args.outputDirRoot := Some d\<rparr>)))) d
        \<and> dirs (final (addSeeding env w tg fld (a\<lparr>addSeeding_args.outputDirRoot := Some d\<rparr>)))
            = (if path_exists (dirs w) d then dirs w else insert d (dirs w))
        \<and> map (\<lambda>x. cls (snd x)) (filter (\<lambda>x. fst x = Writer)
             (added w (addSeeding env w tg fld (a\<lparr>addSeeding_args.outputDirRoot := Some d\<rparr>))))
            = [''TrackFinderPerformanceWriter'', ''SeedingPerformanceWriter'',
               ''RootTrackParameterWriter'']))
   \<and> (added w (addCKFTracks w tg fld
       (c\<lparr>addCKFTracks_args.outputDirRoot := None, outputDirCsv := None\<rparr>))
     = [(Algorithm, mkTrackFindingAlgorithm (sequencer.logLevel (seq w)) tg fld)]
   \<and> dirs (final (addCKFTracks w tg fld
        (c\<lparr>addCKFTracks_args.outputDirRoot := None, outputDirCsv := None\<rparr>))) = dirs w
   \<and> filter (\<lambda>x. fst x = Algorithm) (added w (addCKFTracks w tg fld c))
      = added w (addCKFTracks w tg fld
          (c\<lparr>addCKFTracks_args.outputDirRoot := None, outputDirCsv := None\<rparr>))
   \<and> (raised (addCKFTracks w tg fld (c\<lparr>addCKFTracks_args.outputDirRoot := Some d\<rparr>)) = None
        \<longrightarrow>
        path_exists (dirs (final (addCKFTracks w tg fld
           (c\<lparr>addCKFTracks_args.outputDirRoot := Some d\<rparr>)))) d
        \<and> map (\<lambda>x. cls (snd x)) (filter (\<lambda>x. fst x = Writer)
             (added w (addCKFTracks w tg fld (c\<lparr>addCKFTracks_args.outputDirRoot := Some d\<rparr>))))
            = [''RootTrajectoryStatesWriter'', ''RootTrajectorySummaryWriter'',
               ''CKFPerformanceWriter'']
              @ (case outputDirCsv c of None \<Rightarrow> [] | Some e \<Rightarrow> [''CsvMultiTrajectoryWriter''])))
   \<and> (list_all (\<lambda>x. fst x = Algorithm)
     (added w (addVertexFitting w fld (b\<lparr>addVertexFitting_args.outputDirRoot := None\<rparr>)))
   \<and> dirs (final (addVertexFitting w fld (b\<lparr>addVertexFitting_args.outputDirRoot := None\<rparr>)))
      = dirs w
   \<and> filter (\<lambda>x. fst x = Algorithm)
        (added w (addVertexFitting w fld (b\<lparr>addVertexFitting_args.outputDirRoot := Some d\<rparr>)))
      = added w (addVertexFitting w fld (b\<lparr>addVertexFitting_args.outputDirRoot := None\<rparr>))
   \<and> (raised (addVertexFitting w fld (b\<lparr>addVertexFitting_args.outputDirRoot := Some d\<rparr>)) = None
        \<longrightarrow>
        path_exists (dirs (final (addVertexFitting w fld
           (b\<lparr>addVertexFitting_args.outputDirRoot := Some d\<rparr>)))) d
        \<and> dirs (final (addVertexFitting w fld (b\<lparr>addVertexFitting_args.outputDirRoot := Some d\<rparr>)))
            = (if path_exists (dirs w) d then dirs w else insert d (dirs w))
        \<and> map (\<lambda>x. cls (snd x)) (filter (\<lambda>x. fst x = Writer)
             (added w (addVertexFitting w fld
                (b\<lparr>addVertexFitting_args.outputDirRoot := Some d\<rparr>))))
            = [''RootVertexPerformanceWriter'']))
   \<and> (addSeeding env w tg fld
      (a\<lparr>seedingAlgorithm := TruthSmeared, addSeeding_args.outputDirRoot := Some d\<rparr>)
     = addSeeding env w tg fld
         (a\<lparr>seedingAlgorithm := TruthSmeared, addSeeding_args.outputDirRoot := None\<rparr>)
   \<and> raised (addSeeding env w tg fld
        (a\<lparr>seedingAlgorithm := TruthSmeared, addSeeding_args.outputDirRoot := Some d\<rparr>)) = None
   \<and> dirs (final (addSeeding env w tg fld
        (a\<lparr>seedingAlgorithm := TruthSmeared, addSeeding_args.outputDirRoot := Some d\<rparr>))) = dirs w
   \<and> filter (\<lambda>x. fst x = Writer)
        (added w (addSeeding env w tg fld
           (a\<lparr>seedingAlgorithm := TruthSmeared, addSeeding_args.outputDirRoot := Some d\<rparr>))) = [])
   \<and> ((raised (addCKFTracks w tg fld
       (c\<lparr>addCKFTracks_args.outputDirRoot := None, outputDirCsv := Some e\<rparr>)) = None
    \<longrightarrow>
      path_exists (dirs (final (addCKFTracks w tg fld
         (c\<lparr>addCKFTracks_args.outputDirRoot := None, outputDirCsv := Some e\<rparr>)))) e
      \<and> dirs (final (addCKFTracks w tg fld
           (c\<lparr>addCKFTracks_args.outputDirRoot := None, outputDirCsv := Some e\<rparr>)))
          = (if path_exists (dirs w) e then dirs w else insert e (dirs w))
      \<and> map (\<lambda>x. (fst x, cls (snd x)))
           (added w (addCKFTracks w tg fld
              (c\<lparr>addCKFTracks_args.outputDirRoot := None, outputDirCsv := Some e\<rparr>)))
          = [(Algorithm, ''TrackFindingAlgorithm''), (Writer, ''CsvMultiTrajectoryWriter'')])
   \<and> (raised (addCKFTracks w tg fld
         (c\<lparr>addCKFTracks_args.outputDirRoot := Some d, outputDirCsv := None\<rparr>)) = None
      \<longrightarrow>
        dirs (final (addCKFTracks w tg fld
           (c\<lparr>addCKFTracks_args.outputDirRoot := Some d, outputDirCsv := None\<rparr>)))
          = (if path_exists (dirs w) d then dirs w else insert d (dirs w))
        \<and> map (\<lambda>x. (fst x, cls (snd x)))
             (added w (addCKFTracks w tg fld
                (c\<lparr>addCKFTracks_args.outputDirRoot := Some d, outputDirCsv := None\<rparr>)))
            = [(Algorithm, ''TrackFindingAlgorithm''), (Writer, ''RootTrajectoryStatesWriter''),
               (Writer, ''RootTrajectorySummaryWriter''), (Writer, ''CKFPerformanceWriter'')])
   \<and> (raised (addCKFTracks w tg fld
         (c\<lparr>addCKFTracks_args.outputDirRoot := Some d, outputDirCsv := Some e\<rparr>)) = None
      \<longrightarrow>
        path_exists (dirs (final (addCKFTracks w tg fld
           (c\<lparr>addCKFTracks_args.outputDirRoot := Some d, outputDirCsv := Some e\<rparr>)))) d
        \<and> path_exists (dirs (final (addCKFTracks w tg fld
             (c\<lparr>addCKFTracks_args.outputDirRoot := Some d, outputDirCsv := Some e\<rparr>)))) e
        \<and> dirs (final (addCKFTracks w tg fld
             (c\<lparr>addCKFTracks_args.outputDirRoot := Some d, outputDirCsv := Some e\<rparr>)))
            = (let D = (if path_exists (dirs w) d then dirs w else insert d (dirs w))
               in if path_exists D e then D else insert e D)
        \<and> map (\<lambda>x. (fst x, cls (snd x)))
             (added w (addCKFTracks w tg fld
                (c\<lparr>addCKFTracks_args.outputDirRoot := Some d, outputDirCsv := Some e\<rparr>)))
            = [(Algorithm, ''TrackFindingAlgorithm''), (Writer, ''RootTrajectoryStatesWriter''),
               (Writer, ''RootTrajectorySummaryWriter''), (Writer, ''CKFPerformanceWriter''),
               (Writer, ''CsvMultiTrajectoryWriter'')]))"
  by (rule conjI[OF frame_addSeeding conjI[OF frame_addCKFTracks conjI[OF frame_addVertexFitting
        conjI[OF frame_addSeeding_TruthSmeared frame_addCKFTracks_csv]]]])

lemma world0_simps:
  "dirs world0 = {[''out'']}"
  "stages (seq world0) = []"
  "sequencer.logLevel (seq world0) = INFO"
  "logged world0 = []"
  by (simp_all add: world0_def Sequencer_def)

theorem outputDirRoot_None_frame_witness:
  "raised (addSeeding env0 world0 0 0
      (default_addSeeding_args\<lparr>addSeeding_args.outputDirRoot := Some [''plots'']\<rparr>)) = None
   \<and> seedingAlgorithm default_addSeeding_args \<noteq> TruthSmeared
   \<and> dirs (final (addSeeding env0 world0 0 0
        (default_addSeeding_args\<lparr>addSeeding_args.outputDirRoot := Some [''plots'']\<rparr>)))
      = {[''plots''], [''out'']}
   \<and> map (\<lambda>x. cls (snd x)) (filter (\<lambda>x. fst x = Writer)
        (added world0 (addSeeding env0 world0 0 0
           (default_addSeeding_args\<lparr>addSeeding_args.outputDirRoot := Some [''plots'']\<rparr>))))
      = [''TrackFinderPerformanceWriter'', ''SeedingPerformanceWriter'',
         ''RootTrackParameterWriter'']
   \<and> raised (addCKFTracks world0 0 0
        (default_addCKFTracks_args\<lparr>addCKFTracks_args.outputDirRoot := Some [''plots'']\<rparr>)) = None
   \<and> path_exists (dirs (final (addCKFTracks world0 0 0
        (default_addCKFTracks_args\<lparr>addCKFTracks_args.outputDirRoot := Some [''plots'']\<rparr>))))
        [''plots'']
   \<and> raised (addVertexFitting world0 0
        (default_addVertexFitting_args\<lparr>addVertexFitting_args.outputDirRoot := Some [''plots'']\<rparr>))
      = None
   \<and> map (\<lambda>x. cls (snd x)) (filter (\<lambda>x. fst x = Writer)
        (added world0 (addVertexFitting world0 0
           (default_addVertexFitting_args\<lparr>addVertexFitting_args.outputDirRoot := Some [''plots'']\<rparr>))))
      = [''RootVertexPerformanceWriter'']
   \<and> raised (addCKFTracks world0 0 0
        (default_addCKFTracks_args\<lparr>addCKFTracks_args.outputDirRoot := None,
           outputDirCsv := Some [''csv'']\<rparr>)) = None
   \<and> dirs (final (addCKFTracks world0 0 0
        (default_addCKFTracks_args\<lparr>addCKFTracks_args.outputDirRoot := None,
           outputDirCsv := Some [''csv'']\<rparr>)))
      = {[''csv''], [''out'']}
   \<and> map (\<lambda>x. (fst x, cls (snd x)))
        (added world0 (addCKFTracks world0 0 0
           (default_addCKFTracks_args\<lparr>addCKFTracks_args.outputDirRoot := None,
              outputDirCsv := Some [''csv'']\<rparr>)))
      = [(Algorithm, ''TrackFindingAlgorithm''), (Writer, ''CsvMultiTrajectoryWriter'')]
   \<and> raised (addCKFTracks world0 0 0
        (default_addCKFTracks_args\<lparr>addCKFTracks_args.outputDirRoot := Some [''plots''],
           outputDirCsv := None\<rparr>)) = None
   \<and> dirs (final (addCKFTracks world0 0 0
        (default_addCKFTracks_args\<lparr>addCKFTracks_args.outputDirRoot := Some [''plots''],
           outputDirCsv := None\<rparr>)))
      = {[''plots''], [''out'']}
   \<and> raised (addCKFTracks world0 0 0
        (default_addCKFTracks_args\<lparr>addCKFTracks_args.outputDirRoot := Some [''plots''],
           outputDirCsv := Some [''csv'']\<rparr>)) = None
   \<and> dirs (final (addCKFTracks world0 0 0
        (default_addCKFTracks_args\<lparr>addCKFTracks_args.outputDirRoot := Some [''plots''],
           outputDirCsv := Some [''csv'']\<rparr>)))
      = {[''csv''], [''plots''], [''out'']}
   \<and> map (\<lambda>x. (fst x, cls (snd x)))
        (added world0 (addCKFTracks world0 0 0
           (default_addCKFTracks_args\<lparr>addCKFTracks_args.outputDirRoot := Some [''plots''],
              outputDirCsv := Some [''csv'']\<rparr>)))
      = [(Algorithm, ''TrackFindingAlgorithm''), (Writer, ''RootTrajectoryStatesWriter''),
         (Writer, ''RootTrajectorySummaryWriter''), (Writer, ''CKFPerformanceWriter''),
         (Writer, ''CsvMultiTrajectoryWriter'')]"
proof -
  have ok: "dir_ok (dirs world0) [''plots'']" "\<not> path_exists (dirs world0) [''plots'']"
    by (simp_all add: dir_ok_def path_exists_def world0_simps)
  have okc: "dir_ok (dirs world0) [''csv'']" "\<not> path_exists (dirs world0) [''csv'']"
    "dir_ok (dirs_after (dirs world0) [''plots'']) [''csv'']"
    "\<not> path_exists (insert [''plots''] (dirs world0)) [''csv'']"
    by (simp_all add: dir_ok_def path_exists_def world0_simps dirs_after_def)
  have r4: "raised (addCKFTracks world0 0 0
        (default_addCKFTracks_args\<lparr>addCKFTracks_args.outputDirRoot := None,
           outputDirCsv := Some [''csv'']\<rparr>)) = None"
    using okc by (simp add: raised_addCKFTracks)
  have r5: "raised (addCKFTracks world0 0 0
        (default_addCKFTracks_args\<lparr>addCKFTracks_args.outputDirRoot := Some [''plots''],
           outputDirCsv := None\<rparr>)) = None"
    using ok by (simp add: raised_addCKFTracks)
  have r6: "raised (addCKFTracks world0 0 0
        (default_addCKFTracks_args\<lparr>addCKFTracks_args.outputDirRoot := Some [''plots''],
           outputDirCsv := Some [''csv'']\<rparr>)) = None"
    using ok okc by (simp add: raised_addCKFTracks)
  have r1: "raised (addSeeding env0 world0 0 0
      (default_addSeeding_args\<lparr>addSeeding_args.outputDirRoot := Some [''plots'']\<rparr>)) = None"
    using ok by (simp add: raised_addSeeding seedingWriterError_def default_args_simps)
  have r2: "raised (addCKFTracks world0 0 0
        (default_addCKFTracks_args\<lparr>addCKFTracks_args.outputDirRoot := Some [''plots'']\<rparr>)) = None"
    using ok by (simp add: raised_addCKFTracks default_addCKFTracks_args_def)
  have r3: "raised (addVertexFitting world0 0
        (default_addVertexFitting_args\<lparr>addVertexFitting_args.outputDirRoot := Some [''plots'']\<rparr>))
      = None"
    using ok by (simp add: raised_addVertexFitting default_addVertexFitting_args_def)
  show ?thesis
    using outputDirRoot_None_frame[where w = world0 and env = env0 and tg = 0 and fld = 0
            and a = default_addSeeding_args and d = "[''plots'']" and e = "[''csv'']"
            and c = default_addCKFTracks_args and b = default_addVertexFitting_args]
          r1 r2 r3 r4 r5 r6 ok okc
    by (simp add: default_args_simps world0_simps insert_commute Let_def)
qed

text \<open>
  C10 as it was stated fails for \<^verbatim>\<open>TruthSmeared\<close>: the call with the missing directory
  \<^verbatim>\<open>plots\<close> returns, and afterwards the directory is still missing and no writer was
  appended.
\<close>

theorem addSeeding_TruthSmeared_outputDirRoot_counterexample:
  "raised (addSeeding env0 world0 0 0
      (default_addSeeding_args\<lparr>seedingAlgorithm := TruthSmeared,
         addSeeding_args.outputDirRoot := Some [''plots'']\<rparr>)) = None
   \<and> \<not> path_exists (dirs world0) [''plots'']
   \<and> \<not> path_exists (dirs (final (addSeeding env0 world0 0 0
        (default_addSeeding_args\<lparr>seedingAlgorithm := TruthSmeared,
           addSeeding_args.outputDirRoot := Some [''plots'']\<rparr>)))) [''plots'']
   \<and> filter (\<lambda>x. fst x = Writer)
        (added world0 (addSeeding env0 world0 0 0
           (default_addSeeding_args\<lparr>seedingAlgorithm := TruthSmeared,
              addSeeding_args.outputDirRoot := Some [''plots'']\<rparr>))) = []"
  by (simp add: raised_addSeeding dirs_addSeeding added_addSeeding selectorStages_def
      default_args_simps world0_simps path_exists_def)

subsection \<open>One branch per call, one sequencer per variant\<close>

lemmas script_defs = physmon_def physmon_truth_tracking_def physmon_variant_def physmon_variants_def
  check_files_def check_root_files_def test_fatras_def test_seeding_def test_propagation_def test_event_recording_def
  test_particle_gun_def test_material_mapping_def test_material_mapping_map_def
  test_material_mapping_validation_def test_geometry_example_def test_digitization_example_def
  test_digitization_example_input_def test_digitization_config_example_def
  test_ckf_tracks_example_def test_ckf_tracks_example_full_seeding_def
  test_ckf_tracks_example_truth_estimate_def test_ckf_tracks_example_truth_smeared_def

lemma variant_addSeeding:
  "filter (\<lambda>n. n \<in> set variantClasses)
     (map (\<lambda>x. cls (snd x)) (added w (addSeeding env w tg fld a)))
   = (if seedingAlgorithm a = TruthEstimated \<and> truthSeedRanges a = None then []
      else variantClass (seedingAlgorithm a))"
  by (cases "seedingAlgorithm a"; cases "truthSeedRanges a"; cases "addSeeding_args.outputDirRoot a")
     (simp_all add: added_addSeeding seeding_names cls_mk variantClasses_def)

lemma algorithms_addSeeding:
  "map (\<lambda>x. cls (snd x)) (filter (\<lambda>x. fst x = Algorithm) (added w (addSeeding env w tg fld a)))
   = (case truthSeedRanges a of None \<Rightarrow> [] | Some t \<Rightarrow> [''TruthSeedSelector''])
     @ (case seedingAlgorithm a of
          TruthSmeared \<Rightarrow> [''ParticleSmearing'']
        | TruthEstimated \<Rightarrow>
            ''SpacePointMaker'' #
            (if truthSeedRanges a = None then []
             else [''TruthTrackFinder'', ''TrackParamsEstimationAlgorithm''])
        | Default \<Rightarrow> [''SpacePointMaker'', ''SeedingAlgorithm'', ''TrackParamsEstimationAlgorithm'']
        | Orthogonal \<Rightarrow>
            [''SpacePointMaker'', ''SeedingOrthogonalAlgorithm'',
             ''TrackParamsEstimationAlgorithm'']
        | NoSeedingAlgorithm x \<Rightarrow> [''SpacePointMaker''])"
  by (cases "seedingAlgorithm a"; cases "truthSeedRanges a"; cases "addSeeding_args.outputDirRoot a")
     (simp_all add: added_addSeeding seeding_names cls_mk)

lemma classes_addSeeding:
  assumes "raised (addSeeding env w tg fld a) = None"
  shows "map (\<lambda>x. (fst x, cls (snd x))) (added w (addSeeding env w tg fld a))
   = (case truthSeedRanges a of None \<Rightarrow> [] | Some t \<Rightarrow> [(Algorithm, ''TruthSeedSelector'')])
     @ (case seedingAlgorithm a of
          TruthSmeared \<Rightarrow> [(Algorithm, ''ParticleSmearing'')]
        | TruthEstimated \<Rightarrow>
            [(Algorithm, ''SpacePointMaker''), (Algorithm, ''TruthTrackFinder''),
             (Algorithm, ''TrackParamsEstimationAlgorithm'')]
        | Default \<Rightarrow>
            [(Algorithm, ''SpacePointMaker''), (Algorithm, ''SeedingAlgorithm''),
             (Algorithm, ''TrackParamsEstimationAlgorithm'')]
        | Orthogonal \<Rightarrow>
            [(Algorithm, ''SpacePointMaker''), (Algorithm, ''SeedingOrthogonalAlgorithm''),
             (Algorithm, ''TrackParamsEstimationAlgorithm'')]
        | NoSeedingAlgorithm x \<Rightarrow> [])
     @ (if seedingAlgorithm a \<noteq> TruthSmeared \<and> addSeeding_args.outputDirRoot a \<noteq> None
        then [(Writer, ''TrackFinderPerformanceWriter''), (Writer, ''SeedingPerformanceWriter''),
              (Writer, ''RootTrackParameterWriter'')]
        else [])"
proof -
  have alg: "seedingAlgorithm a \<in> {TruthSmeared, Default, Orthogonal}
         \<or> (seedingAlgorithm a = TruthEstimated \<and> truthSeedRanges a \<noteq> None)"
    by (rule returned_addSeeding[OF assms])
  have we: "seedingAlgorithm a \<noteq> TruthSmeared \<Longrightarrow> seedingWriterError (dirs w) a = None"
    using assms by (cases "seedingAlgorithm a") (simp_all add: raised_addSeeding split: if_splits)
  have ws: "seedingAlgorithm a \<noteq> TruthSmeared \<Longrightarrow>
      map (\<lambda>x. (fst x, cls (snd x))) (seedingWriterStages (seq w) (dirs w) a)
      = (if addSeeding_args.outputDirRoot a \<noteq> None
         then [(Writer, ''TrackFinderPerformanceWriter''), (Writer, ''SeedingPerformanceWriter''),
               (Writer, ''RootTrackParameterWriter'')]
         else [])"
    using we
    by (cases "addSeeding_args.outputDirRoot a")
       (simp_all add: seedingWriterStages_def seedingWriterError_def cls_mk split: if_splits)
  show ?thesis
    using alg ws
    by (cases "seedingAlgorithm a"; cases "truthSeedRanges a")
       (simp_all add: added_addSeeding selectorStages_def selectedKey_def smearingStage_def
          spacePointStage_def estimationStage_def finderStage_def cls_mk)
qed

lemma algorithms_addVertexFitting:
  "map (\<lambda>x. cls (snd x)) (filter (\<lambda>x. fst x = Algorithm) (added w (addVertexFitting w fld b)))
   = vertexClasses (vertexFinder b)"
  by (cases "vertexFinder b"; cases "addVertexFitting_args.outputDirRoot b")
     (simp_all add: added_addVertexFitting cls_mk)

lemma classes_addVertexFitting:
  assumes "raised (addVertexFitting w fld b) = None"
  shows "map (\<lambda>x. (fst x, cls (snd x))) (added w (addVertexFitting w fld b))
   = map (Pair Algorithm) (vertexClasses (vertexFinder b))
     @ (case addVertexFitting_args.outputDirRoot b of
          None \<Rightarrow> []
        | Some d \<Rightarrow> [(Writer, ''RootVertexPerformanceWriter'')])"
proof -
  have vf: "vertexFinder b \<in> {Truth, Iterative, AMVF}"
    using assms by (simp add: raised_addVertexFitting split: if_splits)
  have ok: "\<And>d. addVertexFitting_args.outputDirRoot b = Some d \<Longrightarrow> dir_ok (dirs w) d"
    using assms vf by (simp add: raised_addVertexFitting split: if_splits)
  show ?thesis
    using vf ok
    by (cases "vertexFinder b"; cases "addVertexFitting_args.outputDirRoot b")
       (simp_all add: added_addVertexFitting cls_mk)
qed

lemma sequencers_scripts:
  "sequencers_handed 0 [] physmon
     = [(''runTruthTracking'', [0]), (''runCKFTracks'', [1]), (''runCKFTracks'', [2]),
        (''runCKFTracks'', [3])]"
  "sequencers_handed 0 [] test_ckf_tracks_example_full_seeding = [(''runCKFTracks'', [0])]"
  "sequencers_handed 0 [] test_ckf_tracks_example_truth_estimate = [(''runCKFTracks'', [0])]"
  "sequencers_handed 0 [] test_ckf_tracks_example_truth_smeared = [(''runCKFTracks'', [0])]"
  "sequencers_handed 0 [] test_fatras = [(''runFatras'', [0])]"
  "sequencers_handed 0 [] test_seeding = [(''runSeeding'', [0])]"
  "sequencers_handed 0 [] test_propagation = [(''runPropagation'', [0])]"
  "sequencers_handed 0 [] test_particle_gun = [(''runParticleGun'', [0])]"
  "sequencers_handed 0 [] test_material_mapping
     = [(''runMaterialMapping'', [0]), (''runMaterialValidation'', [1])]"
  "sequencers_handed 0 [] test_digitization_example = [(''configureDigitization'', [0])]"
  "sequencers_handed 0 [] test_digitization_example_input
     = [(''runParticleGun'', [0]), (''configureDigitization'', [1])]"
  by (simp_all add: script_defs map_filter_simps)

lemma ckf_flags_physmon:
  "ckf_flags physmon
     = [(Some ''True'', Some ''False''), (Some ''False'', Some ''True''),
        (Some ''False'', Some ''False'')]"
  by (simp add: script_defs)

text \<open>
  C5. The algorithms a call of \<^verbatim>\<open>addSeeding\<close> appends are, by class and in order, the truth
  seed selector (when \<^verbatim>\<open>truthSeedRanges\<close> is given) and then those of the branch selected
  by \<^verbatim>\<open>seedingAlgorithm\<close> and of no other; among them, the classes that belong to one
  variant only are those of the selected variant. A call that returns has appended
  exactly: the selector, the algorithms of its branch (the one of its variant among them),
  and the three writers when the branch is not \<^verbatim>\<open>TruthSmeared\<close> and an output directory is
  given. The algorithms a call of \<^verbatim>\<open>addVertexFitting\<close> appends are exactly those of the
  selected finder; a call that returns has appended them and, when an output directory is
  given, the one writer. In \<^verbatim>\<open>physmon.py\<close> and in the tests, every call that configures a
  sequencer is handed exactly one, by keyword and in no other argument, and each
  sequencer constructed is handed to one call only: \<^verbatim>\<open>physmon.py\<close> constructs four
  sequencers, the first for \<^verbatim>\<open>runTruthTracking\<close> and one for each of the three calls of
  \<^verbatim>\<open>runCKFTracks\<close>, which select the three variants, one each.
\<close>

theorem one_branch_per_call:
  "map (\<lambda>x. cls (snd x)) (filter (\<lambda>x. fst x = Algorithm) (added w (addSeeding env w tg fld a)))
   = (case truthSeedRanges a of None \<Rightarrow> [] | Some t \<Rightarrow> [''TruthSeedSelector''])
     @ (case seedingAlgorithm a of
          TruthSmeared \<Rightarrow> [''ParticleSmearing'']
        | TruthEstimated \<Rightarrow>
            ''SpacePointMaker'' #
            (if truthSeedRanges a = None then []
             else [''TruthTrackFinder'', ''TrackParamsEstimationAlgorithm''])
        | Default \<Rightarrow> [''SpacePointMaker'', ''SeedingAlgorithm'', ''TrackParamsEstimationAlgorithm'']
        | Orthogonal \<Rightarrow>
            [''SpacePointMaker'', ''SeedingOrthogonalAlgorithm'',
             ''TrackParamsEstimationAlgorithm'']
        | NoSeedingAlgorithm x \<Rightarrow> [''SpacePointMaker''])
   \<and> filter (\<lambda>n. n \<in> set variantClasses)
        (map (\<lambda>x. cls (snd x)) (added w (addSeeding env w tg fld a)))
      = (if seedingAlgorithm a = TruthEstimated \<and> truthSeedRanges a = None then []
         else variantClass (seedingAlgorithm a))
   \<and> (raised (addSeeding env w tg fld a) = None \<longrightarrow>
        map (\<lambda>x. (fst x, cls (snd x))) (added w (addSeeding env w tg fld a))
        = (case truthSeedRanges a of None \<Rightarrow> [] | Some t \<Rightarrow> [(Algorithm, ''TruthSeedSelector'')])
          @ (case seedingAlgorithm a of
               TruthSmeared \<Rightarrow> [(Algorithm, ''ParticleSmearing'')]
             | TruthEstimated \<Rightarrow>
                 [(Algorithm, ''SpacePointMaker''), (Algorithm, ''TruthTrackFinder''),
                  (Algorithm, ''TrackParamsEstimationAlgorithm'')]
             | Default \<Rightarrow>
                 [(Algorithm, ''SpacePointMaker''), (Algorithm, ''SeedingAlgorithm''),
                  (Algorithm, ''TrackParamsEstimationAlgorithm'')]
             | Orthogonal \<Rightarrow>
                 [(Algorithm, ''SpacePointMaker''), (Algorithm, ''SeedingOrthogonalAlgorithm''),
                  (Algorithm, ''TrackParamsEstimationAlgorithm'')]
             | NoSeedingAlgorithm x \<Rightarrow> [])
          @ (if seedingAlgorithm a \<noteq> TruthSmeared \<and> addSeeding_args.outputDirRoot a \<noteq> None
             then [(Writer, ''TrackFinderPerformanceWriter''), (Writer, ''SeedingPerformanceWriter''),
                   (Writer, ''RootTrackParameterWriter'')]
             else [])
        \<and> filter (\<lambda>n. n \<in> set variantClasses)
            (map (\<lambda>x. cls (snd x)) (added w (addSeeding env w tg fld a)))
          = variantClass (seedingAlgorithm a)
        \<and> length (variantClass (seedingAlgorithm a)) = 1)
   \<and> map (\<lambda>x. cls (snd x)) (filter (\<lambda>x. fst x = Algorithm) (added w (addVertexFitting w fld b)))
      = vertexClasses (vertexFinder b)
   \<and> (raised (addVertexFitting w fld b) = None \<longrightarrow>
        map (\<lambda>x. (fst x, cls (snd x))) (added w (addVertexFitting w fld b))
        = map (Pair Algorithm) (vertexClasses (vertexFinder b))
          @ (case addVertexFitting_args.outputDirRoot b of
               None \<Rightarrow> []
             | Some d \<Rightarrow> [(Writer, ''RootVertexPerformanceWriter'')])
        \<and> vertexClasses (vertexFinder b) \<noteq> [])
   \<and> sequencers_handed 0 [] physmon
      = [(''runTruthTracking'', [0]), (''runCKFTracks'', [1]), (''runCKFTracks'', [2]),
         (''runCKFTracks'', [3])]
   \<and> ckf_flags physmon
      = [(Some ''True'', Some ''False''), (Some ''False'', Some ''True''),
         (Some ''False'', Some ''False'')]
   \<and> sequencers_handed 0 [] test_ckf_tracks_example_full_seeding = [(''runCKFTracks'', [0])]
   \<and> sequencers_handed 0 [] test_ckf_tracks_example_truth_estimate = [(''runCKFTracks'', [0])]
   \<and> sequencers_handed 0 [] test_ckf_tracks_example_truth_smeared = [(''runCKFTracks'', [0])]
   \<and> sequencers_handed 0 [] test_fatras = [(''runFatras'', [0])]
   \<and> sequencers_handed 0 [] test_seeding = [(''runSeeding'', [0])]
   \<and> sequencers_handed 0 [] test_propagation = [(''runPropagation'', [0])]
   \<and> sequencers_handed 0 [] test_particle_gun = [(''runParticleGun'', [0])]
   \<and> sequencers_handed 0 [] test_material_mapping
      = [(''runMaterialMapping'', [0]), (''runMaterialValidation'', [1])]
   \<and> sequencers_handed 0 [] test_digitization_example = [(''configureDigitization'', [0])]
   \<and> sequencers_handed 0 [] test_digitization_example_input
      = [(''runParticleGun'', [0]), (''configureDigitization'', [1])]"
proof -
  have ret: "raised (addSeeding env w tg fld a) = None \<longrightarrow>
        map (\<lambda>x. (fst x, cls (snd x))) (added w (addSeeding env w tg fld a))
        = (case truthSeedRanges a of None \<Rightarrow> [] | Some t \<Rightarrow> [(Algorithm, ''TruthSeedSelector'')])
          @ (case seedingAlgorithm a of
               TruthSmeared \<Rightarrow> [(Algorithm, ''ParticleSmearing'')]
             | TruthEstimated \<Rightarrow>
                 [(Algorithm, ''SpacePointMaker''), (Algorithm, ''TruthTrackFinder''),
                  (Algorithm, ''TrackParamsEstimationAlgorithm'')]
             | Default \<Rightarrow>
                 [(Algorithm, ''SpacePointMaker''), (Algorithm, ''SeedingAlgorithm''),
                  (Algorithm, ''TrackParamsEstimationAlgorithm'')]
             | Orthogonal \<Rightarrow>
                 [(Algorithm, ''SpacePointMaker''), (Algorithm, ''SeedingOrthogonalAlgorithm''),
                  (Algorithm, ''TrackParamsEstimationAlgorithm'')]
             | NoSeedingAlgorithm x \<Rightarrow> [])
          @ (if seedingAlgorithm a \<noteq> TruthSmeared \<and> addSeeding_args.outputDirRoot a \<noteq> None
             then [(Writer, ''TrackFinderPerformanceWriter''), (Writer, ''SeedingPerformanceWriter''),
                   (Writer, ''RootTrackParameterWriter'')]
             else [])
        \<and> filter (\<lambda>n. n \<in> set variantClasses)
            (map (\<lambda>x. cls (snd x)) (added w (addSeeding env w tg fld a)))
          = variantClass (seedingAlgorithm a)
        \<and> length (variantClass (seedingAlgorithm a)) = 1"
  proof (intro impI conjI)
    assume h: "raised (addSeeding env w tg fld a) = None"
    show "map (\<lambda>x. (fst x, cls (snd x))) (added w (addSeeding env w tg fld a))
        = (case truthSeedRanges a of None \<Rightarrow> [] | Some t \<Rightarrow> [(Algorithm, ''TruthSeedSelector'')])
          @ (case seedingAlgorithm a of
               TruthSmeared \<Rightarrow> [(Algorithm, ''ParticleSmearing'')]
             | TruthEstimated \<Rightarrow>
                 [(Algorithm, ''SpacePointMaker''), (Algorithm, ''TruthTrackFinder''),
                  (Algorithm, ''TrackParamsEstimationAlgorithm'')]
             | Default \<Rightarrow>
                 [(Algorithm, ''SpacePointMaker''), (Algorithm, ''SeedingAlgorithm''),
                  (Algorithm, ''TrackParamsEstimationAlgorithm'')]
             | Orthogonal \<Rightarrow>
                 [(Algorithm, ''SpacePointMaker''), (Algorithm, ''SeedingOrthogonalAlgorithm''),
                  (Algorithm, ''TrackParamsEstimationAlgorithm'')]
             | NoSeedingAlgorithm x \<Rightarrow> [])
          @ (if seedingAlgorithm a \<noteq> TruthSmeared \<and> addSeeding_args.outputDirRoot a \<noteq> None
             then [(Writer, ''TrackFinderPerformanceWriter''), (Writer, ''SeedingPerformanceWriter''),
                   (Writer, ''RootTrackParameterWriter'')]
             else [])"
      by (rule classes_addSeeding[OF h])
    from returned_addSeeding[OF h]
    show "filter (\<lambda>n. n \<in> set variantClasses)
            (map (\<lambda>x. cls (snd x)) (added w (addSeeding env w tg fld a)))
          = variantClass (seedingAlgorithm a)"
      by (auto simp: variant_addSeeding)
    from returned_addSeeding[OF h]
    show "length (variantClass (seedingAlgorithm a)) = 1"
      by auto
  qed
  have vret: "raised (addVertexFitting w fld b) = None \<longrightarrow>
        map (\<lambda>x. (fst x, cls (snd x))) (added w (addVertexFitting w fld b))
        = map (Pair Algorithm) (vertexClasses (vertexFinder b))
          @ (case addVertexFitting_args.outputDirRoot b of
               None \<Rightarrow> []
             | Some d \<Rightarrow> [(Writer, ''RootVertexPerformanceWriter'')])
        \<and> vertexClasses (vertexFinder b) \<noteq> []"
  proof (intro impI conjI)
    assume h: "raised (addVertexFitting w fld b) = None"
    show "map (\<lambda>x. (fst x, cls (snd x))) (added w (addVertexFitting w fld b))
        = map (Pair Algorithm) (vertexClasses (vertexFinder b))
          @ (case addVertexFitting_args.outputDirRoot b of
               None \<Rightarrow> []
             | Some d \<Rightarrow> [(Writer, ''RootVertexPerformanceWriter'')])"
      by (rule classes_addVertexFitting[OF h])
    from h show "vertexClasses (vertexFinder b) \<noteq> []"
      by (cases "vertexFinder b") (simp_all add: raised_addVertexFitting)
  qed
  note scr = sequencers_scripts ckf_flags_physmon
  show ?thesis
    by (intro conjI algorithms_addSeeding variant_addSeeding ret algorithms_addVertexFitting
        vret scr)
qed

theorem one_branch_per_call_witness:
  "raised (addSeeding env0 world0 0 0 default_addSeeding_args) = None
   \<and> map (\<lambda>x. (fst x, cls (snd x)))
       (added world0 (addSeeding env0 world0 0 0 default_addSeeding_args))
     = [(Algorithm, ''TruthSeedSelector''), (Algorithm, ''SpacePointMaker''),
        (Algorithm, ''SeedingAlgorithm''), (Algorithm, ''TrackParamsEstimationAlgorithm'')]
   \<and> filter (\<lambda>n. n \<in> set variantClasses)
       (map (\<lambda>x. cls (snd x)) (added world0 (addSeeding env0 world0 0 0 default_addSeeding_args)))
     = [''SeedingAlgorithm'']
   \<and> raised (addVertexFitting world0 0 default_addVertexFitting_args) = None
   \<and> map (\<lambda>x. (fst x, cls (snd x)))
        (added world0 (addVertexFitting world0 0 default_addVertexFitting_args))
     = [(Algorithm, ''TruthVertexFinder''), (Algorithm, ''VertexFitterAlgorithm'')]"
proof -
  have r1: "raised (addSeeding env0 world0 0 0 default_addSeeding_args) = None"
    by (simp add: raised_addSeeding seedingWriterError_def default_args_simps)
  have r2: "raised (addVertexFitting world0 0 default_addVertexFitting_args) = None"
    by (simp add: raised_addVertexFitting default_addVertexFitting_args_def)
  show ?thesis
    using one_branch_per_call[where w = world0 and env = env0 and tg = 0 and fld = 0
            and a = default_addSeeding_args and b = default_addVertexFitting_args] r1 r2
    by (simp add: default_args_simps default_addVertexFitting_args_def)
qed

subsection \<open>Threads of the runs with digitization\<close>

text \<open>
  C6. The first sequencer of \<^verbatim>\<open>physmon.py\<close> is constructed with \<^verbatim>\<open>numThreads=-1\<close>, handed
  to \<^verbatim>\<open>runTruthTracking\<close> together with a digitization configuration, and run as it was
  constructed: the script neither rejects the request nor constructs the sequencer anew
  with one thread. The three sequencers of its loop over \<^verbatim>\<open>runCKFTracks\<close>, and those of the
  three tests of the CKF example, whose comment reads \<^verbatim>\<open>Digitization is not thread-safe\<close>,
  are constructed with \<^verbatim>\<open>numThreads=1\<close>. Both digitization tests run digitization on a
  sequencer constructed with \<^verbatim>\<open>numThreads=-1\<close>. Each pair below is one \<^verbatim>\<open>run()\<close>: the
  \<^verbatim>\<open>numThreads\<close> of the construction, and whether digitization was configured.
\<close>

theorem digitization_run_threads:
  "run_threads [] physmon_truth_tracking = [(Some ''-1'', True)]
   \<and> run_threads [] physmon
      = [(Some ''-1'', True), (Some ''1'', True), (Some ''1'', True), (Some ''1'', True)]
   \<and> run_threads [] test_ckf_tracks_example_full_seeding = [(Some ''1'', True)]
   \<and> run_threads [] test_ckf_tracks_example_truth_estimate = [(Some ''1'', True)]
   \<and> run_threads [] test_ckf_tracks_example_truth_smeared = [(Some ''1'', True)]
   \<and> run_threads [] test_digitization_example = [(Some ''-1'', True)]
   \<and> run_threads [] test_digitization_example_input = [(Some ''-1'', False), (Some ''-1'', True)]"
  by (simp add: script_defs uses_digitization_def)

subsection \<open>Deleting the sequencer before looking at the files\<close>

text \<open>
  C7 (as amended). In \<^verbatim>\<open>physmon.py\<close>, in \<^verbatim>\<open>test_fatras\<close>, \<^verbatim>\<open>test_seeding\<close>, the mapping part
  of \<^verbatim>\<open>test_material_mapping\<close> and the three tests of the CKF example, the sequencer is
  deleted after \<^verbatim>\<open>run()\<close> and before any file is looked at. \<^verbatim>\<open>test_propagation\<close>, the
  validation part of \<^verbatim>\<open>test_material_mapping\<close> and the two digitization tests look at
  output files after \<^verbatim>\<open>run()\<close> while the sequencer is still there.
\<close>

theorem scripts_del_before_look:
  "del_before_look [] physmon
   \<and> del_before_look [] test_fatras
   \<and> del_before_look [] test_seeding
   \<and> del_before_look [] test_material_mapping_map
   \<and> del_before_look [] test_ckf_tracks_example_full_seeding
   \<and> del_before_look [] test_ckf_tracks_example_truth_estimate
   \<and> del_before_look [] test_ckf_tracks_example_truth_smeared
   \<and> \<not> del_before_look [] test_propagation
   \<and> \<not> del_before_look [] test_material_mapping
   \<and> \<not> del_before_look [] test_digitization_example
   \<and> \<not> del_before_look [] test_digitization_example_input"
  by (simp add: script_defs)

text \<open>
  C7 as it was stated fails on \<^verbatim>\<open>test_particle_gun\<close>: after \<^verbatim>\<open>run()\<close> it asserts that the
  CSV directory and the ROOT file exist, and never deletes the sequencer.
\<close>

theorem test_particle_gun_counterexample:
  "\<not> del_before_look [] test_particle_gun"
  by (simp add: script_defs)

subsection \<open>Inputs are produced before they are read\<close>

lemma dependencies_satisfied_Cons:
  "dependencies_satisfied A (s # ss)
     = ((\<forall>k\<in>set (requiredInputs s). k \<in> set A)
        \<and> dependencies_satisfied (A @ producedOutputs s) ss)"
  by (auto simp: dependencies_satisfied_def All_less_Suc2 Ex_less_Suc2)

lemma check_dependencies_Cons:
  "(check_dependencies A (s # ss) = None)
     = ((\<forall>k\<in>set (requiredInputs s). k \<in> set A)
        \<and> check_dependencies (A @ producedOutputs s) ss = None)"
  by (auto simp: filter_empty_conv split: list.splits)

text \<open>The scan of the validator decides the property.\<close>

lemma check_dependencies_iff:
  "(check_dependencies A P = None) = dependencies_satisfied A P"
proof (induction P arbitrary: A)
  case Nil
  show ?case by (simp add: dependencies_satisfied_def)
next
  case (Cons s ss)
  show ?case
    unfolding check_dependencies_Cons dependencies_satisfied_Cons
    by (simp add: Cons.IH)
qed

lemma check_dependencies_error:
  "check_dependencies A P = Some e \<Longrightarrow> \<exists>s k. e = UnsatisfiedDependency s k"
  by (induction P arbitrary: A) (auto split: list.splits)

lemma check_dependencies_append:
  "check_dependencies A (P @ Q)
     = (case check_dependencies A P of
          Some e \<Rightarrow> Some e
        | None \<Rightarrow> check_dependencies (A @ concat (map producedOutputs P)) Q)"
  by (induction P arbitrary: A) (auto split: list.splits option.splits)

lemma dependencies_satisfied_mono:
  "dependencies_satisfied A P \<Longrightarrow> set A \<subseteq> set B \<Longrightarrow> dependencies_satisfied B P"
  unfolding dependencies_satisfied_def by blast

lemma dependencies_satisfied_append:
  assumes "dependencies_satisfied [] P" and "dependencies_satisfied U Q"
    and "set U \<subseteq> set (concat (map producedOutputs P))"
  shows "dependencies_satisfied [] (P @ Q)"
proof -
  from dependencies_satisfied_mono[OF assms(2) assms(3)]
  have "dependencies_satisfied ([] @ concat (map producedOutputs P)) Q"
    by simp
  with assms(1) show ?thesis
    by (simp add: check_dependencies_iff[symmetric] check_dependencies_append)
qed

lemma build_dependencies:
  "dependencies_satisfied [] P \<or> (\<exists>s k. build P = Inl (UnsatisfiedDependency s k))"
proof (cases "check_dependencies [] P")
  case None
  then show ?thesis by (simp add: check_dependencies_iff)
next
  case (Some e)
  with check_dependencies_error[OF Some] show ?thesis by (auto simp: build_def)
qed

lemma build_Inr:
  "build P = Inr P' \<Longrightarrow> P' = P \<and> dependencies_satisfied [] P"
  by (auto simp: build_def check_dependencies_iff[symmetric] split: option.splits)

text \<open>The stages of a sequencer after a call: those before, then those appended.\<close>

lemma stages_addSeeding:
  "stages (seq (final (addSeeding env w tg fld a)))
     = stages (seq w) @ added w (addSeeding env w tg fld a)"
  by (cases "seedingAlgorithm a"; cases "truthSeedRanges a"; cases "addSeeding_args.outputDirRoot a")
     (simp_all add: seeding_unfold added_def)

lemma stages_addVertexFitting:
  "stages (seq (final (addVertexFitting w fld b)))
     = stages (seq w) @ added w (addVertexFitting w fld b)"
  by (cases "vertexFinder b"; cases "addVertexFitting_args.outputDirRoot b")
     (simp_all add: vertex_unfold added_def)

lemma deps_addSeeding:
  "check_dependencies (seedingUpstream a) (map snd (added w (addSeeding env w tg fld a))) = None"
  by (cases "seedingAlgorithm a"; cases "truthSeedRanges a"; cases "addSeeding_args.outputDirRoot a")
     (simp_all add: added_addSeeding seeding_names seedingUpstream_def requiredInputs_mk
        producedOutputs_mk cfg_key_mk)

lemma deps_addVertexFitting:
  "check_dependencies (vertexUpstream b) (map snd (added w (addVertexFitting w fld b))) = None"
  by (cases "vertexFinder b"; cases "addVertexFitting_args.outputDirRoot b")
     (simp_all add: added_addVertexFitting vertexUpstream_def requiredInputs_mk
        producedOutputs_mk)

lemma produced_by_map: "concat (map producedOutputs (map snd sts)) = produced_by sts"
  by (simp add: produced_by_def comp_def)

text \<open>
  C2 (as amended). For the validator of the spec: every key a stage of a pipeline
  requires is produced by a stage before it, or the build fails with
  \<open>UnsatisfiedDependency\<close>; a pipeline that is built has the property. For the code:
  every stage that \<^verbatim>\<open>addSeeding\<close> or \<^verbatim>\<open>addVertexFitting\<close> appends reads only keys that a
  stage appended earlier by the same call produces, or keys the call takes from upstream
  (\<open>seedingUpstream\<close>, \<open>vertexUpstream\<close>); so when the sequencer handed in satisfies the
  property and its stages produce the upstream keys, the sequencer after the call
  satisfies it too.
\<close>

theorem inputs_produced_before_use:
  "(dependencies_satisfied [] P \<or> (\<exists>s k. build P = Inl (UnsatisfiedDependency s k)))
   \<and> (build P = Inr P' \<longrightarrow> P' = P \<and> dependencies_satisfied [] P)
   \<and> dependencies_satisfied (seedingUpstream a)
        (map snd (added w (addSeeding env w tg fld a)))
   \<and> dependencies_satisfied (vertexUpstream b)
        (map snd (added w (addVertexFitting w fld b)))
   \<and> (dependencies_satisfied [] (map snd (stages (seq w)))
        \<and> set (seedingUpstream a) \<subseteq> set (produced_by (stages (seq w)))
      \<longrightarrow> dependencies_satisfied []
            (map snd (stages (seq (final (addSeeding env w tg fld a))))))
   \<and> (dependencies_satisfied [] (map snd (stages (seq w)))
        \<and> set (vertexUpstream b) \<subseteq> set (produced_by (stages (seq w)))
      \<longrightarrow> dependencies_satisfied []
            (map snd (stages (seq (final (addVertexFitting w fld b))))))"
proof (intro conjI impI)
  show "dependencies_satisfied [] P \<or> (\<exists>s k. build P = Inl (UnsatisfiedDependency s k))"
    by (rule build_dependencies)
  show "dependencies_satisfied (seedingUpstream a)
        (map snd (added w (addSeeding env w tg fld a)))"
    by (simp add: check_dependencies_iff[symmetric] deps_addSeeding)
  show "dependencies_satisfied (vertexUpstream b)
        (map snd (added w (addVertexFitting w fld b)))"
    by (simp add: check_dependencies_iff[symmetric] deps_addVertexFitting)
next
  assume "build P = Inr P'"
  then show "P' = P" and "dependencies_satisfied [] P"
    by (simp_all add: build_Inr)
next
  assume h: "dependencies_satisfied [] (map snd (stages (seq w)))
        \<and> set (seedingUpstream a) \<subseteq> set (produced_by (stages (seq w)))"
  have "dependencies_satisfied []
          (map snd (stages (seq w)) @ map snd (added w (addSeeding env w tg fld a)))"
  proof (rule dependencies_satisfied_append)
    show "dependencies_satisfied [] (map snd (stages (seq w)))" using h by simp
    show "dependencies_satisfied (seedingUpstream a)
            (map snd (added w (addSeeding env w tg fld a)))"
      by (simp add: check_dependencies_iff[symmetric] deps_addSeeding)
    show "set (seedingUpstream a)
            \<subseteq> set (concat (map producedOutputs (map snd (stages (seq w)))))"
      using h by (simp only: produced_by_map)
  qed
  then show "dependencies_satisfied []
            (map snd (stages (seq (final (addSeeding env w tg fld a)))))"
    by (simp add: stages_addSeeding)
next
  assume h: "dependencies_satisfied [] (map snd (stages (seq w)))
        \<and> set (vertexUpstream b) \<subseteq> set (produced_by (stages (seq w)))"
  have "dependencies_satisfied []
          (map snd (stages (seq w)) @ map snd (added w (addVertexFitting w fld b)))"
  proof (rule dependencies_satisfied_append)
    show "dependencies_satisfied [] (map snd (stages (seq w)))" using h by simp
    show "dependencies_satisfied (vertexUpstream b)
            (map snd (added w (addVertexFitting w fld b)))"
      by (simp add: check_dependencies_iff[symmetric] deps_addVertexFitting)
    show "set (vertexUpstream b)
            \<subseteq> set (concat (map producedOutputs (map snd (stages (seq w)))))"
      using h by (simp only: produced_by_map)
  qed
  then show "dependencies_satisfied []
            (map snd (stages (seq (final (addVertexFitting w fld b)))))"
    by (simp add: stages_addVertexFitting)
qed

lemma world1_simps:
  "stages (seq world1) = [(Algorithm, simulated)]"
  "dirs world1 = {[''out'']}"
  by (simp_all add: world1_def world0_def Sequencer_def)

lemma simulated_keys:
  "requiredInputs simulated = []"
  "producedOutputs simulated
     = [''particles_initial'', ''measurement_particles_map'', ''sourcelinks'', ''measurements'',
        ''simhits'', ''measurement_simhits_map'']"
  by (simp_all add: simulated_def requiredInputs_def producedOutputs_def)

theorem inputs_produced_before_use_witness:
  "build gen_transform_sink = Inr gen_transform_sink
   \<and> dependencies_satisfied [] gen_transform_sink
   \<and> dependencies_satisfied [] (map snd (stages (seq world1)))
   \<and> set (seedingUpstream default_addSeeding_args) \<subseteq> set (produced_by (stages (seq world1)))
   \<and> dependencies_satisfied []
       (map snd (stages (seq (final (addSeeding env0 world1 0 0 default_addSeeding_args)))))"
proof -
  have b: "build gen_transform_sink = Inr gen_transform_sink"
    by (simp add: build_def gen_transform_sink_def requiredInputs_def producedOutputs_def)
  have h1: "dependencies_satisfied [] (map snd (stages (seq world1)))"
    by (simp add: check_dependencies_iff[symmetric] world1_simps simulated_keys)
  have h2: "set (seedingUpstream default_addSeeding_args)
              \<subseteq> set (produced_by (stages (seq world1)))"
    by (simp add: seedingUpstream_def produced_by_def world1_simps simulated_keys
          default_args_simps)
  show ?thesis
    using inputs_produced_before_use[where P = gen_transform_sink and P' = gen_transform_sink
            and w = world1 and env = env0 and tg = 0 and fld = 0
            and a = default_addSeeding_args] b h1 h2
    by simp
qed

text \<open>
  C2 as it was stated fails for \<^verbatim>\<open>addSeeding\<close> on a sequencer that holds no stage: the
  call returns, and the first stage of the pipeline, the truth seed selector, reads
  \<^verbatim>\<open>particles_initial\<close>, which no stage before it produces. The validator of the spec
  would refuse this pipeline.
\<close>

theorem addSeeding_alone_counterexample:
  "stages (seq world0) = []
   \<and> raised (addSeeding env0 world0 0 0 default_addSeeding_args) = None
   \<and> \<not> dependencies_satisfied []
        (map snd (stages (seq (final (addSeeding env0 world0 0 0 default_addSeeding_args)))))
   \<and> build (map snd (stages (seq (final (addSeeding env0 world0 0 0 default_addSeeding_args)))))
      = Inl (UnsatisfiedDependency ''TruthSeedSelector'' ''particles_initial'')"
proof -
  have c: "check_dependencies []
        (map snd (stages (seq (final (addSeeding env0 world0 0 0 default_addSeeding_args)))))
      = Some (UnsatisfiedDependency ''TruthSeedSelector'' ''particles_initial'')"
    by (simp add: stages_addSeeding added_addSeeding selectorStages_def default_args_simps
          world0_simps requiredInputs_mk cls_mk)
  have "raised (addSeeding env0 world0 0 0 default_addSeeding_args) = None"
    by (simp add: raised_addSeeding seedingWriterError_def default_args_simps)
  with c show ?thesis
    by (simp add: check_dependencies_iff[symmetric] build_def world0_simps)
qed

end
